theory Spec2Isabelle
  imports Complex_Main
begin


section \<open>Outcome of a parser function\<close>

text \<open>
  The parser of \<^verbatim>\<open>src/src/lparser.cpp\<close> never returns an error code: every error
  leaves through \<^verbatim>\<open>throwerr\<close>, \<^verbatim>\<open>luaX_syntaxerror\<close> or \<^verbatim>\<open>luaK_semerror\<close>,
  which do not return. A model function therefore yields \<open>Done\<close> with its result,
  or \<open>Fail\<close> with the error raised. The recursive non-terminals are run with a bound
  on the number of unfoldings; \<open>OutOfFuel\<close> says that the bound was too small and
  is never a verdict about the program that is parsed.

  An error keeps the raising function and its message as the source writes it: the
  format string (quote marks left out) and the values formatted into it.
\<close>

datatype tk =
    TK_CHAR char
  | TK_RES string
  | TK_OP string
  | TK_EOS | TK_FLT | TK_INT | TK_NAME | TK_STRING

datatype arg = S string | N int | T tk

datatype error =
    ThrowErr string "arg list" string
  | SyntaxError string "arg list"
  | SemError string "arg list"

datatype 'a result = Done 'a | Fail error | OutOfFuel

definition bindR :: "'a result \<Rightarrow> ('a \<Rightarrow> 'b result) \<Rightarrow> 'b result" where
  "bindR x f = (case x of Done v \<Rightarrow> f v | Fail e \<Rightarrow> Fail e | OutOfFuel \<Rightarrow> OutOfFuel)"

definition is_Done :: "'a result \<Rightarrow> bool" where
  "is_Done x = (case x of Done v \<Rightarrow> True | Fail e \<Rightarrow> False | OutOfFuel \<Rightarrow> False)"

section \<open>Tokens\<close>

text \<open>
  A token code is a single character, a reserved word, a multi-character operator or
  one of the literal classes. \<^verbatim>\<open>llex.h\<close> is not among the sources; the names below
  are the ones \<^verbatim>\<open>lparser.cpp\<close> uses. The \<open>TK_P...\<close> tokens are the prefixed
  spellings that stay reserved in a compatibility build.
\<close>

abbreviation TK_AND :: tk where "TK_AND \<equiv> TK_RES ''and''"
abbreviation TK_BREAK :: tk where "TK_BREAK \<equiv> TK_RES ''break''"
abbreviation TK_CASE :: tk where "TK_CASE \<equiv> TK_RES ''case''"
abbreviation TK_CONTINUE :: tk where "TK_CONTINUE \<equiv> TK_RES ''continue''"
abbreviation TK_DEFAULT :: tk where "TK_DEFAULT \<equiv> TK_RES ''default''"
abbreviation TK_DO :: tk where "TK_DO \<equiv> TK_RES ''do''"
abbreviation TK_ELSE :: tk where "TK_ELSE \<equiv> TK_RES ''else''"
abbreviation TK_ELSEIF :: tk where "TK_ELSEIF \<equiv> TK_RES ''elseif''"
abbreviation TK_END :: tk where "TK_END \<equiv> TK_RES ''end''"
abbreviation TK_FALSE :: tk where "TK_FALSE \<equiv> TK_RES ''false''"
abbreviation TK_FOR :: tk where "TK_FOR \<equiv> TK_RES ''for''"
abbreviation TK_FUNCTION :: tk where "TK_FUNCTION \<equiv> TK_RES ''function''"
abbreviation TK_GOTO :: tk where "TK_GOTO \<equiv> TK_RES ''goto''"
abbreviation TK_IF :: tk where "TK_IF \<equiv> TK_RES ''if''"
abbreviation TK_IN :: tk where "TK_IN \<equiv> TK_RES ''in''"
abbreviation TK_LOCAL :: tk where "TK_LOCAL \<equiv> TK_RES ''local''"
abbreviation TK_NIL :: tk where "TK_NIL \<equiv> TK_RES ''nil''"
abbreviation TK_NOT :: tk where "TK_NOT \<equiv> TK_RES ''not''"
abbreviation TK_OR :: tk where "TK_OR \<equiv> TK_RES ''or''"
abbreviation TK_REPEAT :: tk where "TK_REPEAT \<equiv> TK_RES ''repeat''"
abbreviation TK_RETURN :: tk where "TK_RETURN \<equiv> TK_RES ''return''"
abbreviation TK_SWITCH :: tk where "TK_SWITCH \<equiv> TK_RES ''switch''"
abbreviation TK_THEN :: tk where "TK_THEN \<equiv> TK_RES ''then''"
abbreviation TK_TRUE :: tk where "TK_TRUE \<equiv> TK_RES ''true''"
abbreviation TK_UNTIL :: tk where "TK_UNTIL \<equiv> TK_RES ''until''"
abbreviation TK_WHEN :: tk where "TK_WHEN \<equiv> TK_RES ''when''"
abbreviation TK_WHILE :: tk where "TK_WHILE \<equiv> TK_RES ''while''"
abbreviation TK_PSWITCH :: tk where "TK_PSWITCH \<equiv> TK_RES ''pluto_switch''"
abbreviation TK_PCONTINUE :: tk where "TK_PCONTINUE \<equiv> TK_RES ''pluto_continue''"
abbreviation TK_PWHEN :: tk where "TK_PWHEN \<equiv> TK_RES ''pluto_when''"
abbreviation TK_PCASE :: tk where "TK_PCASE \<equiv> TK_RES ''pluto_case''"
abbreviation TK_PDEFAULT :: tk where "TK_PDEFAULT \<equiv> TK_RES ''pluto_default''"

abbreviation TK_IDIV :: tk where "TK_IDIV \<equiv> TK_OP ''IDIV''"
abbreviation TK_CONCAT :: tk where "TK_CONCAT \<equiv> TK_OP ''CONCAT''"
abbreviation TK_DOTS :: tk where "TK_DOTS \<equiv> TK_OP ''DOTS''"
abbreviation TK_EQ :: tk where "TK_EQ \<equiv> TK_OP ''EQ''"
abbreviation TK_GE :: tk where "TK_GE \<equiv> TK_OP ''GE''"
abbreviation TK_LE :: tk where "TK_LE \<equiv> TK_OP ''LE''"
abbreviation TK_NE :: tk where "TK_NE \<equiv> TK_OP ''NE''"
abbreviation TK_SHL :: tk where "TK_SHL \<equiv> TK_OP ''SHL''"
abbreviation TK_SHR :: tk where "TK_SHR \<equiv> TK_OP ''SHR''"
abbreviation TK_POW :: tk where "TK_POW \<equiv> TK_OP ''POW''"
abbreviation TK_COAL :: tk where "TK_COAL \<equiv> TK_OP ''COAL''"
abbreviation TK_DBCOLON :: tk where "TK_DBCOLON \<equiv> TK_OP ''DBCOLON''"

abbreviation TK_CCAT :: tk where "TK_CCAT \<equiv> TK_OP ''CCAT''"
abbreviation TK_CADD :: tk where "TK_CADD \<equiv> TK_OP ''CADD''"
abbreviation TK_CSUB :: tk where "TK_CSUB \<equiv> TK_OP ''CSUB''"
abbreviation TK_CMUL :: tk where "TK_CMUL \<equiv> TK_OP ''CMUL''"
abbreviation TK_CMOD :: tk where "TK_CMOD \<equiv> TK_OP ''CMOD''"
abbreviation TK_CDIV :: tk where "TK_CDIV \<equiv> TK_OP ''CDIV''"
abbreviation TK_CPOW :: tk where "TK_CPOW \<equiv> TK_OP ''CPOW''"
abbreviation TK_CIDIV :: tk where "TK_CIDIV \<equiv> TK_OP ''CIDIV''"
abbreviation TK_CBOR :: tk where "TK_CBOR \<equiv> TK_OP ''CBOR''"
abbreviation TK_CBAND :: tk where "TK_CBAND \<equiv> TK_OP ''CBAND''"
abbreviation TK_CBXOR :: tk where "TK_CBXOR \<equiv> TK_OP ''CBXOR''"
abbreviation TK_CSHL :: tk where "TK_CSHL \<equiv> TK_OP ''CSHL''"
abbreviation TK_CSHR :: tk where "TK_CSHR \<equiv> TK_OP ''CSHR''"

section \<open>Data of the parser\<close>

text \<open>
  \<^verbatim>\<open>lparser.h\<close>, \<^verbatim>\<open>lcode.h\<close> and \<^verbatim>\<open>lobject.h\<close> are not among the
  sources. The enumerations are written in the order the source's tables and comments
  give them (\<open>ORDER OPR\<close> at the priority table); the structures carry the fields
  that \<^verbatim>\<open>lparser.cpp\<close> reads and writes.
\<close>

datatype expkind =
    VVOID | VNIL | VTRUE | VFALSE | VK | VKFLT | VKINT | VKSTR | VNONRELOC | VLOCAL
  | VUPVAL | VCONST | VINDEXED | VINDEXUP | VINDEXI | VINDEXSTR | VJMP | VRELOC
  | VCALL | VVARARG

datatype BinOpr =
    OPR_ADD | OPR_SUB | OPR_MUL | OPR_MOD | OPR_POW | OPR_DIV | OPR_IDIV
  | OPR_BAND | OPR_BOR | OPR_BXOR | OPR_SHL | OPR_SHR | OPR_CONCAT
  | OPR_EQ | OPR_LT | OPR_LE | OPR_NE | OPR_GT | OPR_GE
  | OPR_AND | OPR_OR | OPR_COAL | OPR_NOBINOPR

datatype UnOpr = OPR_MINUS | OPR_BNOT | OPR_NOT | OPR_LEN | OPR_NOUNOPR

datatype varkind = VDKREG | RDKCONST | RDKTOCLOSE | RDKCTC

datatype TValue = TNil | TBool bool | TInt int | TFlt real | TStr string

text \<open>
  A jump list is the list of the positions of its pending jumps. The C code keeps the
  position of the first one and threads the others through the jump offsets;
  \<^verbatim>\<open>NO_JUMP\<close> is the empty list.
\<close>

type_synonym jumplist = "nat list"

definition NO_JUMP :: jumplist where
  "NO_JUMP = []"

record Token =
  token :: tk
  seminfo_r :: real
  seminfo_i :: int
  seminfo_ts :: string

text \<open>
  \<open>u\<close> is a union in C. \<open>e_info\<close> and the pair \<open>e_var_ridx\<close>, \<open>e_var_vidx\<close>
  share storage there, and \<^verbatim>\<open>switchstat\<close> relies on it; \<open>init_exp\<close> below writes
  them together.
\<close>

record expdesc =
  e_k :: expkind
  e_ival :: int
  e_nval :: real
  e_strval :: string
  e_info :: int
  e_ind_idx :: int
  e_ind_t :: int
  e_var_ridx :: int
  e_var_vidx :: nat
  e_t :: jumplist
  e_f :: jumplist

record Vardesc =
  vd_k :: TValue
  vd_kind :: varkind
  vd_typehint :: "expkind option"
  vd_ridx :: int
  vd_pidx :: nat
  vd_name :: string
  vd_linenumber :: int

text \<open>
  One structure serves labels and pending gotos. For a label \<open>lb_pc\<close> is its
  position; for a goto it is the jump list to patch.
\<close>

record 'p Labeldesc =
  lb_name :: string
  lb_pc :: 'p
  lb_line :: int
  lb_nactvar :: nat
  lb_close :: bool

text \<open>The chain through \<^verbatim>\<open>previous\<close> is the rest of the list that holds the block.\<close>

record BlockCnt =
  bl_scopeend :: jumplist
  bl_firstlabel :: nat
  bl_firstgoto :: nat
  bl_nactvar :: nat
  bl_upval :: bool
  bl_isloop :: bool
  bl_insidetbc :: bool

record Upvaldesc =
  up_name :: string
  up_instack :: bool
  up_idx :: int
  up_kind :: varkind

record LocVar =
  lv_varname :: string
  lv_startpc :: nat
  lv_endpc :: nat

datatype OpCode = OP string

record Instruction =
  i_op :: OpCode
  i_A :: int
  i_B :: int
  i_C :: int
  i_k :: bool
  i_Bx :: int
  i_sJ :: int

datatype Proto =
  Proto (p_code: "Instruction list") (p_k: "TValue list") (p_p: "Proto list")
    (p_upvalues: "Upvaldesc list") (p_locvars: "LocVar list") (p_numparams: nat)
    (p_is_vararg: bool) (p_maxstacksize: int) (p_linedefined: int)
    (p_lastlinedefined: int)

text \<open>
  \<open>FuncState\<close> holds the function being compiled together with the fields of its
  prototype \<^verbatim>\<open>fs->f\<close>. The vectors keep their used part only, so the counters
  \<^verbatim>\<open>pc\<close>, \<^verbatim>\<open>nk\<close>, \<^verbatim>\<open>np\<close>, \<^verbatim>\<open>nups\<close> and \<^verbatim>\<open>ndebugvars\<close> are their lengths.
  Line information is not kept.
\<close>

record FuncState =
  fs_code :: "Instruction list"
  fs_k :: "TValue list"
  fs_p :: "Proto list"
  fs_upvalues :: "Upvaldesc list"
  fs_locvars :: "LocVar list"
  fs_numparams :: nat
  fs_is_vararg :: bool
  fs_maxstacksize :: int
  fs_linedefined :: int
  fs_lastlinedefined :: int
  fs_lasttarget :: nat
  fs_freereg :: int
  fs_nactvar :: nat
  fs_needclose :: bool
  fs_firstlocal :: nat
  fs_firstlabel :: nat
  fs_bl :: "BlockCnt list"

text \<open>
  What the lexer hands over for one token: the token, the line it stands on, and for a
  compound assignment the operator that the lexer leaves in \<^verbatim>\<open>ls->lasttoken\<close>
  while it reports the token \<^verbatim>\<open>'='\<close>.
\<close>

record lexeme =
  lx_tok :: Token
  lx_line :: int
  lx_last :: "tk option"

text \<open>
  The build switches \<^verbatim>\<open>PLUTO_COMPATIBLE_...\<close> of \<^verbatim>\<open>luaconf.h\<close> (not among
  the sources) are a parameter: \<open>True\<close> stands for a defined macro.
\<close>

record config =
  compat_when :: bool
  compat_default :: bool
  compat_case :: bool
  compat_continue :: bool
  compat_switch :: bool

text \<open>
  \<open>LexState\<close> with the dynamic data \<^verbatim>\<open>ls->dyd\<close> inlined. \<open>ls_fs\<close> is the
  function being compiled and \<open>ls_prev\<close> the chain \<^verbatim>\<open>fs->prev\<close> of the enclosing
  ones. \<^verbatim>\<open>dyd->actvar\<close> is kept as the array and its count \<^verbatim>\<open>n\<close>, because
  \<^verbatim>\<open>leaveblock\<close> still reads entries above the count after it has lowered it; the
  label and goto arrays keep their first \<^verbatim>\<open>n\<close> entries.

  Not modelled: the growth of the vectors (\<^verbatim>\<open>luaM_growvector\<close>) and the C-stack
  counter (\<^verbatim>\<open>enterlevel\<close>, \<^verbatim>\<open>leavelevel\<close>), which belong to the host runtime,
  and the warning channel with the type hints it reports on (\<^verbatim>\<open>throw_warn\<close>,
  \<^verbatim>\<open>process_assign\<close>, the \<^verbatim>\<open>prop\<close> arguments), which never changes what is
  parsed or emitted.
\<close>

record LexState =
  ls_t :: Token
  ls_lookahead :: Token
  ls_input :: "lexeme list"
  ls_linenumber :: int
  ls_lasttoken :: "tk option"
  ls_fs :: FuncState
  ls_prev :: "FuncState list"
  actvar_arr :: "Vardesc list"
  actvar_n :: nat
  dyd_gt :: "jumplist Labeldesc list"
  dyd_label :: "nat Labeldesc list"
  ls_envn :: string
  ls_cfg :: config


section \<open>The lexer as the parser sees it\<close>

text \<open>
  Modelled from the spec: the lexer (\<^verbatim>\<open>llex.cpp\<close>) is an external collaborator
  with one token of lookahead. Here it reads from the list of lexemes still to come and
  reports \<open>TK_EOS\<close> when the list is empty. Scanning a lexeme moves the line number
  to it and, for a compound assignment, stores the operator in \<open>ls_lasttoken\<close>.
\<close>

definition mk_token :: "tk \<Rightarrow> Token" where
  "mk_token c = \<lparr>token = c, seminfo_r = 0, seminfo_i = 0, seminfo_ts = []\<rparr>"

definition llex :: "LexState \<Rightarrow> Token \<times> LexState" where
  "llex ls =
    (case ls_input ls of
       [] \<Rightarrow> (mk_token TK_EOS, ls)
     | x # xs \<Rightarrow>
         (lx_tok x,
          ls\<lparr>ls_input := xs, ls_linenumber := lx_line x,
             ls_lasttoken := (case lx_last x of None \<Rightarrow> ls_lasttoken ls | Some c \<Rightarrow> Some c)\<rparr>))"

definition luaX_next :: "LexState \<Rightarrow> LexState" where
  "luaX_next ls =
    (if token (ls_lookahead ls) \<noteq> TK_EOS
     then ls\<lparr>ls_t := ls_lookahead ls, ls_lookahead := mk_token TK_EOS\<rparr>
     else (case llex ls of (t, ls') \<Rightarrow> ls'\<lparr>ls_t := t\<rparr>))"

definition luaX_lookahead :: "LexState \<Rightarrow> tk \<times> LexState" where
  "luaX_lookahead ls = (case llex ls of (t, ls') \<Rightarrow> (token t, ls'\<lparr>ls_lookahead := t\<rparr>))"

definition gett :: "LexState \<Rightarrow> tk" where
  "gett ls = token (ls_t ls)"

text \<open>
  Modelled from the spec: \<^verbatim>\<open>Token::IsReservedNonValue\<close> (\<^verbatim>\<open>llex.h\<close>), the
  reserved words that do not stand for a value.
\<close>

definition IsReservedNonValue :: "Token \<Rightarrow> bool" where
  "IsReservedNonValue t =
    (case token t of
       TK_RES w \<Rightarrow> token t \<noteq> TK_TRUE \<and> token t \<noteq> TK_FALSE \<and> token t \<noteq> TK_NIL
     | _ \<Rightarrow> False)"

text \<open>Modelled from the spec: \<^verbatim>\<open>luaX_reserved2str\<close>, the spelling of a reserved word.\<close>

definition luaX_reserved2str :: "tk \<Rightarrow> string" where
  "luaX_reserved2str c = (case c of TK_RES w \<Rightarrow> w | _ \<Rightarrow> [])"

section \<open>Raising errors\<close>

definition throwerr :: "string \<Rightarrow> arg list \<Rightarrow> string \<Rightarrow> 'a result" where
  "throwerr err args here = Fail (ThrowErr err args here)"

definition luaX_syntaxerror :: "string \<Rightarrow> arg list \<Rightarrow> 'a result" where
  "luaX_syntaxerror msg args = Fail (SyntaxError msg args)"

definition luaK_semerror :: "string \<Rightarrow> arg list \<Rightarrow> 'a result" where
  "luaK_semerror msg args = Fail (SemError msg args)"

definition error_expected :: "LexState \<Rightarrow> tk \<Rightarrow> 'a result" where
  "error_expected ls c =
    (if c = TK_CHAR CHR ''|'' then
       throwerr ''expected | to control parameters.'' []
         ''expected | to begin & terminate the lambdas paramater list.''
     else if c = TK_CHAR CHR ''-'' \<and> fst (luaX_lookahead ls) = TK_CHAR CHR ''>'' then
       throwerr ''impromper lambda definition'' []
         ''expected -> arrow syntax for lambda expression.''
     else if c = TK_IN then
       throwerr ''expected in to delimit loop iterator.'' [] ''expected in symbol.''
     else if c = TK_DO then
       throwerr ''expected do to establish block.'' []
         ''you need to append this with the do symbol.''
     else if c = TK_END then
       throwerr ''expected end to terminate block.'' []
         ''expected end symbol after or on this line.''
     else if c = TK_THEN then
       throwerr ''expected then to delimit condition.'' [] ''expected then symbol.''
     else if c = TK_NAME then
       throwerr ''expected an identifier.'' [] ''this needs a name.''
     else if c = TK_PCONTINUE then
       throwerr ''expected continue inside a loop.'' [] ''this is not within a loop.''
     else
       throwerr ''%s expected (got %s)'' [T c, T (gett ls)] ''this is invalid syntax.'')"

definition errorlimit :: "FuncState \<Rightarrow> int \<Rightarrow> string \<Rightarrow> 'a result" where
  "errorlimit fs limit what =
    luaX_syntaxerror ''too many %s (limit is %d) in %s''
      ([S what, N limit] @
       (if fs_linedefined fs = 0 then [S ''main function'']
        else [S ''function at line %d'', N (fs_linedefined fs)]))"

definition checklimit :: "FuncState \<Rightarrow> int \<Rightarrow> int \<Rightarrow> string \<Rightarrow> unit result" where
  "checklimit fs v l what = (if v > l then errorlimit fs l what else Done ())"

definition testnext :: "LexState \<Rightarrow> tk \<Rightarrow> bool \<times> LexState" where
  "testnext ls c = (if gett ls = c then (True, luaX_next ls) else (False, ls))"

definition check :: "LexState \<Rightarrow> tk \<Rightarrow> unit result" where
  "check ls c = (if gett ls \<noteq> c then error_expected ls c else Done ())"

definition checknext :: "LexState \<Rightarrow> tk \<Rightarrow> LexState result" where
  "checknext ls c = bindR (check ls c) (\<lambda>_. Done (luaX_next ls))"

definition check_condition :: "bool \<Rightarrow> string \<Rightarrow> unit result" where
  "check_condition c msg = (if \<not> c then luaX_syntaxerror msg [] else Done ())"

definition check_match :: "LexState \<Rightarrow> tk \<Rightarrow> tk \<Rightarrow> int \<Rightarrow> LexState result" where
  "check_match ls what who where' =
    (case testnext ls what of
       (True, ls') \<Rightarrow> Done ls'
     | (False, _) \<Rightarrow>
         if where' = ls_linenumber ls then error_expected ls what
         else if what = TK_END then
           (if who = TK_IF then
              throwerr ''missing end to terminate if statement.'' []
                ''this was the last statement.''
            else if who = TK_DO then
              throwerr ''missing end to terminate do block.'' []
                ''this was the last statement.''
            else if who = TK_FOR then
              throwerr ''missing end to terminate for block.'' []
                ''this was the last statement.''
            else if who = TK_WHILE then
              throwerr ''missing end to terminate while block.'' []
                ''this was the last statement.''
            else if who = TK_FUNCTION then
              throwerr ''missing end to terminate function block.'' []
                ''this was the last statement.''
            else throwerr ''missing end to terminate block.'' [] ''missing termination.'')
         else
           luaK_semerror ''syntax error: %s expected (to close %s at line %d)''
             [T what, T who, N where'])"

definition str_checkname :: "LexState \<Rightarrow> bool \<Rightarrow> (string \<times> LexState) result" where
  "str_checkname ls strict =
    (if gett ls \<noteq> TK_NAME \<and> (strict \<or> \<not> IsReservedNonValue (ls_t ls))
     then error_expected ls TK_NAME
     else Done (seminfo_ts (ls_t ls), luaX_next ls))"

definition init_exp :: "expdesc \<Rightarrow> expkind \<Rightarrow> int \<Rightarrow> expdesc" where
  "init_exp e k i =
    e\<lparr>e_f := NO_JUMP, e_t := NO_JUMP, e_k := k, e_info := i,
      e_var_ridx := i mod 256, e_var_vidx := nat (i div 65536 mod 65536)\<rparr>"

definition codestring :: "expdesc \<Rightarrow> string \<Rightarrow> expdesc" where
  "codestring e s = e\<lparr>e_f := NO_JUMP, e_t := NO_JUMP, e_k := VKSTR, e_strval := s\<rparr>"

definition codename :: "LexState \<Rightarrow> expdesc \<Rightarrow> (expdesc \<times> LexState) result" where
  "codename ls e = bindR (str_checkname ls False) (\<lambda>(ts, ls). Done (codestring e ts, ls))"

text \<open>An expression descriptor before anything is written to it.\<close>

definition void_exp :: expdesc where
  "void_exp = \<lparr>e_k = VVOID, e_ival = 0, e_nval = 0, e_strval = [], e_info = 0,
     e_ind_idx = 0, e_ind_t = 0, e_var_ridx = 0, e_var_vidx = 0, e_t = [], e_f = []\<rparr>"

section \<open>Active variables\<close>

definition MAXVARS :: int where
  "MAXVARS = 249"

text \<open>Modelled from the spec: the limit \<^verbatim>\<open>MAXUPVAL\<close> of \<^verbatim>\<open>lfunc.h\<close>.\<close>

definition MAXUPVAL :: int where
  "MAXUPVAL = 255"

definition fs_pc :: "FuncState \<Rightarrow> nat" where
  "fs_pc fs = length (fs_code fs)"

definition registerlocalvar :: "LexState \<Rightarrow> string \<Rightarrow> nat \<times> LexState" where
  "registerlocalvar ls varname =
    (let fs = ls_fs ls;
         lv = \<lparr>lv_varname = varname, lv_startpc = fs_pc fs, lv_endpc = 0\<rparr>
     in (length (fs_locvars fs), ls\<lparr>ls_fs := fs\<lparr>fs_locvars := fs_locvars fs @ [lv]\<rparr>\<rparr>))"

definition getlocalvardesc :: "LexState \<Rightarrow> FuncState \<Rightarrow> nat \<Rightarrow> Vardesc" where
  "getlocalvardesc ls fs vidx = actvar_arr ls ! (fs_firstlocal fs + vidx)"

primrec reglevel :: "LexState \<Rightarrow> FuncState \<Rightarrow> nat \<Rightarrow> int" where
  "reglevel ls fs 0 = 0"
| "reglevel ls fs (Suc nvar) =
    (if vd_kind (getlocalvardesc ls fs nvar) \<noteq> RDKCTC
     then vd_ridx (getlocalvardesc ls fs nvar) + 1
     else reglevel ls fs nvar)"

definition luaY_nvarstack :: "LexState \<Rightarrow> int" where
  "luaY_nvarstack ls = reglevel ls (ls_fs ls) (fs_nactvar (ls_fs ls))"

definition localdebuginfo :: "LexState \<Rightarrow> FuncState \<Rightarrow> nat \<Rightarrow> nat option" where
  "localdebuginfo ls fs vidx =
    (if vd_kind (getlocalvardesc ls fs vidx) = RDKCTC then None
     else Some (vd_pidx (getlocalvardesc ls fs vidx)))"

text \<open>
  \<^verbatim>\<open>new_localvar\<close> fills the slot \<^verbatim>\<open>arr[n]\<close>: it writes the kind, the hint, the
  name and the line and leaves what the slot held in its other fields. A slot the array
  does not have yet starts from \<open>fresh_vardesc\<close>. The loop in front of the limit check
  (lines 517 to 530) only reports duplicate declarations on the warning channel.
\<close>

definition fresh_vardesc :: Vardesc where
  "fresh_vardesc = \<lparr>vd_k = TNil, vd_kind = VDKREG, vd_typehint = None, vd_ridx = 0,
     vd_pidx = 0, vd_name = [], vd_linenumber = 0\<rparr>"

definition set_slot :: "'a list \<Rightarrow> nat \<Rightarrow> 'a \<Rightarrow> 'a \<Rightarrow> 'a list" where
  "set_slot xs i x d =
    (if i < length xs then xs[i := x] else xs @ replicate (i - length xs) d @ [x])"

definition new_localvar :: "LexState \<Rightarrow> string \<Rightarrow> (nat \<times> LexState) result" where
  "new_localvar ls name =
    bindR (checklimit (ls_fs ls) (int (actvar_n ls) + 1 - int (fs_firstlocal (ls_fs ls)))
             MAXVARS ''local variables'') (\<lambda>_.
    let n = actvar_n ls;
        old = (if n < length (actvar_arr ls) then actvar_arr ls ! n else fresh_vardesc);
        var = old\<lparr>vd_kind := VDKREG, vd_typehint := None, vd_name := name,
                  vd_linenumber := ls_linenumber ls\<rparr>
    in Done (n - fs_firstlocal (ls_fs ls),
             ls\<lparr>actvar_arr := set_slot (actvar_arr ls) n var fresh_vardesc, actvar_n := n + 1\<rparr>))"

definition init_var :: "LexState \<Rightarrow> FuncState \<Rightarrow> expdesc \<Rightarrow> nat \<Rightarrow> expdesc" where
  "init_var ls fs e vidx =
    e\<lparr>e_f := NO_JUMP, e_t := NO_JUMP, e_k := VLOCAL, e_var_vidx := vidx,
      e_var_ridx := vd_ridx (getlocalvardesc ls fs vidx)\<rparr>"

definition check_readonly :: "LexState \<Rightarrow> expdesc \<Rightarrow> unit result" where
  "check_readonly ls e =
    (let fs = ls_fs ls;
         varname =
           (case e_k e of
              VCONST \<Rightarrow> Some (vd_name (actvar_arr ls ! nat (e_info e)))
            | VLOCAL \<Rightarrow>
                (let vardesc = getlocalvardesc ls fs (e_var_vidx e)
                 in if vd_kind vardesc \<noteq> VDKREG then Some (vd_name vardesc) else None)
            | VUPVAL \<Rightarrow>
                (let up = fs_upvalues fs ! nat (e_info e)
                 in if up_kind up \<noteq> VDKREG then Some (up_name up) else None)
            | _ \<Rightarrow> None)
     in case varname of
          Some n \<Rightarrow>
            throwerr ''attempt to reassign constant %s'' [S n]
              ''this variable is constant, and cannot be reassigned.''
        | None \<Rightarrow> Done ())"

primrec adjustlocalvars_loop :: "nat \<Rightarrow> int \<Rightarrow> LexState \<Rightarrow> LexState" where
  "adjustlocalvars_loop 0 reglevel' ls = ls"
| "adjustlocalvars_loop (Suc i) reglevel' ls =
    (let fs = ls_fs ls;
         vidx = fs_nactvar fs;
         ls1 = ls\<lparr>ls_fs := fs\<lparr>fs_nactvar := vidx + 1\<rparr>\<rparr>;
         slot = fs_firstlocal fs + vidx;
         var = actvar_arr ls1 ! slot;
         ls2 = snd (registerlocalvar ls1 (vd_name var));
         pidx = fst (registerlocalvar ls1 (vd_name var));
         ls3 = ls2\<lparr>actvar_arr := (actvar_arr ls2)[slot := var\<lparr>vd_ridx := reglevel', vd_pidx := pidx\<rparr>]\<rparr>
     in adjustlocalvars_loop i (reglevel' + 1) ls3)"

definition adjustlocalvars :: "LexState \<Rightarrow> int \<Rightarrow> LexState" where
  "adjustlocalvars ls nvars = adjustlocalvars_loop (nat nvars) (luaY_nvarstack ls) ls"

primrec removevars_loop :: "nat \<Rightarrow> LexState \<Rightarrow> LexState" where
  "removevars_loop 0 ls = ls"
| "removevars_loop (Suc i) ls =
    (let fs = ls_fs ls;
         fs1 = fs\<lparr>fs_nactvar := fs_nactvar fs - 1\<rparr>;
         fs2 = (case localdebuginfo ls fs1 (fs_nactvar fs1) of
                  Some idx \<Rightarrow>
                    fs1\<lparr>fs_locvars :=
                          (fs_locvars fs1)[idx := (fs_locvars fs1 ! idx)\<lparr>lv_endpc := fs_pc fs1\<rparr>]\<rparr>
                | None \<Rightarrow> fs1)
     in removevars_loop i (ls\<lparr>ls_fs := fs2\<rparr>))"

definition removevars :: "LexState \<Rightarrow> nat \<Rightarrow> LexState" where
  "removevars ls tolevel =
    removevars_loop (fs_nactvar (ls_fs ls) - tolevel)
      (ls\<lparr>actvar_n := actvar_n ls - (fs_nactvar (ls_fs ls) - tolevel)\<rparr>)"

primrec searchupvalue_from :: "Upvaldesc list \<Rightarrow> string \<Rightarrow> int \<Rightarrow> int" where
  "searchupvalue_from [] name i = - 1"
| "searchupvalue_from (up # ups) name i =
    (if up_name up = name then i else searchupvalue_from ups name (i + 1))"

definition searchupvalue :: "FuncState \<Rightarrow> string \<Rightarrow> int" where
  "searchupvalue fs name = searchupvalue_from (fs_upvalues fs) name 0"

text \<open>
  \<^verbatim>\<open>allocupvalue\<close> checks the limit and hands out the next entry of the upvalue
  vector; its caller fills the entry, so the model appends the filled entry.
\<close>

definition allocupvalue :: "FuncState \<Rightarrow> Upvaldesc \<Rightarrow> FuncState result" where
  "allocupvalue fs up =
    bindR (checklimit fs (int (length (fs_upvalues fs)) + 1) MAXUPVAL ''upvalues'') (\<lambda>_.
    Done (fs\<lparr>fs_upvalues := fs_upvalues fs @ [up]\<rparr>))"

definition newupvalue ::
  "LexState \<Rightarrow> FuncState \<Rightarrow> FuncState \<Rightarrow> string \<Rightarrow> expdesc \<Rightarrow> (int \<times> FuncState) result" where
  "newupvalue ls fs prev name v =
    bindR (allocupvalue fs
        (if e_k v = VLOCAL then
           \<lparr>up_name = name, up_instack = True, up_idx = e_var_ridx v,
            up_kind = vd_kind (getlocalvardesc ls prev (e_var_vidx v))\<rparr>
         else
           \<lparr>up_name = name, up_instack = False, up_idx = e_info v mod 256,
            up_kind = up_kind (fs_upvalues prev ! nat (e_info v))\<rparr>)) (\<lambda>fs'.
    Done (int (length (fs_upvalues fs')) - 1, fs'))"

primrec searchvar_from ::
  "LexState \<Rightarrow> FuncState \<Rightarrow> string \<Rightarrow> expdesc \<Rightarrow> nat \<Rightarrow> expdesc option" where
  "searchvar_from ls fs n var 0 = None"
| "searchvar_from ls fs n var (Suc i) =
    (if n = vd_name (getlocalvardesc ls fs i) then
       (if vd_kind (getlocalvardesc ls fs i) = RDKCTC
        then Some (init_exp var VCONST (int (fs_firstlocal fs + i)))
        else Some (init_var ls fs var i))
     else searchvar_from ls fs n var i)"

definition searchvar :: "LexState \<Rightarrow> FuncState \<Rightarrow> string \<Rightarrow> expdesc \<Rightarrow> expdesc option" where
  "searchvar ls fs n var = searchvar_from ls fs n var (fs_nactvar fs)"

primrec markupval_bl :: "BlockCnt list \<Rightarrow> nat \<Rightarrow> BlockCnt list" where
  "markupval_bl [] level = []"
| "markupval_bl (bl # previous) level =
    (if bl_nactvar bl > level then bl # markupval_bl previous level
     else bl\<lparr>bl_upval := True\<rparr> # previous)"

definition markupval :: "FuncState \<Rightarrow> nat \<Rightarrow> FuncState" where
  "markupval fs level = fs\<lparr>fs_bl := markupval_bl (fs_bl fs) level, fs_needclose := True\<rparr>"

definition marktobeclosed :: "FuncState \<Rightarrow> FuncState" where
  "marktobeclosed fs =
    fs\<lparr>fs_bl := (case fs_bl fs of [] \<Rightarrow> []
                  | bl # previous \<Rightarrow> bl\<lparr>bl_upval := True, bl_insidetbc := True\<rparr> # previous),
       fs_needclose := True\<rparr>"

text \<open>
  \<^verbatim>\<open>singlevaraux\<close> walks the chain of functions: the list holds \<^verbatim>\<open>fs\<close>, then
  \<^verbatim>\<open>fs->prev\<close> and so on, and the empty list is \<^verbatim>\<open>fs == NULL\<close>.
\<close>

fun singlevaraux ::
  "LexState \<Rightarrow> FuncState list \<Rightarrow> string \<Rightarrow> expdesc \<Rightarrow> bool
     \<Rightarrow> (expdesc \<times> FuncState list) result" where
  "singlevaraux ls [] n var base = Done (init_exp var VVOID 0, [])"
| "singlevaraux ls (fs # prevs) n var base =
    (case searchvar ls fs n var of
       Some v \<Rightarrow>
         if e_k v = VLOCAL \<and> \<not> base
         then Done (v, markupval fs (e_var_vidx v) # prevs)
         else Done (v, fs # prevs)
     | None \<Rightarrow>
         if searchupvalue fs n < 0 then
           (case singlevaraux ls prevs n var False of
              Done (v, prevs') \<Rightarrow>
                if e_k v = VLOCAL \<or> e_k v = VUPVAL then
                  (case newupvalue ls fs (hd prevs') n v of
                     Done (idx, fs') \<Rightarrow> Done (init_exp v VUPVAL idx, fs' # prevs')
                   | Fail e \<Rightarrow> Fail e
                   | OutOfFuel \<Rightarrow> OutOfFuel)
                else Done (v, fs # prevs')
            | Fail e \<Rightarrow> Fail e
            | OutOfFuel \<Rightarrow> OutOfFuel)
         else Done (init_exp var VUPVAL (searchupvalue fs n), fs # prevs))"

section \<open>The code emitter as the parser uses it\<close>

text \<open>
  Modelled from the spec: the emitter primitives (\<^verbatim>\<open>lcode.cpp\<close>, \<^verbatim>\<open>lopcodes.h\<close>)
  are not among the sources; the spec lists them as an external interface (sections 4.A
  and 6). Every definition of this section is such a model. An instruction keeps its
  opcode and its operands as separate fields, without the bit layout; an emitted
  instruction is appended to \<open>fs_code\<close>; a pending jump has the offset \<open>- 1\<close>
  until a patch gives it the distance to its target. Operands of arithmetic are always
  brought to registers, and only integer \<open>+\<close>, \<open>-\<close>, \<open>*\<close> and unary minus are folded.
\<close>

abbreviation OP_MOVE :: OpCode where "OP_MOVE \<equiv> OP ''MOVE''"
abbreviation OP_LOADI :: OpCode where "OP_LOADI \<equiv> OP ''LOADI''"
abbreviation OP_LOADK :: OpCode where "OP_LOADK \<equiv> OP ''LOADK''"
abbreviation OP_LOADFALSE :: OpCode where "OP_LOADFALSE \<equiv> OP ''LOADFALSE''"
abbreviation OP_LFALSESKIP :: OpCode where "OP_LFALSESKIP \<equiv> OP ''LFALSESKIP''"
abbreviation OP_LOADTRUE :: OpCode where "OP_LOADTRUE \<equiv> OP ''LOADTRUE''"
abbreviation OP_LOADNIL :: OpCode where "OP_LOADNIL \<equiv> OP ''LOADNIL''"
abbreviation OP_GETUPVAL :: OpCode where "OP_GETUPVAL \<equiv> OP ''GETUPVAL''"
abbreviation OP_SETUPVAL :: OpCode where "OP_SETUPVAL \<equiv> OP ''SETUPVAL''"
abbreviation OP_GETTABUP :: OpCode where "OP_GETTABUP \<equiv> OP ''GETTABUP''"
abbreviation OP_GETTABLE :: OpCode where "OP_GETTABLE \<equiv> OP ''GETTABLE''"
abbreviation OP_GETI :: OpCode where "OP_GETI \<equiv> OP ''GETI''"
abbreviation OP_GETFIELD :: OpCode where "OP_GETFIELD \<equiv> OP ''GETFIELD''"
abbreviation OP_SETTABUP :: OpCode where "OP_SETTABUP \<equiv> OP ''SETTABUP''"
abbreviation OP_SETTABLE :: OpCode where "OP_SETTABLE \<equiv> OP ''SETTABLE''"
abbreviation OP_SETI :: OpCode where "OP_SETI \<equiv> OP ''SETI''"
abbreviation OP_SETFIELD :: OpCode where "OP_SETFIELD \<equiv> OP ''SETFIELD''"
abbreviation OP_NEWTABLE :: OpCode where "OP_NEWTABLE \<equiv> OP ''NEWTABLE''"
abbreviation OP_SELF :: OpCode where "OP_SELF \<equiv> OP ''SELF''"
abbreviation OP_UNM :: OpCode where "OP_UNM \<equiv> OP ''UNM''"
abbreviation OP_BNOT :: OpCode where "OP_BNOT \<equiv> OP ''BNOT''"
abbreviation OP_NOT :: OpCode where "OP_NOT \<equiv> OP ''NOT''"
abbreviation OP_LEN :: OpCode where "OP_LEN \<equiv> OP ''LEN''"
abbreviation OP_CONCAT :: OpCode where "OP_CONCAT \<equiv> OP ''CONCAT''"
abbreviation OP_CLOSE :: OpCode where "OP_CLOSE \<equiv> OP ''CLOSE''"
abbreviation OP_TBC :: OpCode where "OP_TBC \<equiv> OP ''TBC''"
abbreviation OP_JMP :: OpCode where "OP_JMP \<equiv> OP ''JMP''"
abbreviation OP_EQ :: OpCode where "OP_EQ \<equiv> OP ''EQ''"
abbreviation OP_LT :: OpCode where "OP_LT \<equiv> OP ''LT''"
abbreviation OP_LE :: OpCode where "OP_LE \<equiv> OP ''LE''"
abbreviation OP_EQK :: OpCode where "OP_EQK \<equiv> OP ''EQK''"
abbreviation OP_EQI :: OpCode where "OP_EQI \<equiv> OP ''EQI''"
abbreviation OP_TEST :: OpCode where "OP_TEST \<equiv> OP ''TEST''"
abbreviation OP_TESTSET :: OpCode where "OP_TESTSET \<equiv> OP ''TESTSET''"
abbreviation OP_TESTNIL :: OpCode where "OP_TESTNIL \<equiv> OP ''TESTNIL''"
abbreviation OP_CALL :: OpCode where "OP_CALL \<equiv> OP ''CALL''"
abbreviation OP_TAILCALL :: OpCode where "OP_TAILCALL \<equiv> OP ''TAILCALL''"
abbreviation OP_RETURN :: OpCode where "OP_RETURN \<equiv> OP ''RETURN''"
abbreviation OP_FORLOOP :: OpCode where "OP_FORLOOP \<equiv> OP ''FORLOOP''"
abbreviation OP_FORPREP :: OpCode where "OP_FORPREP \<equiv> OP ''FORPREP''"
abbreviation OP_TFORPREP :: OpCode where "OP_TFORPREP \<equiv> OP ''TFORPREP''"
abbreviation OP_TFORCALL :: OpCode where "OP_TFORCALL \<equiv> OP ''TFORCALL''"
abbreviation OP_TFORLOOP :: OpCode where "OP_TFORLOOP \<equiv> OP ''TFORLOOP''"
abbreviation OP_SETLIST :: OpCode where "OP_SETLIST \<equiv> OP ''SETLIST''"
abbreviation OP_CLOSURE :: OpCode where "OP_CLOSURE \<equiv> OP ''CLOSURE''"
abbreviation OP_VARARG :: OpCode where "OP_VARARG \<equiv> OP ''VARARG''"
abbreviation OP_VARARGPREP :: OpCode where "OP_VARARGPREP \<equiv> OP ''VARARGPREP''"
abbreviation OP_EXTRAARG :: OpCode where "OP_EXTRAARG \<equiv> OP ''EXTRAARG''"
abbreviation OP_IN :: OpCode where "OP_IN \<equiv> OP ''IN''"

text \<open>The opcode of a binary operator that is coded as one instruction on two registers.\<close>

definition binopr_opcode :: "BinOpr \<Rightarrow> OpCode" where
  "binopr_opcode opr =
    (case opr of
       OPR_ADD \<Rightarrow> OP ''ADD'' | OPR_SUB \<Rightarrow> OP ''SUB'' | OPR_MUL \<Rightarrow> OP ''MUL''
     | OPR_MOD \<Rightarrow> OP ''MOD'' | OPR_POW \<Rightarrow> OP ''POW'' | OPR_DIV \<Rightarrow> OP ''DIV''
     | OPR_IDIV \<Rightarrow> OP ''IDIV'' | OPR_BAND \<Rightarrow> OP ''BAND'' | OPR_BOR \<Rightarrow> OP ''BOR''
     | OPR_BXOR \<Rightarrow> OP ''BXOR'' | OPR_SHL \<Rightarrow> OP ''SHL'' | OPR_SHR \<Rightarrow> OP ''SHR''
     | _ \<Rightarrow> OP ''NOP'')"

definition NO_REG :: int where
  "NO_REG = 255"

definition MAXREGS :: int where
  "MAXREGS = 255"

definition LUA_MULTRET :: int where
  "LUA_MULTRET = - 1"

definition lu_byte :: "int \<Rightarrow> int" where
  "lu_byte i = i mod 256"

definition mkABCk :: "OpCode \<Rightarrow> int \<Rightarrow> int \<Rightarrow> int \<Rightarrow> bool \<Rightarrow> Instruction" where
  "mkABCk opc a b c k = \<lparr>i_op = opc, i_A = a, i_B = b, i_C = c, i_k = k, i_Bx = 0, i_sJ = 0\<rparr>"

definition set_code :: "LexState \<Rightarrow> Instruction list \<Rightarrow> LexState" where
  "set_code ls c = ls\<lparr>ls_fs := (ls_fs ls)\<lparr>fs_code := c\<rparr>\<rparr>"

definition getinstruction :: "LexState \<Rightarrow> expdesc \<Rightarrow> Instruction" where
  "getinstruction ls e = fs_code (ls_fs ls) ! nat (e_info e)"

definition setinstruction :: "LexState \<Rightarrow> expdesc \<Rightarrow> Instruction \<Rightarrow> LexState" where
  "setinstruction ls e i = set_code ls ((fs_code (ls_fs ls))[nat (e_info e) := i])"

definition luaK_code :: "LexState \<Rightarrow> Instruction \<Rightarrow> nat \<times> LexState" where
  "luaK_code ls i = (fs_pc (ls_fs ls), set_code ls (fs_code (ls_fs ls) @ [i]))"

definition luaK_codeABCk ::
  "LexState \<Rightarrow> OpCode \<Rightarrow> int \<Rightarrow> int \<Rightarrow> int \<Rightarrow> bool \<Rightarrow> nat \<times> LexState" where
  "luaK_codeABCk ls opc a b c k = luaK_code ls (mkABCk opc a b c k)"

definition luaK_codeABC :: "LexState \<Rightarrow> OpCode \<Rightarrow> int \<Rightarrow> int \<Rightarrow> int \<Rightarrow> nat \<times> LexState" where
  "luaK_codeABC ls opc a b c = luaK_codeABCk ls opc a b c False"

definition luaK_codeABx :: "LexState \<Rightarrow> OpCode \<Rightarrow> int \<Rightarrow> int \<Rightarrow> nat \<times> LexState" where
  "luaK_codeABx ls opc a bx = luaK_code ls ((mkABCk opc a 0 0 False)\<lparr>i_Bx := bx\<rparr>)"

definition luaK_codeAsBx :: "LexState \<Rightarrow> OpCode \<Rightarrow> int \<Rightarrow> int \<Rightarrow> nat \<times> LexState" where
  "luaK_codeAsBx ls opc a bx = luaK_code ls ((mkABCk opc a 0 0 False)\<lparr>i_Bx := bx\<rparr>)"

definition CREATE_sJ :: "OpCode \<Rightarrow> int \<Rightarrow> bool \<Rightarrow> Instruction" where
  "CREATE_sJ opc j k = (mkABCk opc 0 0 0 k)\<lparr>i_sJ := j\<rparr>"

definition luaK_jump :: "LexState \<Rightarrow> nat \<times> LexState" where
  "luaK_jump ls = luaK_code ls (CREATE_sJ OP_JMP (- 1) False)"

definition luaK_getlabel :: "LexState \<Rightarrow> nat \<times> LexState" where
  "luaK_getlabel ls =
    (fs_pc (ls_fs ls), ls\<lparr>ls_fs := (ls_fs ls)\<lparr>fs_lasttarget := fs_pc (ls_fs ls)\<rparr>\<rparr>)"

definition testTMode :: "OpCode \<Rightarrow> bool" where
  "testTMode opc = (opc \<in> {OP_EQ, OP_LT, OP_LE, OP_EQK, OP_EQI, OP_TEST, OP_TESTSET, OP_TESTNIL})"

definition getjumpcontrol :: "Instruction list \<Rightarrow> nat \<Rightarrow> nat" where
  "getjumpcontrol code pc =
    (if pc \<ge> 1 \<and> testTMode (i_op (code ! (pc - 1))) then pc - 1 else pc)"

definition fixjump :: "Instruction list \<Rightarrow> nat \<Rightarrow> nat \<Rightarrow> Instruction list" where
  "fixjump code pc dest = code[pc := (code ! pc)\<lparr>i_sJ := int dest - (int pc + 1)\<rparr>]"

text \<open>
  A jump controlled by \<open>TESTSET\<close> keeps the tested value in register \<open>reg\<close>, or
  becomes a plain \<open>TEST\<close> when no register wants the value.
\<close>

definition patchtestreg :: "Instruction list \<Rightarrow> nat \<Rightarrow> int \<Rightarrow> bool \<times> Instruction list" where
  "patchtestreg code node reg =
    (let c = getjumpcontrol code node; i = code ! c in
     if i_op i \<noteq> OP_TESTSET then (False, code)
     else if reg \<noteq> NO_REG \<and> reg \<noteq> i_B i then (True, code[c := i\<lparr>i_A := reg\<rparr>])
     else (True, code[c := mkABCk OP_TEST (i_B i) 0 0 (i_k i)]))"

primrec patchlistaux ::
  "Instruction list \<Rightarrow> jumplist \<Rightarrow> nat \<Rightarrow> int \<Rightarrow> nat \<Rightarrow> Instruction list" where
  "patchlistaux code [] vtarget reg dtarget = code"
| "patchlistaux code (node # rest) vtarget reg dtarget =
    (case patchtestreg code node reg of
       (True, code') \<Rightarrow> patchlistaux (fixjump code' node vtarget) rest vtarget reg dtarget
     | (False, code') \<Rightarrow> patchlistaux (fixjump code' node dtarget) rest vtarget reg dtarget)"

definition luaK_patchlist :: "LexState \<Rightarrow> jumplist \<Rightarrow> nat \<Rightarrow> LexState" where
  "luaK_patchlist ls list target =
    set_code ls (patchlistaux (fs_code (ls_fs ls)) list target NO_REG target)"

definition luaK_patchtohere :: "LexState \<Rightarrow> jumplist \<Rightarrow> LexState" where
  "luaK_patchtohere ls list =
    (case luaK_getlabel ls of (hr, ls') \<Rightarrow> luaK_patchlist ls' list hr)"

definition luaK_concat :: "jumplist \<Rightarrow> jumplist \<Rightarrow> jumplist" where
  "luaK_concat l1 l2 = l1 @ l2"

definition luaK_jumpto :: "LexState \<Rightarrow> nat \<Rightarrow> LexState" where
  "luaK_jumpto ls t = (case luaK_jump ls of (j, ls') \<Rightarrow> luaK_patchlist ls' [j] t)"

definition luaK_fixline :: "LexState \<Rightarrow> int \<Rightarrow> LexState" where
  "luaK_fixline ls line = ls"

definition luaK_checkstack :: "LexState \<Rightarrow> int \<Rightarrow> LexState result" where
  "luaK_checkstack ls n =
    (let fs = ls_fs ls; newstack = fs_freereg fs + n in
     if newstack > fs_maxstacksize fs then
       (if newstack \<ge> MAXREGS
        then luaX_syntaxerror ''function or expression needs too many registers'' []
        else Done (ls\<lparr>ls_fs := fs\<lparr>fs_maxstacksize := newstack\<rparr>\<rparr>))
     else Done ls)"

definition luaK_reserveregs :: "LexState \<Rightarrow> int \<Rightarrow> LexState result" where
  "luaK_reserveregs ls n =
    bindR (luaK_checkstack ls n) (\<lambda>ls.
    Done (ls\<lparr>ls_fs := (ls_fs ls)\<lparr>fs_freereg := lu_byte (fs_freereg (ls_fs ls) + n)\<rparr>\<rparr>))"

definition freereg :: "LexState \<Rightarrow> int \<Rightarrow> LexState" where
  "freereg ls reg =
    (if reg \<ge> luaY_nvarstack ls
     then ls\<lparr>ls_fs := (ls_fs ls)\<lparr>fs_freereg := lu_byte (fs_freereg (ls_fs ls) - 1)\<rparr>\<rparr>
     else ls)"

definition freeregs :: "LexState \<Rightarrow> int \<Rightarrow> int \<Rightarrow> LexState" where
  "freeregs ls r1 r2 =
    (if r1 > r2 then freereg (freereg ls r1) r2 else freereg (freereg ls r2) r1)"

definition freeexp :: "LexState \<Rightarrow> expdesc \<Rightarrow> LexState" where
  "freeexp ls e = (if e_k e = VNONRELOC then freereg ls (e_info e) else ls)"

definition freeexps :: "LexState \<Rightarrow> expdesc \<Rightarrow> expdesc \<Rightarrow> LexState" where
  "freeexps ls e1 e2 =
    freeregs ls (if e_k e1 = VNONRELOC then e_info e1 else - 1)
                (if e_k e2 = VNONRELOC then e_info e2 else - 1)"

primrec index_of :: "'a list \<Rightarrow> 'a \<Rightarrow> nat \<Rightarrow> nat option" where
  "index_of [] v i = None"
| "index_of (x # xs) v i = (if x = v then Some i else index_of xs v (Suc i))"

definition addk :: "LexState \<Rightarrow> TValue \<Rightarrow> nat \<times> LexState" where
  "addk ls v =
    (case index_of (fs_k (ls_fs ls)) v 0 of
       Some i \<Rightarrow> (i, ls)
     | None \<Rightarrow> (length (fs_k (ls_fs ls)),
                ls\<lparr>ls_fs := (ls_fs ls)\<lparr>fs_k := fs_k (ls_fs ls) @ [v]\<rparr>\<rparr>))"

definition hasjumps :: "expdesc \<Rightarrow> bool" where
  "hasjumps e = (e_t e \<noteq> e_f e)"

definition tonumeral :: "expdesc \<Rightarrow> bool" where
  "tonumeral e = (\<not> hasjumps e \<and> (e_k e = VKINT \<or> e_k e = VKFLT))"

definition const2exp :: "TValue \<Rightarrow> expdesc \<Rightarrow> expdesc" where
  "const2exp v e =
    (case v of
       TInt i \<Rightarrow> e\<lparr>e_k := VKINT, e_ival := i\<rparr>
     | TFlt r \<Rightarrow> e\<lparr>e_k := VKFLT, e_nval := r\<rparr>
     | TBool b \<Rightarrow> e\<lparr>e_k := (if b then VTRUE else VFALSE)\<rparr>
     | TNil \<Rightarrow> e\<lparr>e_k := VNIL\<rparr>
     | TStr s \<Rightarrow> e\<lparr>e_k := VKSTR, e_strval := s\<rparr>)"

definition luaK_exp2const :: "LexState \<Rightarrow> expdesc \<Rightarrow> TValue option" where
  "luaK_exp2const ls e =
    (if hasjumps e then None
     else case e_k e of
       VFALSE \<Rightarrow> Some (TBool False)
     | VTRUE \<Rightarrow> Some (TBool True)
     | VNIL \<Rightarrow> Some TNil
     | VKSTR \<Rightarrow> Some (TStr (e_strval e))
     | VCONST \<Rightarrow> Some (vd_k (actvar_arr ls ! nat (e_info e)))
     | VKINT \<Rightarrow> Some (TInt (e_ival e))
     | VKFLT \<Rightarrow> Some (TFlt (e_nval e))
     | _ \<Rightarrow> None)"

definition luaK_nil :: "LexState \<Rightarrow> int \<Rightarrow> int \<Rightarrow> LexState" where
  "luaK_nil ls from n = snd (luaK_codeABC ls OP_LOADNIL from (n - 1) 0)"

definition luaK_int :: "LexState \<Rightarrow> int \<Rightarrow> int \<Rightarrow> LexState" where
  "luaK_int ls reg i =
    (if - 65535 \<le> i \<and> i \<le> 65536 then snd (luaK_codeAsBx ls OP_LOADI reg i)
     else case addk ls (TInt i) of (k, ls') \<Rightarrow> snd (luaK_codeABx ls' OP_LOADK reg (int k)))"

definition luaK_setreturns :: "LexState \<Rightarrow> expdesc \<Rightarrow> int \<Rightarrow> LexState result" where
  "luaK_setreturns ls e nresults =
    (if e_k e = VCALL then
       Done (setinstruction ls e ((getinstruction ls e)\<lparr>i_C := nresults + 1\<rparr>))
     else
       luaK_reserveregs
         (setinstruction ls e
            ((getinstruction ls e)\<lparr>i_C := nresults + 1, i_A := fs_freereg (ls_fs ls)\<rparr>)) 1)"

definition luaK_setmultret :: "LexState \<Rightarrow> expdesc \<Rightarrow> LexState result" where
  "luaK_setmultret ls e = luaK_setreturns ls e LUA_MULTRET"

definition luaK_setoneret :: "LexState \<Rightarrow> expdesc \<Rightarrow> expdesc \<times> LexState" where
  "luaK_setoneret ls e =
    (if e_k e = VCALL then (e\<lparr>e_k := VNONRELOC, e_info := i_A (getinstruction ls e)\<rparr>, ls)
     else if e_k e = VVARARG then
       (e\<lparr>e_k := VRELOC\<rparr>, setinstruction ls e ((getinstruction ls e)\<lparr>i_C := 2\<rparr>))
     else (e, ls))"

definition luaK_dischargevars :: "LexState \<Rightarrow> expdesc \<Rightarrow> expdesc \<times> LexState" where
  "luaK_dischargevars ls e =
    (case e_k e of
       VCONST \<Rightarrow> (const2exp (vd_k (actvar_arr ls ! nat (e_info e))) e, ls)
     | VLOCAL \<Rightarrow> (e\<lparr>e_info := e_var_ridx e, e_k := VNONRELOC\<rparr>, ls)
     | VUPVAL \<Rightarrow>
         (case luaK_codeABC ls OP_GETUPVAL 0 (e_info e) 0 of
            (pc, ls') \<Rightarrow> (e\<lparr>e_info := int pc, e_k := VRELOC\<rparr>, ls'))
     | VINDEXUP \<Rightarrow>
         (case luaK_codeABC ls OP_GETTABUP 0 (e_ind_t e) (e_ind_idx e) of
            (pc, ls') \<Rightarrow> (e\<lparr>e_info := int pc, e_k := VRELOC\<rparr>, ls'))
     | VINDEXI \<Rightarrow>
         (case luaK_codeABC (freereg ls (e_ind_t e)) OP_GETI 0 (e_ind_t e) (e_ind_idx e) of
            (pc, ls') \<Rightarrow> (e\<lparr>e_info := int pc, e_k := VRELOC\<rparr>, ls'))
     | VINDEXSTR \<Rightarrow>
         (case luaK_codeABC (freereg ls (e_ind_t e)) OP_GETFIELD 0 (e_ind_t e) (e_ind_idx e) of
            (pc, ls') \<Rightarrow> (e\<lparr>e_info := int pc, e_k := VRELOC\<rparr>, ls'))
     | VINDEXED \<Rightarrow>
         (case luaK_codeABC (freeregs ls (e_ind_t e) (e_ind_idx e)) OP_GETTABLE 0
                 (e_ind_t e) (e_ind_idx e) of
            (pc, ls') \<Rightarrow> (e\<lparr>e_info := int pc, e_k := VRELOC\<rparr>, ls'))
     | VVARARG \<Rightarrow> luaK_setoneret ls e
     | VCALL \<Rightarrow> luaK_setoneret ls e
     | _ \<Rightarrow> (e, ls))"

definition discharge2reg :: "LexState \<Rightarrow> expdesc \<Rightarrow> int \<Rightarrow> expdesc \<times> LexState" where
  "discharge2reg ls e0 reg =
    (case luaK_dischargevars ls e0 of (e, ls) \<Rightarrow>
     let ls' =
       (case e_k e of
          VNIL \<Rightarrow> luaK_nil ls reg 1
        | VFALSE \<Rightarrow> snd (luaK_codeABC ls OP_LOADFALSE reg 0 0)
        | VTRUE \<Rightarrow> snd (luaK_codeABC ls OP_LOADTRUE reg 0 0)
        | VKSTR \<Rightarrow>
            (case addk ls (TStr (e_strval e)) of
               (k, ls1) \<Rightarrow> snd (luaK_codeABx ls1 OP_LOADK reg (int k)))
        | VK \<Rightarrow> snd (luaK_codeABx ls OP_LOADK reg (e_info e))
        | VKFLT \<Rightarrow>
            (case addk ls (TFlt (e_nval e)) of
               (k, ls1) \<Rightarrow> snd (luaK_codeABx ls1 OP_LOADK reg (int k)))
        | VKINT \<Rightarrow> luaK_int ls reg (e_ival e)
        | VRELOC \<Rightarrow> setinstruction ls e ((getinstruction ls e)\<lparr>i_A := reg\<rparr>)
        | VNONRELOC \<Rightarrow>
            (if reg \<noteq> e_info e then snd (luaK_codeABC ls OP_MOVE reg (e_info e) 0) else ls)
        | _ \<Rightarrow> ls)
     in (if e_k e = VJMP then e else e\<lparr>e_info := reg, e_k := VNONRELOC\<rparr>, ls'))"

definition discharge2anyreg :: "LexState \<Rightarrow> expdesc \<Rightarrow> (expdesc \<times> LexState) result" where
  "discharge2anyreg ls e =
    (if e_k e \<noteq> VNONRELOC then
       bindR (luaK_reserveregs ls 1) (\<lambda>ls.
       Done (discharge2reg ls e (fs_freereg (ls_fs ls) - 1)))
     else Done (e, ls))"

definition need_value :: "Instruction list \<Rightarrow> jumplist \<Rightarrow> bool" where
  "need_value code list =
    list_ex (\<lambda>pc. i_op (code ! getjumpcontrol code pc) \<noteq> OP_TESTSET) list"

definition exp2reg :: "LexState \<Rightarrow> expdesc \<Rightarrow> int \<Rightarrow> expdesc \<times> LexState" where
  "exp2reg ls e0 reg =
    (case discharge2reg ls e0 reg of (e1, ls1) \<Rightarrow>
     let e = (if e_k e1 = VJMP then e1\<lparr>e_t := luaK_concat (e_t e1) [nat (e_info e1)]\<rparr> else e1) in
     if hasjumps e then
       (let code = fs_code (ls_fs ls1) in
        if need_value code (e_t e) \<or> need_value code (e_f e) then
          (case (if e_k e = VJMP then ([], ls1) else (case luaK_jump ls1 of (j, l) \<Rightarrow> ([j], l))) of
             (fj, ls2) \<Rightarrow>
               (case luaK_codeABC ls2 OP_LFALSESKIP reg 0 0 of (p_f, ls3) \<Rightarrow>
                case luaK_codeABC ls3 OP_LOADTRUE reg 0 0 of (p_t, ls4) \<Rightarrow>
                case luaK_getlabel (luaK_patchtohere ls4 fj) of (final, ls5) \<Rightarrow>
                  (e\<lparr>e_f := NO_JUMP, e_t := NO_JUMP, e_info := reg, e_k := VNONRELOC\<rparr>,
                   set_code ls5
                     (patchlistaux (patchlistaux (fs_code (ls_fs ls5)) (e_f e) final reg p_f)
                        (e_t e) final reg p_t))))
        else
          (case luaK_getlabel ls1 of (final, ls5) \<Rightarrow>
             (e\<lparr>e_f := NO_JUMP, e_t := NO_JUMP, e_info := reg, e_k := VNONRELOC\<rparr>,
              set_code ls5
                (patchlistaux (patchlistaux (fs_code (ls_fs ls5)) (e_f e) final reg final)
                   (e_t e) final reg final))))
     else (e\<lparr>e_f := NO_JUMP, e_t := NO_JUMP, e_info := reg, e_k := VNONRELOC\<rparr>, ls1))"

definition luaK_exp2nextreg :: "LexState \<Rightarrow> expdesc \<Rightarrow> (expdesc \<times> LexState) result" where
  "luaK_exp2nextreg ls e0 =
    (case luaK_dischargevars ls e0 of (e, ls) \<Rightarrow>
     bindR (luaK_reserveregs (freeexp ls e) 1) (\<lambda>ls.
     Done (exp2reg ls e (fs_freereg (ls_fs ls) - 1))))"

text \<open>\<^verbatim>\<open>luaK_exp2anyreg\<close> returns the register, which is \<open>e_info\<close> of the result.\<close>

definition luaK_exp2anyreg :: "LexState \<Rightarrow> expdesc \<Rightarrow> (expdesc \<times> LexState) result" where
  "luaK_exp2anyreg ls e0 =
    (case luaK_dischargevars ls e0 of (e, ls) \<Rightarrow>
     if e_k e = VNONRELOC \<and> \<not> hasjumps e then Done (e, ls)
     else if e_k e = VNONRELOC \<and> e_info e \<ge> luaY_nvarstack ls then Done (exp2reg ls e (e_info e))
     else luaK_exp2nextreg ls e)"

definition luaK_exp2anyregup :: "LexState \<Rightarrow> expdesc \<Rightarrow> (expdesc \<times> LexState) result" where
  "luaK_exp2anyregup ls e =
    (if e_k e \<noteq> VUPVAL \<or> hasjumps e then luaK_exp2anyreg ls e else Done (e, ls))"

definition luaK_exp2val :: "LexState \<Rightarrow> expdesc \<Rightarrow> (expdesc \<times> LexState) result" where
  "luaK_exp2val ls e =
    (if hasjumps e then luaK_exp2anyreg ls e else Done (luaK_dischargevars ls e))"

definition luaK_exp2reg :: "LexState \<Rightarrow> expdesc \<Rightarrow> int \<Rightarrow> expdesc \<times> LexState" where
  "luaK_exp2reg ls e0 reg =
    (case luaK_dischargevars ls e0 of (e, ls) \<Rightarrow> exp2reg (freeexp ls e) e reg)"

definition luaK_exp2K :: "LexState \<Rightarrow> expdesc \<Rightarrow> bool \<times> expdesc \<times> LexState" where
  "luaK_exp2K ls e =
    (if hasjumps e then (False, e, ls)
     else
       (case (case e_k e of
                VTRUE \<Rightarrow> Some (TBool True)
              | VFALSE \<Rightarrow> Some (TBool False)
              | VNIL \<Rightarrow> Some TNil
              | VKINT \<Rightarrow> Some (TInt (e_ival e))
              | VKFLT \<Rightarrow> Some (TFlt (e_nval e))
              | VKSTR \<Rightarrow> Some (TStr (e_strval e))
              | _ \<Rightarrow> None) of
          Some v \<Rightarrow>
            (case addk ls v of
               (k, ls') \<Rightarrow>
                 if k \<le> 255 then (True, e\<lparr>e_k := VK, e_info := int k\<rparr>, ls')
                 else (False, e, ls'))
        | None \<Rightarrow> (e_k e = VK \<and> e_info e \<le> 255, e, ls)))"

definition exp2RK :: "LexState \<Rightarrow> expdesc \<Rightarrow> (bool \<times> expdesc \<times> LexState) result" where
  "exp2RK ls e =
    (case luaK_exp2K ls e of
       (True, e', ls') \<Rightarrow> Done (True, e', ls')
     | (False, e', ls') \<Rightarrow>
         bindR (luaK_exp2anyreg ls' e') (\<lambda>(e'', ls''). Done (False, e'', ls'')))"

definition codeABRK ::
  "LexState \<Rightarrow> OpCode \<Rightarrow> int \<Rightarrow> int \<Rightarrow> expdesc \<Rightarrow> (expdesc \<times> LexState) result" where
  "codeABRK ls opc a b ec =
    bindR (exp2RK ls ec) (\<lambda>(k, ec', ls').
    Done (ec', snd (luaK_codeABCk ls' opc a b (e_info ec') k)))"

definition luaK_storevar :: "LexState \<Rightarrow> expdesc \<Rightarrow> expdesc \<Rightarrow> LexState result" where
  "luaK_storevar ls var ex =
    (case e_k var of
       VLOCAL \<Rightarrow> Done (snd (exp2reg (freeexp ls ex) ex (e_var_ridx var)))
     | VUPVAL \<Rightarrow>
         bindR (luaK_exp2anyreg ls ex) (\<lambda>(ex', ls').
         Done (freeexp (snd (luaK_codeABC ls' OP_SETUPVAL (e_info ex') (e_info var) 0)) ex'))
     | VINDEXUP \<Rightarrow>
         bindR (codeABRK ls OP_SETTABUP (e_ind_t var) (e_ind_idx var) ex) (\<lambda>(ex', ls').
         Done (freeexp ls' ex'))
     | VINDEXI \<Rightarrow>
         bindR (codeABRK ls OP_SETI (e_ind_t var) (e_ind_idx var) ex) (\<lambda>(ex', ls').
         Done (freeexp ls' ex'))
     | VINDEXSTR \<Rightarrow>
         bindR (codeABRK ls OP_SETFIELD (e_ind_t var) (e_ind_idx var) ex) (\<lambda>(ex', ls').
         Done (freeexp ls' ex'))
     | VINDEXED \<Rightarrow>
         bindR (codeABRK ls OP_SETTABLE (e_ind_t var) (e_ind_idx var) ex) (\<lambda>(ex', ls').
         Done (freeexp ls' ex'))
     | _ \<Rightarrow> Done (freeexp ls ex))"

definition luaK_self :: "LexState \<Rightarrow> expdesc \<Rightarrow> expdesc \<Rightarrow> (expdesc \<times> LexState) result" where
  "luaK_self ls e0 key =
    bindR (luaK_exp2anyreg ls e0) (\<lambda>(e1, ls1).
    let ereg = e_info e1;
        ls2 = freeexp ls1 e1;
        e = e1\<lparr>e_info := fs_freereg (ls_fs ls2), e_k := VNONRELOC\<rparr>
    in bindR (luaK_reserveregs ls2 2) (\<lambda>ls3.
       bindR (codeABRK ls3 OP_SELF (e_info e) ereg key) (\<lambda>(key', ls4).
       Done (e, freeexp ls4 key'))))"

definition negatecondition :: "LexState \<Rightarrow> expdesc \<Rightarrow> LexState" where
  "negatecondition ls e =
    (let code = fs_code (ls_fs ls); c = getjumpcontrol code (nat (e_info e)) in
     set_code ls (code[c := (code ! c)\<lparr>i_k := \<not> i_k (code ! c)\<rparr>]))"

definition condjump ::
  "LexState \<Rightarrow> OpCode \<Rightarrow> int \<Rightarrow> int \<Rightarrow> int \<Rightarrow> bool \<Rightarrow> nat \<times> LexState" where
  "condjump ls opc a b c k = luaK_jump (snd (luaK_codeABCk ls opc a b c k))"

definition jumponcond :: "LexState \<Rightarrow> expdesc \<Rightarrow> bool \<Rightarrow> (nat \<times> LexState) result" where
  "jumponcond ls e cond =
    (if e_k e = VRELOC \<and> i_op (getinstruction ls e) = OP_NOT then
       Done (condjump (set_code ls (butlast (fs_code (ls_fs ls)))) OP_TEST
               (i_B (getinstruction ls e)) 0 0 (\<not> cond))
     else
       bindR (discharge2anyreg ls e) (\<lambda>(e', ls').
       Done (condjump (freeexp ls' e') OP_TESTSET NO_REG (e_info e') 0 cond)))"

definition luaK_goiftrue :: "LexState \<Rightarrow> expdesc \<Rightarrow> (expdesc \<times> LexState) result" where
  "luaK_goiftrue ls e0 =
    (case luaK_dischargevars ls e0 of (e, ls) \<Rightarrow>
     bindR (if e_k e = VJMP then Done ([nat (e_info e)], negatecondition ls e)
            else if e_k e \<in> {VK, VKFLT, VKINT, VKSTR, VTRUE} then Done (NO_JUMP, ls)
            else bindR (jumponcond ls e False) (\<lambda>(pc, ls'). Done ([pc], ls')))
       (\<lambda>(pc, ls').
     Done (e\<lparr>e_f := luaK_concat (e_f e) pc, e_t := NO_JUMP\<rparr>, luaK_patchtohere ls' (e_t e))))"

definition luaK_goiffalse :: "LexState \<Rightarrow> expdesc \<Rightarrow> (expdesc \<times> LexState) result" where
  "luaK_goiffalse ls e0 =
    (case luaK_dischargevars ls e0 of (e, ls) \<Rightarrow>
     bindR (if e_k e = VJMP then Done ([nat (e_info e)], ls)
            else if e_k e \<in> {VNIL, VFALSE} then Done (NO_JUMP, ls)
            else bindR (jumponcond ls e True) (\<lambda>(pc, ls'). Done ([pc], ls')))
       (\<lambda>(pc, ls').
     Done (e\<lparr>e_t := luaK_concat (e_t e) pc, e_f := NO_JUMP\<rparr>, luaK_patchtohere ls' (e_f e))))"

text \<open>
  The jump of \<open>??\<close> on a value that is not nil: a \<open>TESTSET\<close> whose \<open>C\<close> operand
  marks the test for nil, so that the lists of \<open>??\<close> are handled as those of \<open>or\<close>.
\<close>

definition luaK_goifnil :: "LexState \<Rightarrow> expdesc \<Rightarrow> (expdesc \<times> LexState) result" where
  "luaK_goifnil ls e0 =
    (case luaK_dischargevars ls e0 of (e, ls) \<Rightarrow>
     bindR (discharge2anyreg ls e) (\<lambda>(e', ls').
     case condjump (freeexp ls' e') OP_TESTSET NO_REG (e_info e') 1 True of
       (pc, ls'') \<Rightarrow>
         Done (e'\<lparr>e_t := luaK_concat (e_t e') [pc], e_f := NO_JUMP\<rparr>,
               luaK_patchtohere ls'' (e_f e'))))"

primrec removevalues :: "Instruction list \<Rightarrow> jumplist \<Rightarrow> Instruction list" where
  "removevalues code [] = code"
| "removevalues code (node # rest) = removevalues (snd (patchtestreg code node NO_REG)) rest"

definition codenot :: "LexState \<Rightarrow> expdesc \<Rightarrow> (expdesc \<times> LexState) result" where
  "codenot ls e =
    bindR (if e_k e \<in> {VNIL, VFALSE} then Done (e\<lparr>e_k := VTRUE\<rparr>, ls)
           else if e_k e \<in> {VK, VKFLT, VKINT, VKSTR, VTRUE} then Done (e\<lparr>e_k := VFALSE\<rparr>, ls)
           else if e_k e = VJMP then Done (e, negatecondition ls e)
           else if e_k e \<in> {VRELOC, VNONRELOC} then
             bindR (discharge2anyreg ls e) (\<lambda>(e', ls').
             case luaK_codeABC (freeexp ls' e') OP_NOT 0 (e_info e') 0 of
               (pc, ls'') \<Rightarrow> Done (e'\<lparr>e_info := int pc, e_k := VRELOC\<rparr>, ls''))
           else Done (e, ls)) (\<lambda>(e', ls').
    Done (e'\<lparr>e_f := e_t e', e_t := e_f e'\<rparr>,
          set_code ls' (removevalues (removevalues (fs_code (ls_fs ls')) (e_t e')) (e_f e'))))"

definition wrap64 :: "int \<Rightarrow> int" where
  "wrap64 x = (x + 2 ^ 63) mod 2 ^ 64 - 2 ^ 63"

definition codeunexpval :: "LexState \<Rightarrow> OpCode \<Rightarrow> expdesc \<Rightarrow> (expdesc \<times> LexState) result" where
  "codeunexpval ls opc e =
    bindR (luaK_exp2anyreg ls e) (\<lambda>(e', ls').
    case luaK_codeABC (freeexp ls' e') opc 0 (e_info e') 0 of
      (pc, ls'') \<Rightarrow> Done (e'\<lparr>e_info := int pc, e_k := VRELOC\<rparr>, ls''))"

definition luaK_prefix ::
  "LexState \<Rightarrow> UnOpr \<Rightarrow> expdesc \<Rightarrow> int \<Rightarrow> (expdesc \<times> LexState) result" where
  "luaK_prefix ls op e0 line =
    (case luaK_dischargevars ls e0 of (e, ls) \<Rightarrow>
     case op of
       OPR_MINUS \<Rightarrow>
         if e_k e = VKINT \<and> \<not> hasjumps e then Done (e\<lparr>e_ival := wrap64 (- e_ival e)\<rparr>, ls)
         else codeunexpval ls OP_UNM e
     | OPR_BNOT \<Rightarrow> codeunexpval ls OP_BNOT e
     | OPR_LEN \<Rightarrow> codeunexpval ls OP_LEN e
     | OPR_NOT \<Rightarrow> codenot ls e
     | OPR_NOUNOPR \<Rightarrow> Done (e, ls))"

definition foldable :: "BinOpr \<Rightarrow> bool" where
  "foldable op = (op \<in> {OPR_ADD, OPR_SUB, OPR_MUL})"

definition arith_opr :: "BinOpr \<Rightarrow> bool" where
  "arith_opr op =
    (op \<in> {OPR_ADD, OPR_SUB, OPR_MUL, OPR_DIV, OPR_IDIV, OPR_MOD, OPR_POW,
            OPR_BAND, OPR_BOR, OPR_BXOR, OPR_SHL, OPR_SHR})"

definition luaK_infix :: "LexState \<Rightarrow> BinOpr \<Rightarrow> expdesc \<Rightarrow> (expdesc \<times> LexState) result" where
  "luaK_infix ls op v0 =
    (case luaK_dischargevars ls v0 of (v, ls) \<Rightarrow>
     if op = OPR_AND then luaK_goiftrue ls v
     else if op = OPR_OR then luaK_goiffalse ls v
     else if op = OPR_COAL then luaK_goifnil ls v
     else if op = OPR_CONCAT then luaK_exp2nextreg ls v
     else if op = OPR_NOBINOPR then Done (v, ls)
     else if tonumeral v then Done (v, ls)
     else luaK_exp2anyreg ls v)"

definition codebinexpval ::
  "LexState \<Rightarrow> OpCode \<Rightarrow> expdesc \<Rightarrow> expdesc \<Rightarrow> (expdesc \<times> LexState) result" where
  "codebinexpval ls opc e1 e2 =
    bindR (luaK_exp2anyreg ls e2) (\<lambda>(e2', ls1).
    bindR (luaK_exp2anyreg ls1 e1) (\<lambda>(e1', ls2).
    case luaK_codeABC ls2 opc 0 (e_info e1') (e_info e2') of
      (pc, ls3) \<Rightarrow> Done (e1'\<lparr>e_info := int pc, e_k := VRELOC\<rparr>, freeexps ls3 e1' e2')))"

definition isSCnumber :: "expdesc \<Rightarrow> bool" where
  "isSCnumber e = (e_k e = VKINT \<and> \<not> hasjumps e \<and> - 127 \<le> e_ival e \<and> e_ival e \<le> 128)"

definition codeeq ::
  "LexState \<Rightarrow> BinOpr \<Rightarrow> expdesc \<Rightarrow> expdesc \<Rightarrow> (expdesc \<times> LexState) result" where
  "codeeq ls opr a b =
    (let e1 = (if e_k a \<noteq> VNONRELOC then b else a);
         e2 = (if e_k a \<noteq> VNONRELOC then a else b) in
     bindR (luaK_exp2anyreg ls e1) (\<lambda>(e1', ls1).
     bindR (if isSCnumber e2 then Done (OP_EQI, e_ival e2, e2, ls1)
            else bindR (exp2RK ls1 e2) (\<lambda>(k, e2', ls2).
                 Done (if k then OP_EQK else OP_EQ, e_info e2', e2', ls2)))
       (\<lambda>(opc, r2, e2', ls2).
     case condjump (freeexps ls2 e1' e2') opc (e_info e1') r2 0 (opr = OPR_EQ) of
       (pc, ls3) \<Rightarrow> Done (e1'\<lparr>e_info := int pc, e_k := VJMP\<rparr>, ls3))))"

definition codeorder ::
  "LexState \<Rightarrow> OpCode \<Rightarrow> expdesc \<Rightarrow> expdesc \<Rightarrow> (expdesc \<times> LexState) result" where
  "codeorder ls opc e1 e2 =
    bindR (luaK_exp2anyreg ls e1) (\<lambda>(e1', ls1).
    bindR (luaK_exp2anyreg ls1 e2) (\<lambda>(e2', ls2).
    case condjump (freeexps ls2 e1' e2') opc (e_info e1') (e_info e2') 0 True of
      (pc, ls3) \<Rightarrow> Done (e1'\<lparr>e_info := int pc, e_k := VJMP\<rparr>, ls3)))"

definition luaK_posfix ::
  "LexState \<Rightarrow> BinOpr \<Rightarrow> expdesc \<Rightarrow> expdesc \<Rightarrow> int \<Rightarrow> (expdesc \<times> LexState) result" where
  "luaK_posfix ls opr e1 e20 line =
    (case luaK_dischargevars ls e20 of (e2, ls) \<Rightarrow>
     if foldable opr \<and> e_k e1 = VKINT \<and> e_k e2 = VKINT \<and> \<not> hasjumps e1 \<and> \<not> hasjumps e2 then
       Done (e1\<lparr>e_ival :=
               wrap64 (if opr = OPR_ADD then e_ival e1 + e_ival e2
                       else if opr = OPR_SUB then e_ival e1 - e_ival e2
                       else e_ival e1 * e_ival e2)\<rparr>, ls)
     else if opr = OPR_AND then Done (e2\<lparr>e_f := luaK_concat (e_f e2) (e_f e1)\<rparr>, ls)
     else if opr = OPR_OR \<or> opr = OPR_COAL then
       Done (e2\<lparr>e_t := luaK_concat (e_t e2) (e_t e1)\<rparr>, ls)
     else if opr = OPR_CONCAT then
       bindR (luaK_exp2nextreg ls e2) (\<lambda>(e2', ls1).
       Done (e1, freeexp (snd (luaK_codeABC ls1 OP_CONCAT (e_info e1) 2 0)) e2'))
     else if arith_opr opr then codebinexpval ls (binopr_opcode opr) e1 e2
     else if opr = OPR_EQ \<or> opr = OPR_NE then codeeq ls opr e1 e2
     else if opr = OPR_LT then codeorder ls OP_LT e1 e2
     else if opr = OPR_LE then codeorder ls OP_LE e1 e2
     else if opr = OPR_GT then codeorder ls OP_LT e2 e1
     else if opr = OPR_GE then codeorder ls OP_LE e2 e1
     else Done (e1, ls))"

definition isKstr :: "LexState \<Rightarrow> expdesc \<Rightarrow> bool" where
  "isKstr ls e =
    (e_k e = VK \<and> \<not> hasjumps e \<and> e_info e \<le> 255 \<and>
     (case fs_k (ls_fs ls) ! nat (e_info e) of TStr s \<Rightarrow> length s \<le> 40 | _ \<Rightarrow> False))"

definition isCint :: "expdesc \<Rightarrow> bool" where
  "isCint e = (e_k e = VKINT \<and> \<not> hasjumps e \<and> 0 \<le> e_ival e \<and> e_ival e \<le> 255)"

definition luaK_indexed ::
  "LexState \<Rightarrow> expdesc \<Rightarrow> expdesc \<Rightarrow> (expdesc \<times> LexState) result" where
  "luaK_indexed ls t0 k0 =
    (case (if e_k k0 = VKSTR
           then (case addk ls (TStr (e_strval k0)) of
                   (i, ls') \<Rightarrow> (k0\<lparr>e_k := VK, e_info := int i\<rparr>, ls'))
           else (k0, ls)) of (k, ls1) \<Rightarrow>
     bindR (if e_k t0 = VUPVAL \<and> \<not> isKstr ls1 k then luaK_exp2anyreg ls1 t0 else Done (t0, ls1))
       (\<lambda>(t, ls2).
     if e_k t = VUPVAL then
       Done (t\<lparr>e_ind_t := e_info t, e_ind_idx := e_info k, e_k := VINDEXUP\<rparr>, ls2)
     else
       (let t1 = t\<lparr>e_ind_t := (if e_k t = VLOCAL then e_var_ridx t else e_info t)\<rparr> in
        if isKstr ls2 k then Done (t1\<lparr>e_ind_idx := e_info k, e_k := VINDEXSTR\<rparr>, ls2)
        else if isCint k then Done (t1\<lparr>e_ind_idx := e_ival k, e_k := VINDEXI\<rparr>, ls2)
        else bindR (luaK_exp2anyreg ls2 k) (\<lambda>(k', ls3).
             Done (t1\<lparr>e_ind_idx := e_info k', e_k := VINDEXED\<rparr>, ls3)))))"

definition luaK_ret :: "LexState \<Rightarrow> int \<Rightarrow> int \<Rightarrow> LexState" where
  "luaK_ret ls first nret = snd (luaK_codeABC ls OP_RETURN first (nret + 1) 0)"

definition luaK_setlist :: "LexState \<Rightarrow> int \<Rightarrow> int \<Rightarrow> int \<Rightarrow> LexState" where
  "luaK_setlist ls base nelems tostore =
    (let ls' = snd (luaK_codeABC ls OP_SETLIST base
                     (if tostore = LUA_MULTRET then 0 else tostore) nelems)
     in ls'\<lparr>ls_fs := (ls_fs ls')\<lparr>fs_freereg := lu_byte (base + 1)\<rparr>\<rparr>)"

definition luaK_settablesize :: "LexState \<Rightarrow> nat \<Rightarrow> int \<Rightarrow> int \<Rightarrow> int \<Rightarrow> LexState" where
  "luaK_settablesize ls pc ra asize hsize =
    set_code ls
      ((fs_code (ls_fs ls))[pc := mkABCk OP_NEWTABLE ra hsize asize False,
                            pc + 1 := (mkABCk OP_EXTRAARG 0 0 0 False)\<lparr>i_Bx := 0\<rparr>])"

definition luaK_finish :: "LexState \<Rightarrow> LexState" where
  "luaK_finish ls = ls"

section \<open>Expression lists, labels, gotos and blocks\<close>

definition hasmultret :: "expkind \<Rightarrow> bool" where
  "hasmultret k = (k = VCALL \<or> k = VVARARG)"

text \<open>
  Modelled from the spec: the macros \<^verbatim>\<open>vkisvar\<close>, \<^verbatim>\<open>vkisindexed\<close> and
  \<^verbatim>\<open>vkisconst\<close> of \<^verbatim>\<open>lparser.h\<close>: the kinds that stand for a variable, for an
  indexed variable, and for what a \<^verbatim>\<open>case\<close> accepts (a number, a string or a
  named constant).
\<close>

definition vkisvar :: "expkind \<Rightarrow> bool" where
  "vkisvar k = (k \<in> {VLOCAL, VUPVAL, VCONST, VINDEXED, VINDEXUP, VINDEXI, VINDEXSTR})"

definition vkisindexed :: "expkind \<Rightarrow> bool" where
  "vkisindexed k = (k \<in> {VINDEXED, VINDEXUP, VINDEXI, VINDEXSTR})"

definition vkisconst :: "expkind \<Rightarrow> bool" where
  "vkisconst k = (k \<in> {VKINT, VKFLT, VKSTR, VCONST})"

definition adjust_assign :: "LexState \<Rightarrow> int \<Rightarrow> int \<Rightarrow> expdesc \<Rightarrow> LexState result" where
  "adjust_assign ls nvars nexps e =
    (let needed = nvars - nexps in
     bindR (if hasmultret (e_k e) then
              luaK_setreturns ls e (if needed + 1 < 0 then 0 else needed + 1)
            else
              bindR (if e_k e \<noteq> VVOID
                     then bindR (luaK_exp2nextreg ls e) (\<lambda>(e', ls'). Done ls')
                     else Done ls) (\<lambda>ls.
              Done (if needed > 0 then luaK_nil ls (fs_freereg (ls_fs ls)) needed else ls)))
       (\<lambda>ls.
     if needed > 0 then luaK_reserveregs ls needed
     else Done (ls\<lparr>ls_fs := (ls_fs ls)\<lparr>fs_freereg := lu_byte (fs_freereg (ls_fs ls) + needed)\<rparr>\<rparr>)))"

definition jumpscopeerror :: "LexState \<Rightarrow> jumplist Labeldesc \<Rightarrow> 'a result" where
  "jumpscopeerror ls gt =
    luaK_semerror ''<goto %s> at line %d jumps into the scope of local %s''
      [S (lb_name gt), N (lb_line gt),
       S (vd_name (getlocalvardesc ls (ls_fs ls) (lb_nactvar gt)))]"

definition solvegoto :: "LexState \<Rightarrow> nat \<Rightarrow> nat Labeldesc \<Rightarrow> LexState result" where
  "solvegoto ls g label =
    (let gt = dyd_gt ls ! g in
     if lb_nactvar gt < lb_nactvar label then jumpscopeerror ls gt
     else
       (let ls' = luaK_patchlist ls (lb_pc gt) (lb_pc label)
        in Done (ls'\<lparr>dyd_gt := take g (dyd_gt ls') @ drop (Suc g) (dyd_gt ls')\<rparr>)))"

primrec findlabel_in :: "nat Labeldesc list \<Rightarrow> string \<Rightarrow> nat Labeldesc option" where
  "findlabel_in [] name = None"
| "findlabel_in (lb # lbs) name = (if lb_name lb = name then Some lb else findlabel_in lbs name)"

definition findlabel :: "LexState \<Rightarrow> string \<Rightarrow> nat Labeldesc option" where
  "findlabel ls name = findlabel_in (drop (fs_firstlabel (ls_fs ls)) (dyd_label ls)) name"

text \<open>
  \<^verbatim>\<open>newlabelentry\<close> fills the next entry of the list it is given; the model builds
  the entry, and the two callers append it to their list.
\<close>

definition newlabelentry :: "LexState \<Rightarrow> string \<Rightarrow> int \<Rightarrow> 'p \<Rightarrow> 'p Labeldesc" where
  "newlabelentry ls name line pc =
    \<lparr>lb_name = name, lb_pc = pc, lb_line = line, lb_nactvar = fs_nactvar (ls_fs ls),
     lb_close = False\<rparr>"

definition newgotoentry :: "LexState \<Rightarrow> string \<Rightarrow> int \<Rightarrow> jumplist \<Rightarrow> nat \<times> LexState" where
  "newgotoentry ls name line pc =
    (length (dyd_gt ls), ls\<lparr>dyd_gt := dyd_gt ls @ [newlabelentry ls name line pc]\<rparr>)"

function solvegotos_from ::
  "LexState \<Rightarrow> nat Labeldesc \<Rightarrow> nat \<Rightarrow> bool \<Rightarrow> (bool \<times> LexState) result" where
  "solvegotos_from ls lb i needsclose =
    (if i < length (dyd_gt ls) then
       (if lb_name (dyd_gt ls ! i) = lb_name lb then
          (case solvegoto ls i lb of
             Done ls' \<Rightarrow> solvegotos_from ls' lb i (needsclose \<or> lb_close (dyd_gt ls ! i))
           | Fail e \<Rightarrow> Fail e
           | OutOfFuel \<Rightarrow> OutOfFuel)
        else solvegotos_from ls lb (i + 1) needsclose)
     else Done (needsclose, ls))"
  by pat_completeness auto
termination
proof (relation "measure (\<lambda>(ls, lb, i, c). length (dyd_gt ls) - i)")
  show "wf (measure (\<lambda>(ls, lb, i, c). length (dyd_gt ls) - i))"
    by simp
next
  fix ls :: LexState and lb :: "nat Labeldesc" and i :: nat and needsclose :: bool and ls'
  assume "i < length (dyd_gt ls)" and "solvegoto ls i lb = Done ls'"
  then show "((ls', lb, i, needsclose \<or> lb_close (dyd_gt ls ! i)), ls, lb, i, needsclose)
      \<in> measure (\<lambda>(ls, lb, i, c). length (dyd_gt ls) - i)"
    by (auto simp: solvegoto_def Let_def jumpscopeerror_def luaK_semerror_def
        luaK_patchlist_def set_code_def split: if_splits)
next
  fix ls :: LexState and lb :: "nat Labeldesc" and i :: nat and needsclose :: bool
  assume "i < length (dyd_gt ls)"
  then show "((ls, lb, i + 1, needsclose), ls, lb, i, needsclose)
      \<in> measure (\<lambda>(ls, lb, i, c). length (dyd_gt ls) - i)"
    by auto
qed

declare solvegotos_from.simps [simp del]

definition solvegotos :: "LexState \<Rightarrow> nat Labeldesc \<Rightarrow> (bool \<times> LexState) result" where
  "solvegotos ls lb = solvegotos_from ls lb (bl_firstgoto (hd (fs_bl (ls_fs ls)))) False"

definition createlabel :: "LexState \<Rightarrow> string \<Rightarrow> int \<Rightarrow> bool \<Rightarrow> (bool \<times> LexState) result" where
  "createlabel ls0 name line islast =
    (case luaK_getlabel ls0 of (pc, ls) \<Rightarrow>
     let l = newlabelentry ls name line pc;
         l' = (if islast then l\<lparr>lb_nactvar := bl_nactvar (hd (fs_bl (ls_fs ls)))\<rparr> else l);
         ls1 = ls\<lparr>dyd_label := dyd_label ls @ [l']\<rparr>
     in bindR (solvegotos ls1 l') (\<lambda>(needsclose, ls2).
        if needsclose
        then Done (True, snd (luaK_codeABC ls2 OP_CLOSE (luaY_nvarstack ls2) 0 0))
        else Done (False, ls2)))"

definition movegotosout :: "LexState \<Rightarrow> BlockCnt \<Rightarrow> LexState" where
  "movegotosout ls bl =
    ls\<lparr>dyd_gt :=
         take (bl_firstgoto bl) (dyd_gt ls) @
         map (\<lambda>gt. gt\<lparr>lb_close :=
                        (if reglevel ls (ls_fs ls) (lb_nactvar gt)
                              > reglevel ls (ls_fs ls) (bl_nactvar bl)
                         then lb_close gt \<or> bl_upval bl else lb_close gt),
                      lb_nactvar := bl_nactvar bl\<rparr>)
           (drop (bl_firstgoto bl) (dyd_gt ls))\<rparr>"

text \<open>
  The assertion at the end of \<^verbatim>\<open>enterblock\<close> is not executed in a release build
  and is not part of the function's effect.
\<close>

definition enterblock :: "LexState \<Rightarrow> bool \<Rightarrow> LexState" where
  "enterblock ls isloop =
    (let fs = ls_fs ls;
         bl = \<lparr>bl_scopeend = NO_JUMP,
               bl_firstlabel = length (dyd_label ls),
               bl_firstgoto = length (dyd_gt ls),
               bl_nactvar = fs_nactvar fs,
               bl_upval = False,
               bl_isloop = isloop,
               bl_insidetbc = (fs_bl fs \<noteq> [] \<and> bl_insidetbc (hd (fs_bl fs)))\<rparr>
     in ls\<lparr>ls_fs := fs\<lparr>fs_bl := bl # fs_bl fs\<rparr>\<rparr>)"

definition undefgoto :: "jumplist Labeldesc \<Rightarrow> 'a result" where
  "undefgoto gt =
    (if lb_name gt = ''break''
     then luaK_semerror ''break outside loop at line %d'' [N (lb_line gt)]
     else luaK_semerror ''no visible label %s for <goto> at line %d''
            [S (lb_name gt), N (lb_line gt)])"

text \<open>
  \<^verbatim>\<open>leaveblock\<close> works on the innermost block \<^verbatim>\<open>fs->bl\<close>, the head of the list;
  \<^verbatim>\<open>bl->previous\<close> is the rest of the list.
\<close>

definition leaveblock :: "LexState \<Rightarrow> LexState result" where
  "leaveblock ls =
    (let bl = hd (fs_bl (ls_fs ls));
         previous = tl (fs_bl (ls_fs ls));
         stklevel = reglevel ls (ls_fs ls) (bl_nactvar bl)
     in bindR (if bl_isloop bl then createlabel ls ''break'' 0 False else Done (False, ls))
          (\<lambda>(hasclose, ls1).
        let ls2 = (if \<not> hasclose \<and> previous \<noteq> [] \<and> bl_upval bl
                   then snd (luaK_codeABC ls1 OP_CLOSE stklevel 0 0) else ls1);
            ls3 = ls2\<lparr>ls_fs := (ls_fs ls2)\<lparr>fs_bl := previous\<rparr>\<rparr>;
            ls4 = removevars ls3 (bl_nactvar bl);
            ls5 = ls4\<lparr>ls_fs := (ls_fs ls4)\<lparr>fs_freereg := lu_byte stklevel\<rparr>\<rparr>;
            ls6 = ls5\<lparr>dyd_label := take (bl_firstlabel bl) (dyd_label ls5)\<rparr>
        in if previous \<noteq> [] then Done (movegotosout ls6 bl)
           else if bl_firstgoto bl < length (dyd_gt ls6)
           then undefgoto (dyd_gt ls6 ! bl_firstgoto bl)
           else Done ls6))"

section \<open>Opening and closing a function\<close>

definition empty_proto :: Proto where
  "empty_proto = Proto [] [] [] [] [] 0 False 0 0 0"

text \<open>
  \<^verbatim>\<open>addprototype\<close> makes a new, empty prototype the last child of the current
  function; \<^verbatim>\<open>close_func\<close> below stores the finished child there.
\<close>

definition addprototype :: "LexState \<Rightarrow> LexState" where
  "addprototype ls = ls\<lparr>ls_fs := (ls_fs ls)\<lparr>fs_p := fs_p (ls_fs ls) @ [empty_proto]\<rparr>\<rparr>"

text \<open>
  \<^verbatim>\<open>codeclosure\<close> emits into the enclosing function \<^verbatim>\<open>ls->fs->prev\<close> while the
  new function is still the current one. The emitter model works on \<open>ls_fs\<close>, so the
  enclosing function is made current for the two calls and put back after them.
\<close>

definition codeclosure :: "LexState \<Rightarrow> expdesc \<Rightarrow> (expdesc \<times> LexState) result" where
  "codeclosure ls v =
    (let inner = ls_fs ls;
         lsp = ls\<lparr>ls_fs := hd (ls_prev ls), ls_prev := tl (ls_prev ls)\<rparr>
     in case luaK_codeABx lsp OP_CLOSURE 0 (int (length (fs_p (ls_fs lsp))) - 1) of
          (pc, lsp1) \<Rightarrow>
            bindR (luaK_exp2nextreg lsp1 (init_exp v VRELOC (int pc))) (\<lambda>(v', lsp2).
            Done (v', lsp2\<lparr>ls_fs := inner, ls_prev := ls_fs lsp2 # ls_prev lsp2\<rparr>)))"

text \<open>
  \<^verbatim>\<open>open_func\<close> receives the new \<open>FuncState\<close> with its prototype, of which the
  caller has set \<^verbatim>\<open>linedefined\<close>; the model receives that line.
\<close>

definition open_func :: "LexState \<Rightarrow> int \<Rightarrow> LexState" where
  "open_func ls linedefined =
    enterblock
      (ls\<lparr>ls_prev := ls_fs ls # ls_prev ls,
          ls_fs := \<lparr>fs_code = [], fs_k = [], fs_p = [], fs_upvalues = [], fs_locvars = [],
                    fs_numparams = 0, fs_is_vararg = False, fs_maxstacksize = 2,
                    fs_linedefined = linedefined, fs_lastlinedefined = 0,
                    fs_lasttarget = 0, fs_freereg = 0, fs_nactvar = 0,
                    fs_needclose = False, fs_firstlocal = actvar_n ls,
                    fs_firstlabel = length (dyd_label ls), fs_bl = []\<rparr>\<rparr>) False"

definition proto_of :: "FuncState \<Rightarrow> Proto" where
  "proto_of fs =
    Proto (fs_code fs) (fs_k fs) (fs_p fs) (fs_upvalues fs) (fs_locvars fs)
      (fs_numparams fs) (fs_is_vararg fs) (fs_maxstacksize fs) (fs_linedefined fs)
      (fs_lastlinedefined fs)"

text \<open>
  \<^verbatim>\<open>close_func\<close> makes the enclosing function current again. The finished
  prototype becomes the last child of that function. For the main function there is no
  enclosing one: \<^verbatim>\<open>ls->fs\<close> becomes \<^verbatim>\<open>NULL\<close>, and the model leaves the finished
  main function in \<open>ls_fs\<close>.
\<close>

definition close_func :: "LexState \<Rightarrow> LexState result" where
  "close_func ls =
    bindR (leaveblock (luaK_ret ls (luaY_nvarstack ls) 0)) (\<lambda>ls1.
    let ls2 = luaK_finish ls1 in
    case ls_prev ls2 of
      [] \<Rightarrow> Done ls2
    | prev # rest \<Rightarrow>
        Done (ls2\<lparr>ls_fs := prev\<lparr>fs_p := butlast (fs_p prev) @ [proto_of (ls_fs ls2)]\<rparr>,
                  ls_prev := rest\<rparr>))"

section \<open>Grammar rules\<close>

text \<open>
  The grammar functions call each other recursively, and their loops run as long as the
  input makes them. A model function takes a first argument \<open>R\<close> that holds the
  recursive non-terminals \<^verbatim>\<open>statement\<close> and \<^verbatim>\<open>subexpr\<close> (through which
  \<^verbatim>\<open>expr\<close> is defined, and which the source declares ahead as prototypes) and the
  continuation of every loop that consumes tokens. A call through \<open>R\<close> is a call of
  the function itself with one unfolding less to go; \<open>parser_at\<close> at the end of this
  section ties the knot. Where the source passes a pointer to a descriptor that the
  callee fills, the model function returns the descriptor.
\<close>

record ConsControl =
  cc_v :: expdesc
  cc_t :: expdesc
  cc_nh :: int
  cc_na :: int
  cc_tostore :: int

record parser =
  r_statement :: "LexState \<Rightarrow> LexState result"
  r_subexpr :: "LexState \<Rightarrow> int \<Rightarrow> (BinOpr \<times> expdesc \<times> LexState) result"
  r_subexpr_loop ::
    "LexState \<Rightarrow> expdesc \<Rightarrow> int \<Rightarrow> BinOpr \<Rightarrow> (BinOpr \<times> expdesc \<times> LexState) result"
  r_statlist :: "LexState \<Rightarrow> LexState result"
  r_caselist :: "LexState \<Rightarrow> bool \<Rightarrow> LexState result"
  r_constructor_loop :: "LexState \<Rightarrow> ConsControl \<Rightarrow> (ConsControl \<times> LexState) result"
  r_parlist_loop :: "LexState \<Rightarrow> int \<Rightarrow> (int \<times> bool \<times> LexState) result"
  r_explist_loop :: "LexState \<Rightarrow> expdesc \<Rightarrow> int \<Rightarrow> (int \<times> expdesc \<times> LexState) result"
  r_suffixedexp_loop :: "LexState \<Rightarrow> expdesc \<Rightarrow> int \<Rightarrow> (expdesc \<times> LexState) result"
  r_restassign :: "LexState \<Rightarrow> expdesc list \<Rightarrow> int \<Rightarrow> (expdesc list \<times> LexState) result"
  r_switch_loop :: "LexState \<Rightarrow> expdesc \<Rightarrow> int \<Rightarrow> LexState result"
  r_labelstat_loop :: "LexState \<Rightarrow> LexState result"
  r_forlist_loop :: "LexState \<Rightarrow> int \<Rightarrow> (int \<times> LexState) result"
  r_semicolons :: "LexState \<Rightarrow> LexState result"
  r_ifstat_loop :: "LexState \<Rightarrow> jumplist \<Rightarrow> (jumplist \<times> LexState) result"
  r_localstat_loop ::
    "LexState \<Rightarrow> int \<Rightarrow> int \<Rightarrow> (nat \<times> int \<times> int \<times> LexState) result"
  r_funcname_loop :: "LexState \<Rightarrow> expdesc \<Rightarrow> (expdesc \<times> LexState) result"

definition expr :: "parser \<Rightarrow> LexState \<Rightarrow> (expdesc \<times> LexState) result" where
  "expr R ls = bindR (r_subexpr R ls 0) (\<lambda>(op, v, ls). Done (v, ls))"

definition block_follow :: "LexState \<Rightarrow> bool \<Rightarrow> bool" where
  "block_follow ls withuntil =
    (if gett ls = TK_ELSE \<or> gett ls = TK_ELSEIF \<or> gett ls = TK_END \<or> gett ls = TK_EOS
     then True
     else if gett ls = TK_PWHEN \<or> (\<not> compat_when (ls_cfg ls) \<and> gett ls = TK_WHEN)
             \<or> gett ls = TK_UNTIL
     then withuntil
     else False)"

definition statlist :: "parser \<Rightarrow> LexState \<Rightarrow> LexState result" where
  "statlist R ls =
    (if \<not> block_follow ls True then
       (if gett ls = TK_RETURN then r_statement R ls
        else bindR (r_statement R ls) (\<lambda>ls. r_statlist R ls))
     else Done ls)"

text \<open>
  In \<^verbatim>\<open>caselist\<close> the lookahead is read only when the two tests before it hold;
  the token it reads stays in \<^verbatim>\<open>ls->lookahead\<close> for the branch that follows.
\<close>

definition caselist :: "parser \<Rightarrow> LexState \<Rightarrow> bool \<Rightarrow> LexState result" where
  "caselist R ls isdefault =
    (if gett ls \<noteq> TK_PDEFAULT \<and> gett ls \<noteq> TK_PCASE \<and> gett ls \<noteq> TK_END
        \<and> (compat_default (ls_cfg ls) \<or> gett ls \<noteq> TK_DEFAULT)
        \<and> (compat_case (ls_cfg ls) \<or> gett ls \<noteq> TK_CASE)
     then
       (case (if isdefault \<and> gett ls = TK_BREAK
              then (case luaX_lookahead ls of (c, ls') \<Rightarrow> (c = TK_END, ls'))
              else (False, ls)) of
          (True, ls1) \<Rightarrow> r_caselist R (luaX_next ls1) isdefault
        | (False, ls1) \<Rightarrow>
            if gett ls1 = TK_PCONTINUE
               \<or> (\<not> compat_continue (ls_cfg ls1) \<and> gett ls1 = TK_CONTINUE)
            then throwerr ''continue outside of loop.'' [] ''case statements are not loops.''
            else bindR (r_statement R ls1) (\<lambda>ls2. r_caselist R ls2 isdefault))
     else Done ls)"

definition fieldsel :: "LexState \<Rightarrow> expdesc \<Rightarrow> (expdesc \<times> LexState) result" where
  "fieldsel ls v =
    bindR (luaK_exp2anyregup ls v) (\<lambda>(v, ls).
    bindR (codename (luaX_next ls) void_exp) (\<lambda>(key, ls).
    luaK_indexed ls v key))"

definition yindex :: "parser \<Rightarrow> LexState \<Rightarrow> (expdesc \<times> LexState) result" where
  "yindex R ls =
    bindR (expr R (luaX_next ls)) (\<lambda>(v, ls).
    bindR (luaK_exp2val ls v) (\<lambda>(v, ls).
    bindR (checknext ls (TK_CHAR CHR '']'')) (\<lambda>ls.
    Done (v, ls))))"

subsection \<open>Constructors\<close>

definition MAX_INT :: int where
  "MAX_INT = 2147483647"

text \<open>Modelled from the spec: \<^verbatim>\<open>LFIELDS_PER_FLUSH\<close> of \<^verbatim>\<open>lopcodes.h\<close>.\<close>

definition LFIELDS_PER_FLUSH :: int where
  "LFIELDS_PER_FLUSH = 50"

definition set_freereg :: "LexState \<Rightarrow> int \<Rightarrow> LexState" where
  "set_freereg ls reg = ls\<lparr>ls_fs := (ls_fs ls)\<lparr>fs_freereg := lu_byte reg\<rparr>\<rparr>"

definition recfield :: "parser \<Rightarrow> LexState \<Rightarrow> ConsControl \<Rightarrow> (ConsControl \<times> LexState) result" where
  "recfield R ls cc =
    (let reg = fs_freereg (ls_fs ls) in
     bindR (if gett ls = TK_NAME then
              bindR (checklimit (ls_fs ls) (cc_nh cc) MAX_INT ''items in a constructor'') (\<lambda>_.
              codename ls void_exp)
            else yindex R ls) (\<lambda>(key, ls).
     bindR (checknext ls (TK_CHAR CHR ''='')) (\<lambda>ls.
     bindR (luaK_indexed ls (cc_t cc) key) (\<lambda>(tab, ls).
     bindR (expr R ls) (\<lambda>(val, ls).
     bindR (luaK_storevar ls tab val) (\<lambda>ls.
     Done (cc\<lparr>cc_nh := cc_nh cc + 1\<rparr>, set_freereg ls reg)))))))"

definition prenamedfield ::
  "parser \<Rightarrow> LexState \<Rightarrow> ConsControl \<Rightarrow> string \<Rightarrow> (ConsControl \<times> LexState) result" where
  "prenamedfield R ls cc name =
    (let reg = fs_freereg (ls_fs ls);
         key = codestring void_exp name in
     bindR (checknext (luaX_next ls) (TK_CHAR CHR ''='')) (\<lambda>ls.
     bindR (luaK_indexed ls (cc_t cc) key) (\<lambda>(tab, ls).
     bindR (expr R ls) (\<lambda>(val, ls).
     bindR (luaK_storevar ls tab val) (\<lambda>ls.
     Done (cc\<lparr>cc_nh := cc_nh cc + 1\<rparr>, set_freereg ls reg))))))"

definition closelistfield :: "LexState \<Rightarrow> ConsControl \<Rightarrow> (ConsControl \<times> LexState) result" where
  "closelistfield ls cc =
    (if e_k (cc_v cc) = VVOID then Done (cc, ls)
     else
       bindR (luaK_exp2nextreg ls (cc_v cc)) (\<lambda>(v, ls).
       let cc1 = cc\<lparr>cc_v := v\<lparr>e_k := VVOID\<rparr>\<rparr> in
       if cc_tostore cc1 = LFIELDS_PER_FLUSH then
         Done (cc1\<lparr>cc_na := cc_na cc1 + cc_tostore cc1, cc_tostore := 0\<rparr>,
               luaK_setlist ls (e_info (cc_t cc1)) (cc_na cc1) (cc_tostore cc1))
       else Done (cc1, ls)))"

definition lastlistfield :: "LexState \<Rightarrow> ConsControl \<Rightarrow> (ConsControl \<times> LexState) result" where
  "lastlistfield ls cc =
    (if cc_tostore cc = 0 then Done (cc, ls)
     else if hasmultret (e_k (cc_v cc)) then
       bindR (luaK_setmultret ls (cc_v cc)) (\<lambda>ls.
       Done (cc\<lparr>cc_na := cc_na cc - 1 + cc_tostore cc\<rparr>,
             luaK_setlist ls (e_info (cc_t cc)) (cc_na cc) LUA_MULTRET))
     else
       bindR (if e_k (cc_v cc) \<noteq> VVOID then luaK_exp2nextreg ls (cc_v cc)
              else Done (cc_v cc, ls)) (\<lambda>(v, ls).
       Done (cc\<lparr>cc_v := v, cc_na := cc_na cc + cc_tostore cc\<rparr>,
             luaK_setlist ls (e_info (cc_t cc)) (cc_na cc) (cc_tostore cc))))"

definition listfield :: "parser \<Rightarrow> LexState \<Rightarrow> ConsControl \<Rightarrow> (ConsControl \<times> LexState) result" where
  "listfield R ls cc =
    bindR (expr R ls) (\<lambda>(v, ls).
    Done (cc\<lparr>cc_v := v, cc_tostore := cc_tostore cc + 1\<rparr>, ls))"

subsection \<open>Function bodies\<close>

definition setvararg :: "LexState \<Rightarrow> int \<Rightarrow> LexState" where
  "setvararg ls nparams =
    snd (luaK_codeABC (ls\<lparr>ls_fs := (ls_fs ls)\<lparr>fs_is_vararg := True\<rparr>\<rparr>) OP_VARARGPREP nparams 0 0)"

definition parlist_loop :: "parser \<Rightarrow> LexState \<Rightarrow> int \<Rightarrow> (int \<times> bool \<times> LexState) result" where
  "parlist_loop R ls nparams =
    bindR (if gett ls = TK_NAME then
             bindR (str_checkname ls True) (\<lambda>(name, ls).
             bindR (new_localvar ls name) (\<lambda>(vidx, ls).
             Done (nparams + 1, False, ls)))
           else if gett ls = TK_DOTS then Done (nparams, True, luaX_next ls)
           else luaX_syntaxerror ''<name> or ... expected'' []) (\<lambda>(nparams, isvararg, ls).
    if \<not> isvararg then
      (case testnext ls (TK_CHAR CHR '','') of
         (True, ls) \<Rightarrow> r_parlist_loop R ls nparams
       | (False, ls) \<Rightarrow> Done (nparams, isvararg, ls))
    else Done (nparams, isvararg, ls))"

definition parlist :: "parser \<Rightarrow> LexState \<Rightarrow> LexState result" where
  "parlist R ls =
    bindR (if gett ls \<noteq> TK_CHAR CHR '')'' \<and> gett ls \<noteq> TK_CHAR CHR ''|''
           then parlist_loop R ls 0
           else Done (0, False, ls)) (\<lambda>(nparams, isvararg, ls).
    let ls1 = adjustlocalvars ls nparams;
        ls2 = ls1\<lparr>ls_fs := (ls_fs ls1)\<lparr>fs_numparams := fs_nactvar (ls_fs ls1) mod 256\<rparr>\<rparr>;
        ls3 = (if isvararg then setvararg ls2 (int (fs_numparams (ls_fs ls2))) else ls2)
    in luaK_reserveregs ls3 (int (fs_nactvar (ls_fs ls3))))"

text \<open>
  \<^verbatim>\<open>gettypehint\<close> is declared \<^verbatim>\<open>noexcept\<close> and yet raises the errors of
  \<^verbatim>\<open>str_checkname\<close> and of an unknown type name. How an error leaves a function is
  decided by \<^verbatim>\<open>luaD_throw\<close>, which is not part of the parser: raised by
  \<^verbatim>\<open>longjmp\<close> it reaches the caller of the parser like any other, raised as a C++
  exception it ends the process at the boundary of this function. The result \<open>Fail\<close>
  stands for both: it says that no function prototype is produced and which error was
  raised, not that the caller of the parser gets to see it.
\<close>

definition gettypehint :: "LexState \<Rightarrow> (expkind option \<times> LexState) result" where
  "gettypehint ls =
    (case testnext ls (TK_CHAR CHR '':'') of
       (True, ls) \<Rightarrow>
         bindR (str_checkname ls False) (\<lambda>(tname, ls).
         if tname = ''number'' then Done (Some VKINT, ls)
         else if tname = ''table'' then Done (Some VNONRELOC, ls)
         else if tname = ''string'' then Done (Some VKSTR, ls)
         else if tname = ''userdata'' then Done (None, ls)
         else if tname = ''boolean'' \<or> tname = ''bool'' then Done (Some VTRUE, ls)
         else if tname = ''nil'' then Done (Some VNIL, ls)
         else if tname = ''function'' then Done (None, ls)
         else luaK_semerror ''unknown type hint %s'' [S tname])
     | (False, ls) \<Rightarrow> Done (None, ls))"

definition body ::
  "parser \<Rightarrow> LexState \<Rightarrow> bool \<Rightarrow> int \<Rightarrow> (expdesc \<times> LexState) result" where
  "body R ls ismethod line =
    bindR (checknext (open_func (addprototype ls) line) (TK_CHAR CHR ''('')) (\<lambda>ls.
    bindR (if ismethod then
             bindR (new_localvar ls ''self'') (\<lambda>(vidx, ls). Done (adjustlocalvars ls 1))
           else Done ls) (\<lambda>ls.
    bindR (parlist R ls) (\<lambda>ls.
    bindR (checknext ls (TK_CHAR CHR '')'')) (\<lambda>ls.
    bindR (gettypehint ls) (\<lambda>(rethint, ls).
    bindR (statlist R ls) (\<lambda>ls.
    bindR (check_match (ls\<lparr>ls_fs := (ls_fs ls)\<lparr>fs_lastlinedefined := ls_linenumber ls\<rparr>\<rparr>)
             TK_END TK_FUNCTION line) (\<lambda>ls.
    bindR (codeclosure ls void_exp) (\<lambda>(e, ls).
    bindR (close_func ls) (\<lambda>ls.
    Done (e, ls))))))))))"

definition funcfield :: "parser \<Rightarrow> LexState \<Rightarrow> ConsControl \<Rightarrow> (ConsControl \<times> LexState) result" where
  "funcfield R ls cc =
    (let reg = fs_freereg (ls_fs ls) in
     bindR (codename (luaX_next ls) void_exp) (\<lambda>(key, ls).
     bindR (luaK_indexed ls (cc_t cc) key) (\<lambda>(tab, ls).
     bindR (body R ls True (ls_linenumber ls)) (\<lambda>(val, ls).
     bindR (luaK_storevar ls tab val) (\<lambda>ls.
     Done (cc\<lparr>cc_nh := cc_nh cc + 1\<rparr>, set_freereg ls reg))))))"

definition field :: "parser \<Rightarrow> LexState \<Rightarrow> ConsControl \<Rightarrow> (ConsControl \<times> LexState) result" where
  "field R ls cc =
    (if gett ls = TK_NAME then
       (case luaX_lookahead ls of (c, ls) \<Rightarrow>
          if c \<noteq> TK_CHAR CHR ''='' then listfield R ls cc else recfield R ls cc)
     else if gett ls = TK_CHAR CHR ''['' then recfield R ls cc
     else if gett ls = TK_FUNCTION then
       (case luaX_lookahead ls of (c, ls) \<Rightarrow>
          if c = TK_CHAR CHR ''('' then listfield R ls cc else funcfield R ls cc)
     else if IsReservedNonValue (ls_t ls)
     then prenamedfield R ls cc (luaX_reserved2str (gett ls))
     else listfield R ls cc)"

text \<open>The instruction word \<open>0\<close> that \<^verbatim>\<open>constructor\<close> emits as room for the extra argument.\<close>

definition zero_instruction :: Instruction where
  "zero_instruction = mkABCk OP_MOVE 0 0 0 False"

definition constructor_loop ::
  "parser \<Rightarrow> LexState \<Rightarrow> ConsControl \<Rightarrow> (ConsControl \<times> LexState) result" where
  "constructor_loop R ls cc =
    (if gett ls = TK_CHAR CHR ''}'' then Done (cc, ls)
     else
       bindR (closelistfield ls cc) (\<lambda>(cc, ls).
       bindR (field R ls cc) (\<lambda>(cc, ls).
       case testnext ls (TK_CHAR CHR '','') of
         (True, ls) \<Rightarrow> r_constructor_loop R ls cc
       | (False, ls) \<Rightarrow>
           (case testnext ls (TK_CHAR CHR '';'') of
              (True, ls) \<Rightarrow> r_constructor_loop R ls cc
            | (False, ls) \<Rightarrow> Done (cc, ls)))))"

definition constructor :: "parser \<Rightarrow> LexState \<Rightarrow> (expdesc \<times> LexState) result" where
  "constructor R ls0 =
    (let line = ls_linenumber ls0 in
     case luaK_codeABC ls0 OP_NEWTABLE 0 0 0 of (pc, ls) \<Rightarrow>
     let ls = snd (luaK_code ls zero_instruction);
         t = init_exp void_exp VNONRELOC (fs_freereg (ls_fs ls)) in
     bindR (luaK_reserveregs ls 1) (\<lambda>ls.
     bindR (checknext ls (TK_CHAR CHR ''{'')) (\<lambda>ls.
     bindR (constructor_loop R ls
              \<lparr>cc_v = init_exp void_exp VVOID 0, cc_t = t, cc_nh = 0, cc_na = 0,
               cc_tostore = 0\<rparr>) (\<lambda>(cc, ls).
     bindR (check_match ls (TK_CHAR CHR ''}'') (TK_CHAR CHR ''{'') line) (\<lambda>ls.
     bindR (lastlistfield ls cc) (\<lambda>(cc, ls).
     Done (t, luaK_settablesize ls pc (e_info t) (cc_na cc) (cc_nh cc))))))))"

definition lambdabody :: "parser \<Rightarrow> LexState \<Rightarrow> int \<Rightarrow> (expdesc \<times> LexState) result" where
  "lambdabody R ls line =
    bindR (checknext (open_func (addprototype ls) line) (TK_CHAR CHR ''|'')) (\<lambda>ls.
    bindR (parlist R ls) (\<lambda>ls.
    bindR (checknext ls (TK_CHAR CHR ''|'')) (\<lambda>ls.
    bindR (checknext ls (TK_CHAR CHR ''-'')) (\<lambda>ls.
    bindR (checknext ls (TK_CHAR CHR ''>'')) (\<lambda>ls.
    bindR (expr R ls) (\<lambda>(e, ls).
    bindR (luaK_exp2anyreg ls e) (\<lambda>(e, ls).
    let ls1 = luaK_ret ls (e_info e) 1;
        ls2 = ls1\<lparr>ls_fs := (ls_fs ls1)\<lparr>fs_lastlinedefined := ls_linenumber ls1\<rparr>\<rparr> in
    bindR (codeclosure ls2 e) (\<lambda>(e, ls).
    bindR (close_func ls) (\<lambda>ls.
    Done (e, ls))))))))))"

definition explist_loop ::
  "parser \<Rightarrow> LexState \<Rightarrow> expdesc \<Rightarrow> int \<Rightarrow> (int \<times> expdesc \<times> LexState) result" where
  "explist_loop R ls v n =
    (case testnext ls (TK_CHAR CHR '','') of
       (True, ls) \<Rightarrow>
         bindR (luaK_exp2nextreg ls v) (\<lambda>(v, ls).
         bindR (expr R ls) (\<lambda>(v, ls).
         r_explist_loop R ls v (n + 1)))
     | (False, ls) \<Rightarrow> Done (n, v, ls))"

definition explist :: "parser \<Rightarrow> LexState \<Rightarrow> (int \<times> expdesc \<times> LexState) result" where
  "explist R ls = bindR (expr R ls) (\<lambda>(v, ls). explist_loop R ls v 1)"

definition funcargs ::
  "parser \<Rightarrow> LexState \<Rightarrow> expdesc \<Rightarrow> int \<Rightarrow> (expdesc \<times> LexState) result" where
  "funcargs R ls f line =
    bindR (if gett ls = TK_CHAR CHR ''('' then
             bindR (if gett (luaX_next ls) = TK_CHAR CHR '')''
                    then Done (void_exp\<lparr>e_k := VVOID\<rparr>, luaX_next ls)
                    else
                      bindR (explist R (luaX_next ls)) (\<lambda>(n, args, ls).
                      if hasmultret (e_k args)
                      then bindR (luaK_setmultret ls args) (\<lambda>ls. Done (args, ls))
                      else Done (args, ls))) (\<lambda>(args, ls).
             bindR (check_match ls (TK_CHAR CHR '')'') (TK_CHAR CHR ''('') line) (\<lambda>ls.
             Done (args, ls)))
           else if gett ls = TK_CHAR CHR ''{'' then constructor R ls
           else if gett ls = TK_STRING
           then Done (codestring void_exp (seminfo_ts (ls_t ls)), luaX_next ls)
           else luaX_syntaxerror ''function arguments expected'' []) (\<lambda>(args, ls).
    let base = e_info f in
    bindR (if hasmultret (e_k args) then Done (LUA_MULTRET, ls)
           else
             bindR (if e_k args \<noteq> VVOID
                    then bindR (luaK_exp2nextreg ls args) (\<lambda>(args, ls). Done ls)
                    else Done ls) (\<lambda>ls.
             Done (fs_freereg (ls_fs ls) - (base + 1), ls))) (\<lambda>(nparams, ls).
    case luaK_codeABC ls OP_CALL base (nparams + 1) 2 of
      (pc, ls) \<Rightarrow>
        Done (init_exp f VCALL (int pc), set_freereg (luaK_fixline ls line) (base + 1))))"

subsection \<open>Expression parsing\<close>

definition singlevar :: "LexState \<Rightarrow> (expdesc \<times> LexState) result" where
  "singlevar ls0 =
    bindR (str_checkname ls0 False) (\<lambda>(varname, ls).
    bindR (singlevaraux ls (ls_fs ls # ls_prev ls) varname void_exp True) (\<lambda>(var, chain).
    let ls1 = ls\<lparr>ls_fs := hd chain, ls_prev := tl chain\<rparr> in
    if e_k var = VVOID then
      bindR (singlevaraux ls1 (ls_fs ls1 # ls_prev ls1) (ls_envn ls1) var True) (\<lambda>(var, chain).
      luaK_indexed (ls1\<lparr>ls_fs := hd chain, ls_prev := tl chain\<rparr>) var
        (codestring void_exp varname))
    else Done (var, ls1)))"

definition safe_navigation :: "parser \<Rightarrow> LexState \<Rightarrow> expdesc \<Rightarrow> (expdesc \<times> LexState) result" where
  "safe_navigation R ls0 v0 =
    bindR (luaK_exp2nextreg (luaX_next ls0) v0) (\<lambda>(v, ls).
    let ls = snd (luaK_codeABC ls OP_TEST (e_info v) NO_REG 0);
        old_free = fs_freereg (ls_fs ls);
        vreg = e_info v in
    case luaK_codeAsBx ls OP_JMP 0 (- 1) of (j, ls) \<Rightarrow>
    bindR (if gett ls = TK_CHAR CHR ''['' then
             bindR (if gett (luaX_next ls) = TK_CHAR CHR ''-'' then
                      bindR (expr R (luaX_next ls)) (\<lambda>(key, ls).
                      if e_k key = VKINT then Done (key\<lparr>e_ival := wrap64 (e_ival key * - 1)\<rparr>, ls)
                      else if e_k key = VKFLT then Done (key\<lparr>e_nval := e_nval key * - 1\<rparr>, ls)
                      else throwerr ''unexpected symbol during navigation.'' []
                             ''unary - on non-numeral type.'')
                    else expr R (luaX_next ls)) (\<lambda>(key, ls).
             bindR (checknext ls (TK_CHAR CHR '']'')) (\<lambda>ls.
             luaK_indexed ls v key))
           else if gett ls = TK_CHAR CHR ''.'' then
             bindR (codename (luaX_next ls) void_exp) (\<lambda>(key, ls).
             luaK_indexed ls v key)
           else luaX_syntaxerror ''unexpected symbol'' []) (\<lambda>(v, ls).
    bindR (luaK_exp2nextreg ls v) (\<lambda>(v, ls).
    let ls1 = set_freereg ls old_free;
        ls2 = (if e_info v \<noteq> vreg then snd (luaK_codeABC ls1 OP_MOVE vreg (e_info v) 0) else ls1);
        code = fs_code (ls_fs ls2)
    in Done (v\<lparr>e_info := vreg\<rparr>,
             set_code ls2 (code[j := (code ! j)\<lparr>i_Bx := int (fs_pc (ls_fs ls2)) - int j - 1\<rparr>])))))"

text \<open>
  The case \<^verbatim>\<open>'|'\<close> of \<^verbatim>\<open>primaryexp\<close> skips tokens and then raises its error; the
  skipping shows in nothing that outlives the error.
\<close>

definition primaryexp :: "parser \<Rightarrow> LexState \<Rightarrow> (expdesc \<times> LexState) result" where
  "primaryexp R ls =
    (if gett ls = TK_CHAR CHR ''('' then
       (let line = ls_linenumber ls in
        bindR (expr R (luaX_next ls)) (\<lambda>(v, ls).
        bindR (check_match ls (TK_CHAR CHR '')'') (TK_CHAR CHR ''('') line) (\<lambda>ls.
        Done (luaK_dischargevars ls v))))
     else if gett ls = TK_NAME then singlevar ls
     else if gett ls = TK_CHAR CHR ''{'' then
       throwerr ''unfinished table constructor'' [] ''did you mean to close with }?''
     else if gett ls = TK_CHAR CHR ''}'' then
       throwerr ''unfinished table constructor'' [] ''did you mean to enter with {?''
     else if gett ls = TK_CHAR CHR ''|'' then
       throwerr ''unexpected symbol'' [] ''impromper or stranded lambda expression.''
     else throwerr ''unexpected symbol near %s'' [T (gett ls)] ''unexpected symbol.'')"

definition suffixedexp_loop ::
  "parser \<Rightarrow> LexState \<Rightarrow> expdesc \<Rightarrow> int \<Rightarrow> (expdesc \<times> LexState) result" where
  "suffixedexp_loop R ls v line =
    (if gett ls = TK_CHAR CHR ''?'' then
       bindR (safe_navigation R ls v) (\<lambda>(v, ls). r_suffixedexp_loop R ls v line)
     else if gett ls = TK_CHAR CHR ''.'' then
       bindR (fieldsel ls v) (\<lambda>(v, ls). r_suffixedexp_loop R ls v line)
     else if gett ls = TK_CHAR CHR ''['' then
       bindR (luaK_exp2anyregup ls v) (\<lambda>(v, ls).
       bindR (yindex R ls) (\<lambda>(key, ls).
       bindR (luaK_indexed ls v key) (\<lambda>(v, ls).
       r_suffixedexp_loop R ls v line)))
     else if gett ls = TK_CHAR CHR '':'' then
       bindR (codename (luaX_next ls) void_exp) (\<lambda>(key, ls).
       bindR (luaK_self ls v key) (\<lambda>(v, ls).
       bindR (funcargs R ls v line) (\<lambda>(v, ls).
       r_suffixedexp_loop R ls v line)))
     else if gett ls = TK_CHAR CHR ''('' \<or> gett ls = TK_STRING \<or> gett ls = TK_CHAR CHR ''{'' then
       bindR (luaK_exp2nextreg ls v) (\<lambda>(v, ls).
       bindR (funcargs R ls v line) (\<lambda>(v, ls).
       r_suffixedexp_loop R ls v line))
     else Done (v, ls))"

definition suffixedexp :: "parser \<Rightarrow> LexState \<Rightarrow> (expdesc \<times> LexState) result" where
  "suffixedexp R ls =
    (let line = ls_linenumber ls in
     bindR (primaryexp R ls) (\<lambda>(v, ls). suffixedexp_loop R ls v line))"

definition cond :: "parser \<Rightarrow> LexState \<Rightarrow> (jumplist \<times> LexState) result" where
  "cond R ls =
    bindR (expr R ls) (\<lambda>(v, ls).
    bindR (luaK_goiftrue ls (if e_k v = VNIL then v\<lparr>e_k := VFALSE\<rparr> else v)) (\<lambda>(v, ls).
    Done (e_f v, ls)))"

definition ifexpr :: "parser \<Rightarrow> LexState \<Rightarrow> (expdesc \<times> LexState) result" where
  "ifexpr R ls =
    bindR (cond R (luaX_next ls)) (\<lambda>(condition, ls).
    bindR (checknext ls TK_THEN) (\<lambda>ls.
    bindR (expr R ls) (\<lambda>(v, ls).
    bindR (luaK_exp2anyreg ls v) (\<lambda>(v, ls).
    let reg = e_info v in
    case luaK_jump ls of (j, ls) \<Rightarrow>
    let escape = luaK_concat NO_JUMP [j] in
    bindR (checknext (luaK_patchtohere ls condition) TK_ELSE) (\<lambda>ls.
    bindR (expr R ls) (\<lambda>(v, ls).
    case luaK_exp2reg ls v reg of (v, ls) \<Rightarrow>
    Done (v, luaK_patchtohere ls escape)))))))"

definition simpleexp ::
  "parser \<Rightarrow> LexState \<Rightarrow> bool \<Rightarrow> (expdesc \<times> LexState) result" where
  "simpleexp R ls caseexpr =
    (if gett ls = TK_CHAR CHR ''{'' then constructor R ls
     else if gett ls = TK_FUNCTION then body R (luaX_next ls) False (ls_linenumber (luaX_next ls))
     else if gett ls = TK_CHAR CHR ''|'' then lambdabody R ls (ls_linenumber ls)
     else if gett ls \<in> {TK_FLT, TK_INT, TK_STRING, TK_NIL, TK_TRUE, TK_FALSE, TK_DOTS} then
       bindR (if gett ls = TK_FLT
              then Done ((init_exp void_exp VKFLT 0)\<lparr>e_nval := seminfo_r (ls_t ls)\<rparr>, ls)
              else if gett ls = TK_INT
              then Done ((init_exp void_exp VKINT 0)\<lparr>e_ival := seminfo_i (ls_t ls)\<rparr>, ls)
              else if gett ls = TK_STRING
              then Done (codestring void_exp (seminfo_ts (ls_t ls)), ls)
              else if gett ls = TK_NIL then Done (init_exp void_exp VNIL 0, ls)
              else if gett ls = TK_TRUE then Done (init_exp void_exp VTRUE 0, ls)
              else if gett ls = TK_FALSE then Done (init_exp void_exp VFALSE 0, ls)
              else
                bindR (check_condition (fs_is_vararg (ls_fs ls))
                         ''cannot use ... outside a vararg function'') (\<lambda>_.
                case luaK_codeABC ls OP_VARARG 0 0 1 of
                  (pc, ls) \<Rightarrow> Done (init_exp void_exp VVARARG (int pc), ls))) (\<lambda>(v, ls).
       if caseexpr then Done (v, luaX_next ls)
       else
         (case testnext (luaX_next ls) (TK_CHAR CHR '':'') of
            (True, ls) \<Rightarrow>
              bindR (codename ls void_exp) (\<lambda>(key, ls).
              bindR (luaK_self ls v key) (\<lambda>(v, ls).
              funcargs R ls v (ls_linenumber ls)))
          | (False, ls) \<Rightarrow> Done (v, ls)))
     else suffixedexp R ls)"

definition inexpr :: "parser \<Rightarrow> LexState \<Rightarrow> expdesc \<Rightarrow> (expdesc \<times> LexState) result" where
  "inexpr R ls v =
    bindR (checknext ls TK_IN) (\<lambda>ls.
    bindR (expr R ls) (\<lambda>(v2, ls).
    bindR (luaK_exp2nextreg ls v) (\<lambda>(v, ls).
    bindR (luaK_exp2nextreg ls v2) (\<lambda>(v2, ls).
    bindR (luaK_storevar (snd (luaK_codeABC ls OP_IN (e_info v) (e_info v2) 0)) v v) (\<lambda>ls.
    Done (v, ls))))))"

definition getunopr :: "tk \<Rightarrow> UnOpr" where
  "getunopr op =
    (if op = TK_NOT then OPR_NOT
     else if op = TK_CHAR CHR ''-'' then OPR_MINUS
     else if op = TK_CHAR CHR ''~'' then OPR_BNOT
     else if op = TK_CHAR CHR ''#'' then OPR_LEN
     else OPR_NOUNOPR)"

definition getbinopr :: "tk \<Rightarrow> BinOpr" where
  "getbinopr op =
    (if op = TK_CHAR CHR ''+'' then OPR_ADD
     else if op = TK_CHAR CHR ''-'' then OPR_SUB
     else if op = TK_CHAR CHR ''*'' then OPR_MUL
     else if op = TK_CHAR CHR ''%'' then OPR_MOD
     else if op = TK_CHAR CHR ''^'' then OPR_POW
     else if op = TK_CHAR CHR ''/'' then OPR_DIV
     else if op = TK_IDIV then OPR_IDIV
     else if op = TK_CHAR CHR ''&'' then OPR_BAND
     else if op = TK_CHAR CHR ''|'' then OPR_BOR
     else if op = TK_CHAR CHR ''~'' then OPR_BXOR
     else if op = TK_SHL then OPR_SHL
     else if op = TK_SHR then OPR_SHR
     else if op = TK_CONCAT then OPR_CONCAT
     else if op = TK_NE then OPR_NE
     else if op = TK_EQ then OPR_EQ
     else if op = TK_CHAR CHR ''<'' then OPR_LT
     else if op = TK_LE then OPR_LE
     else if op = TK_CHAR CHR ''>'' then OPR_GT
     else if op = TK_GE then OPR_GE
     else if op = TK_AND then OPR_AND
     else if op = TK_OR then OPR_OR
     else if op = TK_COAL then OPR_COAL
     else if op = TK_POW then OPR_POW
     else OPR_NOBINOPR)"

text \<open>
  The priority table, indexed by the operator as the enumeration numbers it
  (\<open>ORDER OPR\<close>); each entry is the left and the right priority.
\<close>

definition priority :: "(int \<times> int) list" where
  "priority =
    [(10, 10), (10, 10),
     (11, 11), (11, 11),
     (14, 13),
     (11, 11), (11, 11),
     (6, 6), (4, 4), (5, 5),
     (7, 7), (7, 7),
     (9, 8),
     (3, 3), (3, 3), (3, 3),
     (3, 3), (3, 3), (3, 3),
     (2, 2), (1, 1), (1, 1)]"

definition opr_index :: "BinOpr \<Rightarrow> nat" where
  "opr_index op =
    (case op of
       OPR_ADD \<Rightarrow> 0 | OPR_SUB \<Rightarrow> 1 | OPR_MUL \<Rightarrow> 2 | OPR_MOD \<Rightarrow> 3 | OPR_POW \<Rightarrow> 4
     | OPR_DIV \<Rightarrow> 5 | OPR_IDIV \<Rightarrow> 6 | OPR_BAND \<Rightarrow> 7 | OPR_BOR \<Rightarrow> 8 | OPR_BXOR \<Rightarrow> 9
     | OPR_SHL \<Rightarrow> 10 | OPR_SHR \<Rightarrow> 11 | OPR_CONCAT \<Rightarrow> 12 | OPR_EQ \<Rightarrow> 13 | OPR_LT \<Rightarrow> 14
     | OPR_LE \<Rightarrow> 15 | OPR_NE \<Rightarrow> 16 | OPR_GT \<Rightarrow> 17 | OPR_GE \<Rightarrow> 18 | OPR_AND \<Rightarrow> 19
     | OPR_OR \<Rightarrow> 20 | OPR_COAL \<Rightarrow> 21 | OPR_NOBINOPR \<Rightarrow> 22)"

definition left_priority :: "BinOpr \<Rightarrow> int" where
  "left_priority op = fst (priority ! opr_index op)"

definition right_priority :: "BinOpr \<Rightarrow> int" where
  "right_priority op = snd (priority ! opr_index op)"

definition UNARY_PRIORITY :: int where
  "UNARY_PRIORITY = 12"

definition subexpr_loop ::
  "parser \<Rightarrow> LexState \<Rightarrow> expdesc \<Rightarrow> int \<Rightarrow> BinOpr \<Rightarrow> (BinOpr \<times> expdesc \<times> LexState) result" where
  "subexpr_loop R ls v limit op =
    (if op \<noteq> OPR_NOBINOPR \<and> left_priority op > limit then
       (let line = ls_linenumber ls in
        bindR (luaK_infix (luaX_next ls) op v) (\<lambda>(v, ls).
        bindR (r_subexpr R ls (right_priority op)) (\<lambda>(nextop, v2, ls).
        bindR (luaK_posfix ls op v v2 line) (\<lambda>(v, ls).
        r_subexpr_loop R ls v limit nextop))))
     else Done (op, v, ls))"

definition subexpr ::
  "parser \<Rightarrow> LexState \<Rightarrow> int \<Rightarrow> (BinOpr \<times> expdesc \<times> LexState) result" where
  "subexpr R ls limit =
    bindR (if getunopr (gett ls) \<noteq> OPR_NOUNOPR then
             (let line = ls_linenumber ls in
              bindR (r_subexpr R (luaX_next ls) UNARY_PRIORITY) (\<lambda>(op, v, ls').
              luaK_prefix ls' (getunopr (gett ls)) v line))
           else if gett ls = TK_IF then ifexpr R ls
           else if gett ls = TK_CHAR CHR ''+'' then
             bindR (luaK_infix ls OPR_ADD ((init_exp void_exp VKINT 0)\<lparr>e_ival := 0\<rparr>)) (\<lambda>(v, ls).
             let line = ls_linenumber ls in
             bindR (r_subexpr R (luaX_next ls) (right_priority OPR_ADD)) (\<lambda>(op, v2, ls).
             luaK_posfix ls OPR_ADD v v2 line))
           else
             bindR (simpleexp R ls False) (\<lambda>(v, ls).
             if gett ls = TK_IN then inexpr R ls v else Done (v, ls))) (\<lambda>(v, ls).
    subexpr_loop R ls v limit (getbinopr (gett ls)))"

subsection \<open>Statements\<close>

definition block :: "parser \<Rightarrow> LexState \<Rightarrow> LexState result" where
  "block R ls = bindR (statlist R (enterblock ls False)) (\<lambda>ls. leaveblock ls)"

text \<open>
  The chain of \<^verbatim>\<open>LHS_assign\<close> nodes is a list of descriptors: its head is the
  left-hand side read last and the rest are the \<^verbatim>\<open>prev\<close> nodes. \<^verbatim>\<open>check_conflict\<close>
  rewrites nodes of the chain, so it returns the chain.
\<close>

primrec check_conflict_chain :: "expdesc list \<Rightarrow> expdesc \<Rightarrow> int \<Rightarrow> bool \<times> expdesc list" where
  "check_conflict_chain [] v extra = (False, [])"
| "check_conflict_chain (lh # prev) v extra =
    (let r1 =
       (if vkisindexed (e_k lh) then
          (if e_k lh = VINDEXUP then
             (if e_k v = VUPVAL \<and> e_ind_t lh = e_info v
              then (True, lh\<lparr>e_k := VINDEXSTR, e_ind_t := extra\<rparr>)
              else (False, lh))
           else
             (let a = (if e_k v = VLOCAL \<and> e_ind_t lh = e_var_ridx v
                       then (True, lh\<lparr>e_ind_t := extra\<rparr>) else (False, lh));
                  b = (if e_k (snd a) = VINDEXED \<and> e_k v = VLOCAL
                          \<and> e_ind_idx (snd a) = e_var_ridx v
                       then (True, (snd a)\<lparr>e_ind_idx := extra\<rparr>) else (False, snd a))
              in (fst a \<or> fst b, snd b)))
        else (False, lh));
         r2 = check_conflict_chain prev v extra
     in (fst r1 \<or> fst r2, snd r1 # snd r2))"

definition check_conflict ::
  "LexState \<Rightarrow> expdesc list \<Rightarrow> expdesc \<Rightarrow> (expdesc list \<times> LexState) result" where
  "check_conflict ls lh v =
    (let extra = fs_freereg (ls_fs ls);
         r = check_conflict_chain lh v extra
     in if fst r then
          bindR (luaK_reserveregs
                   (if e_k v = VLOCAL then snd (luaK_codeABC ls OP_MOVE extra (e_var_ridx v) 0)
                    else snd (luaK_codeABC ls OP_GETUPVAL extra (e_info v) 0)) 1) (\<lambda>ls.
          Done (snd r, ls))
        else Done (snd r, ls))"

definition getcompoundop :: "LexState \<Rightarrow> BinOpr option" where
  "getcompoundop ls =
    (case ls_lasttoken ls of
       None \<Rightarrow> None
     | Some c \<Rightarrow>
         if c = TK_CCAT then Some OPR_CONCAT
         else if c = TK_CADD then Some OPR_ADD
         else if c = TK_CSUB then Some OPR_SUB
         else if c = TK_CMUL then Some OPR_MUL
         else if c = TK_CMOD then Some OPR_MOD
         else if c = TK_CDIV then Some OPR_DIV
         else if c = TK_CPOW then Some OPR_POW
         else if c = TK_CIDIV then Some OPR_IDIV
         else if c = TK_CBOR then Some OPR_BOR
         else if c = TK_CBAND then Some OPR_BAND
         else if c = TK_CBXOR then Some OPR_BXOR
         else if c = TK_CSHL then Some OPR_SHL
         else if c = TK_CSHR then Some OPR_SHR
         else if c = TK_COAL then Some OPR_COAL
         else None)"

definition compoundassign ::
  "parser \<Rightarrow> LexState \<Rightarrow> expdesc \<Rightarrow> BinOpr \<Rightarrow> LexState result" where
  "compoundassign R ls0 v op =
    (let ls = luaX_next ls0;
         line = ls_linenumber ls in
     if e_k v \<noteq> VLOCAL then
       bindR (luaK_reserveregs ls
                (fs_freereg (ls_fs ls) - int (fs_nactvar (ls_fs ls)))) (\<lambda>ls.
       bindR (luaK_infix ls op v) (\<lambda>(e, ls).
       bindR (expr R ls) (\<lambda>(v2, ls).
       bindR (luaK_posfix ls op e v2 line) (\<lambda>(e, ls).
       bindR (luaK_exp2nextreg ls e) (\<lambda>(e, ls).
       case luaK_setoneret ls e of (e, ls) \<Rightarrow>
       luaK_storevar ls v e)))))
     else
       bindR (luaK_infix ls op v) (\<lambda>(e, ls).
       bindR (expr R ls) (\<lambda>(v2, ls).
       bindR (luaK_posfix ls op e v2 line) (\<lambda>(e, ls).
       case luaK_setoneret ls e of (e, ls) \<Rightarrow>
       luaK_storevar ls v e))))"

text \<open>
  \<^verbatim>\<open>restassign\<close> receives the chain with the current left-hand side at its head and
  returns the chain as the deeper calls left it. Its last two lines, the default
  assignment, are \<open>default_assignment\<close>.
\<close>

definition default_assignment ::
  "LexState \<Rightarrow> expdesc list \<Rightarrow> (expdesc list \<times> LexState) result" where
  "default_assignment ls lh =
    bindR (luaK_storevar ls (hd lh)
             (init_exp void_exp VNONRELOC (fs_freereg (ls_fs ls) - 1))) (\<lambda>ls.
    Done (lh, ls))"

definition restassign ::
  "parser \<Rightarrow> LexState \<Rightarrow> expdesc list \<Rightarrow> int \<Rightarrow> (expdesc list \<times> LexState) result" where
  "restassign R ls lh nvars =
    bindR (check_condition (vkisvar (e_k (hd lh))) ''syntax error'') (\<lambda>_.
    bindR (check_readonly ls (hd lh)) (\<lambda>_.
    case testnext ls (TK_CHAR CHR '','') of
      (True, ls) \<Rightarrow>
        bindR (suffixedexp R ls) (\<lambda>(nv, ls).
        bindR (if \<not> vkisindexed (e_k nv) then check_conflict ls lh nv else Done (lh, ls))
          (\<lambda>(lh, ls).
        bindR (r_restassign R ls (nv # lh) (nvars + 1)) (\<lambda>(chain, ls).
        default_assignment ls (tl chain))))
    | (False, ls) \<Rightarrow>
        if ls_lasttoken ls \<noteq> None \<and> getcompoundop ls \<noteq> None then
          bindR (check_condition (nvars = 1) ''unsupported tuple assignment'') (\<lambda>_.
          bindR (compoundassign R ls (hd lh) (the (getcompoundop ls))) (\<lambda>ls.
          Done (lh, ls\<lparr>ls_lasttoken := None\<rparr>)))
        else
          (case testnext ls (TK_CHAR CHR ''='') of
             (True, ls) \<Rightarrow>
               bindR (explist R ls) (\<lambda>(nexps, e, ls).
               if nexps \<noteq> nvars then
                 bindR (adjust_assign ls nvars nexps e) (\<lambda>ls. default_assignment ls lh)
               else
                 (case luaK_setoneret ls e of (e, ls) \<Rightarrow>
                  bindR (luaK_storevar ls (hd lh) e) (\<lambda>ls. Done (lh, ls))))
           | (False, ls) \<Rightarrow> default_assignment ls lh)))"

definition gotostat :: "LexState \<Rightarrow> LexState result" where
  "gotostat ls0 =
    (let line = ls_linenumber ls0 in
     bindR (str_checkname ls0 False) (\<lambda>(name, ls).
     case findlabel ls name of
       None \<Rightarrow>
         (case luaK_jump ls of (j, ls) \<Rightarrow> Done (snd (newgotoentry ls name line [j])))
     | Some lb \<Rightarrow>
         (let lblevel = reglevel ls (ls_fs ls) (lb_nactvar lb);
              ls1 = (if luaY_nvarstack ls > lblevel
                     then snd (luaK_codeABC ls OP_CLOSE lblevel 0 0) else ls)
          in case luaK_jump ls1 of (j, ls2) \<Rightarrow> Done (luaK_patchlist ls2 [j] (lb_pc lb)))))"

definition breakstat :: "LexState \<Rightarrow> LexState" where
  "breakstat ls0 =
    (let line = ls_linenumber ls0;
         ls = luaX_next ls0
     in case luaK_jump ls of (j, ls) \<Rightarrow> snd (newgotoentry ls ''break'' line [j]))"

text \<open>
  The loop of \<^verbatim>\<open>continuestat\<close> over the chain of blocks: it yields the position in
  the list of the block the loop stops at, with the upvalue bits gathered on the way, or
  nothing when the chain ends first. \<open>backwards\<close> is a \<^verbatim>\<open>lua_Integer\<close>.
\<close>

primrec continue_search :: "BlockCnt list \<Rightarrow> int \<Rightarrow> bool \<Rightarrow> nat \<Rightarrow> (nat \<times> bool) option" where
  "continue_search [] backwards upval i = None"
| "continue_search (bl # previous) backwards upval i =
    (if \<not> bl_isloop bl then continue_search previous backwards (upval \<or> bl_upval bl) (Suc i)
     else if backwards - 1 = 0 then Some (i, upval)
     else continue_search previous (backwards - 1) (upval \<or> bl_upval bl) (Suc i))"

definition continuestat :: "LexState \<Rightarrow> LexState result" where
  "continuestat ls0 =
    (let ls1 = luaX_next ls0;
         backwards = (if gett ls1 = TK_INT then seminfo_i (ls_t ls1) else 1);
         ls = (if gett ls1 = TK_INT then luaX_next ls1 else ls1)
     in case continue_search (fs_bl (ls_fs ls)) backwards False 0 of
          Some (i, upval) \<Rightarrow>
            (let bl = fs_bl (ls_fs ls) ! i;
                 ls2 = (if upval then snd (luaK_codeABC ls OP_CLOSE (int (bl_nactvar bl)) 0 0)
                        else ls)
             in case luaK_jump ls2 of
                  (j, ls3) \<Rightarrow>
                    Done (ls3\<lparr>ls_fs := (ls_fs ls3)\<lparr>fs_bl :=
                            (fs_bl (ls_fs ls3))[i := bl\<lparr>bl_scopeend :=
                               luaK_concat (bl_scopeend bl) [j]\<rparr>]\<rparr>\<rparr>))
        | None \<Rightarrow>
            if \<not> compat_continue (ls_cfg ls) then error_expected ls TK_CONTINUE
            else error_expected ls TK_PCONTINUE)"

definition testnext2 :: "LexState \<Rightarrow> tk \<Rightarrow> tk \<Rightarrow> bool \<times> LexState" where
  "testnext2 ls token1 token2 =
    (case testnext ls token1 of
       (True, ls') \<Rightarrow> (True, ls')
     | (False, ls') \<Rightarrow> testnext ls' token2)"

text \<open>
  The body of the \<^verbatim>\<open>do ... while\<close> loop of \<^verbatim>\<open>switchstat\<close>, one \<^verbatim>\<open>case\<close> per
  turn. \<^verbatim>\<open>expandexpr\<close> only supplies text for the error message.
\<close>

definition is_case_token :: "LexState \<Rightarrow> bool" where
  "is_case_token ls =
    (gett ls = TK_PCASE \<or> (\<not> compat_case (ls_cfg ls) \<and> gett ls = TK_CASE))"

definition is_default_token :: "LexState \<Rightarrow> bool" where
  "is_default_token ls =
    (gett ls = TK_PDEFAULT \<or> (\<not> compat_default (ls_cfg ls) \<and> gett ls = TK_DEFAULT))"

definition switch_loop :: "parser \<Rightarrow> LexState \<Rightarrow> expdesc \<Rightarrow> int \<Rightarrow> LexState result" where
  "switch_loop R ls save line =
    bindR (if compat_case (ls_cfg ls) then
             (case testnext ls TK_PCASE of
                (True, ls') \<Rightarrow> Done ls'
              | (False, ls') \<Rightarrow> error_expected ls' TK_PCASE)
           else
             (case testnext2 ls TK_PCASE TK_CASE of
                (True, ls') \<Rightarrow> Done ls'
              | (False, ls') \<Rightarrow> error_expected ls' TK_CASE)) (\<lambda>ls.
    bindR (case testnext ls (TK_CHAR CHR ''-'') of
             (True, ls) \<Rightarrow>
               bindR (simpleexp R ls True) (\<lambda>(lcase, ls).
               if e_k lcase = VKINT
               then Done (lcase\<lparr>e_ival := wrap64 (e_ival lcase * - 1)\<rparr>, ls)
               else if e_k lcase = VKFLT
               then Done (lcase\<lparr>e_nval := e_nval lcase * - 1\<rparr>, ls)
               else throwerr ''unexpected symbol in case expression.'' []
                      ''unary - on non-numeral type.'')
           | (False, ls) \<Rightarrow>
               bindR (simpleexp R (snd (testnext ls (TK_CHAR CHR ''+''))) True) (\<lambda>(lcase, ls).
               if \<not> vkisconst (e_k lcase)
               then throwerr ''malformed case expression.'' []
                      ''expression must be compile-time constant.''
               else Done (lcase, ls))) (\<lambda>(lcase, ls).
    bindR (checknext ls (TK_CHAR CHR '':'')) (\<lambda>ls.
    bindR (luaK_infix (enterblock ls False) OPR_NE save) (\<lambda>(test, ls).
    bindR (luaK_posfix ls OPR_NE test lcase line) (\<lambda>(test, ls).
    bindR (caselist R ls False) (\<lambda>ls.
    bindR (leaveblock ls) (\<lambda>ls.
    let ls1 = (if is_case_token ls then snd (luaK_code ls (CREATE_sJ OP_JMP 2 False)) else ls);
        ls2 = luaK_patchtohere ls1 [nat (e_info test)]
    in if gett ls2 \<noteq> TK_END \<and> \<not> is_default_token ls2
       then r_switch_loop R ls2 save line
       else Done ls2)))))))"

definition switchstat :: "parser \<Rightarrow> LexState \<Rightarrow> int \<Rightarrow> LexState result" where
  "switchstat R ls0 line =
    (let switchToken = gett ls0;
         ls = snd (testnext (luaX_next ls0) (TK_CHAR CHR ''(''))
     in bindR (expr R ls) (\<lambda>(crtl, ls).
        bindR (luaK_exp2nextreg ls crtl) (\<lambda>(crtl, ls).
        let save = init_exp void_exp VLOCAL (e_info crtl) in
        bindR (checknext (snd (testnext ls (TK_CHAR CHR '')''))) TK_DO) (\<lambda>ls.
        bindR (new_localvar ls ''(switch)'') (\<lambda>(vidx, ls).
        bindR (switch_loop R (enterblock (adjustlocalvars ls 1) True) save line) (\<lambda>ls.
        bindR (if compat_default (ls_cfg ls) then
                 (case testnext ls TK_PDEFAULT of
                    (True, ls) \<Rightarrow>
                      bindR (checknext ls (TK_CHAR CHR '':'')) (\<lambda>ls.
                      bindR (caselist R (enterblock ls False) True) (\<lambda>ls. leaveblock ls))
                  | (False, ls) \<Rightarrow> Done ls)
               else
                 (case testnext2 ls TK_PDEFAULT TK_DEFAULT of
                    (True, ls) \<Rightarrow>
                      bindR (checknext ls (TK_CHAR CHR '':'')) (\<lambda>ls.
                      bindR (caselist R (enterblock ls False) True) (\<lambda>ls. leaveblock ls))
                  | (False, ls) \<Rightarrow> Done ls)) (\<lambda>ls.
        bindR (check_match ls TK_END switchToken line) (\<lambda>ls.
        leaveblock ls))))))))"

definition checkrepeated :: "LexState \<Rightarrow> string \<Rightarrow> unit result" where
  "checkrepeated ls name =
    (case findlabel ls name of
       Some lb \<Rightarrow> luaK_semerror ''label %s already defined on line %d'' [S name, N (lb_line lb)]
     | None \<Rightarrow> Done ())"

definition labelstat_loop :: "parser \<Rightarrow> LexState \<Rightarrow> LexState result" where
  "labelstat_loop R ls =
    (if gett ls = TK_CHAR CHR '';'' \<or> gett ls = TK_DBCOLON
     then bindR (r_statement R ls) (\<lambda>ls. r_labelstat_loop R ls)
     else Done ls)"

definition labelstat :: "parser \<Rightarrow> LexState \<Rightarrow> string \<Rightarrow> int \<Rightarrow> LexState result" where
  "labelstat R ls name line =
    bindR (checknext ls TK_DBCOLON) (\<lambda>ls.
    bindR (labelstat_loop R ls) (\<lambda>ls.
    bindR (checkrepeated ls name) (\<lambda>_.
    bindR (createlabel ls name line (block_follow ls False)) (\<lambda>(c, ls). Done ls))))"

definition whilestat :: "parser \<Rightarrow> LexState \<Rightarrow> int \<Rightarrow> LexState result" where
  "whilestat R ls0 line =
    (case luaK_getlabel (luaX_next ls0) of (whileinit, ls) \<Rightarrow>
     bindR (cond R ls) (\<lambda>(condexit, ls).
     bindR (checknext (enterblock ls True) TK_DO) (\<lambda>ls.
     bindR (block R ls) (\<lambda>ls.
     let ls1 = luaK_jumpto ls whileinit;
         ls2 = luaK_patchlist ls1 (bl_scopeend (hd (fs_bl (ls_fs ls1)))) whileinit in
     bindR (check_match ls2 TK_END TK_WHILE line) (\<lambda>ls.
     bindR (leaveblock ls) (\<lambda>ls.
     Done (luaK_patchtohere ls condexit)))))))"

definition repeatstat :: "parser \<Rightarrow> LexState \<Rightarrow> LexState result" where
  "repeatstat R ls0 =
    (case luaK_getlabel ls0 of (repeat_init, ls) \<Rightarrow>
     bindR (statlist R (luaX_next (enterblock (enterblock ls True) False))) (\<lambda>ls.
     let ls = luaK_patchtohere ls (bl_scopeend (hd (tl (fs_bl (ls_fs ls))))) in
     bindR (case testnext ls TK_UNTIL of
              (True, ls) \<Rightarrow> cond R ls
            | (False, ls) \<Rightarrow>
                (case (if compat_when (ls_cfg ls) then testnext ls TK_PWHEN
                       else testnext2 ls TK_PWHEN TK_WHEN) of
                   (True, ls) \<Rightarrow>
                     bindR (expr R ls) (\<lambda>(v, ls).
                     bindR (luaK_goiffalse ls (if e_k v = VNIL then v\<lparr>e_k := VFALSE\<rparr> else v))
                       (\<lambda>(v, ls). Done (e_t v, ls)))
                 | (False, ls) \<Rightarrow> error_expected ls TK_UNTIL)) (\<lambda>(condexit, ls).
     let bl2 = hd (fs_bl (ls_fs ls)) in
     bindR (leaveblock ls) (\<lambda>ls.
     let r = (if bl_upval bl2 then
                (case luaK_jump ls of (exit, ls) \<Rightarrow>
                 case luaK_jump (snd (luaK_codeABC (luaK_patchtohere ls condexit) OP_CLOSE
                                 (reglevel ls (ls_fs ls) (bl_nactvar bl2)) 0 0)) of
                   (j, ls) \<Rightarrow> ([j], luaK_patchtohere ls [exit]))
              else (condexit, ls))
     in leaveblock (luaK_patchlist (snd r) (fst r) repeat_init)))))"

definition exp1 :: "parser \<Rightarrow> LexState \<Rightarrow> LexState result" where
  "exp1 R ls =
    bindR (expr R ls) (\<lambda>(e, ls).
    bindR (luaK_exp2nextreg ls e) (\<lambda>(e, ls). Done ls))"

text \<open>Modelled from the spec: the limit \<^verbatim>\<open>MAXARG_Bx\<close> of \<^verbatim>\<open>lopcodes.h\<close>.\<close>

definition MAXARG_Bx :: int where
  "MAXARG_Bx = 131071"

definition fixforjump :: "LexState \<Rightarrow> nat \<Rightarrow> nat \<Rightarrow> bool \<Rightarrow> LexState result" where
  "fixforjump ls pc dest back =
    (let offset = (if back then - (int dest - (int pc + 1)) else int dest - (int pc + 1)) in
     if offset > MAXARG_Bx then luaX_syntaxerror ''control structure too long'' []
     else Done (set_code ls ((fs_code (ls_fs ls))[pc := (fs_code (ls_fs ls) ! pc)\<lparr>i_Bx := offset\<rparr>])))"

definition forbody ::
  "parser \<Rightarrow> LexState \<Rightarrow> int \<Rightarrow> int \<Rightarrow> int \<Rightarrow> bool \<Rightarrow> LexState result" where
  "forbody R ls0 base line nvars isgen =
    bindR (checknext ls0 TK_DO) (\<lambda>ls.
    case luaK_codeABx ls (if isgen then OP_TFORPREP else OP_FORPREP) base 0 of (prep, ls) \<Rightarrow>
    bindR (luaK_reserveregs (adjustlocalvars (enterblock ls False) nvars) nvars) (\<lambda>ls.
    bindR (block R ls) (\<lambda>ls.
    bindR (leaveblock ls) (\<lambda>ls.
    bindR (fixforjump (snd (luaK_getlabel ls)) prep (fst (luaK_getlabel ls)) False) (\<lambda>ls.
    let ls1 = luaK_patchtohere ls (bl_scopeend (hd (fs_bl (ls_fs ls))));
        ls2 = (if isgen
               then luaK_fixline (snd (luaK_codeABC ls1 OP_TFORCALL base 0 nvars)) line
               else ls1)
    in case luaK_codeABx ls2 (if isgen then OP_TFORLOOP else OP_FORLOOP) base 0 of
         (endfor, ls3) \<Rightarrow>
           bindR (fixforjump ls3 endfor (prep + 1) True) (\<lambda>ls.
           Done (luaK_fixline ls line)))))))"

definition fornum :: "parser \<Rightarrow> LexState \<Rightarrow> string \<Rightarrow> int \<Rightarrow> LexState result" where
  "fornum R ls0 varname line =
    (let base = fs_freereg (ls_fs ls0) in
     bindR (new_localvar ls0 ''(for state)'') (\<lambda>(vidx, ls).
     bindR (new_localvar ls ''(for state)'') (\<lambda>(vidx, ls).
     bindR (new_localvar ls ''(for state)'') (\<lambda>(vidx, ls).
     bindR (new_localvar ls varname) (\<lambda>(vidx, ls).
     bindR (checknext ls (TK_CHAR CHR ''='')) (\<lambda>ls.
     bindR (exp1 R ls) (\<lambda>ls.
     bindR (checknext ls (TK_CHAR CHR '','')) (\<lambda>ls.
     bindR (exp1 R ls) (\<lambda>ls.
     bindR (case testnext ls (TK_CHAR CHR '','') of
              (True, ls) \<Rightarrow> exp1 R ls
            | (False, ls) \<Rightarrow>
                luaK_reserveregs (luaK_int ls (fs_freereg (ls_fs ls)) 1) 1) (\<lambda>ls.
     forbody R (adjustlocalvars ls 3) base line 1 False))))))))))"

definition forlist_loop :: "parser \<Rightarrow> LexState \<Rightarrow> int \<Rightarrow> (int \<times> LexState) result" where
  "forlist_loop R ls nvars =
    (case testnext ls (TK_CHAR CHR '','') of
       (True, ls) \<Rightarrow>
         bindR (str_checkname ls False) (\<lambda>(name, ls).
         bindR (new_localvar ls name) (\<lambda>(vidx, ls).
         r_forlist_loop R ls (nvars + 1)))
     | (False, ls) \<Rightarrow> Done (nvars, ls))"

definition forlist :: "parser \<Rightarrow> LexState \<Rightarrow> string \<Rightarrow> LexState result" where
  "forlist R ls0 indexname =
    (let base = fs_freereg (ls_fs ls0) in
     bindR (new_localvar ls0 ''(for state)'') (\<lambda>(vidx, ls).
     bindR (new_localvar ls ''(for state)'') (\<lambda>(vidx, ls).
     bindR (new_localvar ls ''(for state)'') (\<lambda>(vidx, ls).
     bindR (new_localvar ls ''(for state)'') (\<lambda>(vidx, ls).
     bindR (new_localvar ls indexname) (\<lambda>(vidx, ls).
     bindR (forlist_loop R ls 5) (\<lambda>(nvars, ls).
     bindR (checknext ls TK_IN) (\<lambda>ls.
     let line = ls_linenumber ls in
     bindR (explist R ls) (\<lambda>(nexps, e, ls).
     bindR (adjust_assign ls 4 nexps e) (\<lambda>ls.
     let ls1 = adjustlocalvars ls 4;
         ls2 = ls1\<lparr>ls_fs := marktobeclosed (ls_fs ls1)\<rparr> in
     bindR (luaK_checkstack ls2 3) (\<lambda>ls.
     forbody R ls base line (nvars - 4) True)))))))))))"

definition forstat :: "parser \<Rightarrow> LexState \<Rightarrow> int \<Rightarrow> LexState result" where
  "forstat R ls0 line =
    bindR (str_checkname (luaX_next (enterblock ls0 True)) False) (\<lambda>(varname, ls).
    bindR (if gett ls = TK_CHAR CHR ''='' then fornum R ls varname line
           else if gett ls = TK_CHAR CHR '','' \<or> gett ls = TK_IN then forlist R ls varname
           else luaX_syntaxerror ''= or in expected'' []) (\<lambda>ls.
    bindR (check_match ls TK_END TK_FOR line) (\<lambda>ls.
    leaveblock ls)))"

definition semicolons :: "parser \<Rightarrow> LexState \<Rightarrow> LexState result" where
  "semicolons R ls =
    (case testnext ls (TK_CHAR CHR '';'') of
       (True, ls) \<Rightarrow> r_semicolons R ls
     | (False, ls) \<Rightarrow> Done ls)"

definition test_then_block ::
  "parser \<Rightarrow> LexState \<Rightarrow> jumplist \<Rightarrow> (jumplist \<times> LexState) result" where
  "test_then_block R ls0 escapelist =
    bindR (expr R (luaX_next ls0)) (\<lambda>(v, ls).
    bindR (checknext ls TK_THEN) (\<lambda>ls.
    bindR (if gett ls = TK_BREAK then
             (let line = ls_linenumber ls in
              bindR (luaK_goiffalse ls v) (\<lambda>(v, ls).
              bindR (semicolons R
                       (snd (newgotoentry (enterblock (luaX_next ls) False) ''break'' line (e_t v))))
                (\<lambda>ls.
              if block_follow ls False then
                bindR (leaveblock ls) (\<lambda>ls. Done (None, ls))
              else (case luaK_jump ls of (j, ls) \<Rightarrow> Done (Some [j], ls)))))
           else
             bindR (luaK_goiftrue ls v) (\<lambda>(v, ls).
             Done (Some (e_f v), enterblock ls False))) (\<lambda>(jf, ls).
    case jf of
      None \<Rightarrow> Done (escapelist, ls)
    | Some jf \<Rightarrow>
        bindR (statlist R ls) (\<lambda>ls.
        bindR (leaveblock ls) (\<lambda>ls.
        if gett ls = TK_ELSE \<or> gett ls = TK_ELSEIF then
          (case luaK_jump ls of
             (j, ls) \<Rightarrow> Done (luaK_concat escapelist [j], luaK_patchtohere ls jf))
        else Done (escapelist, luaK_patchtohere ls jf))))))"

definition ifstat_loop ::
  "parser \<Rightarrow> LexState \<Rightarrow> jumplist \<Rightarrow> (jumplist \<times> LexState) result" where
  "ifstat_loop R ls escapelist =
    (if gett ls = TK_ELSEIF then
       bindR (test_then_block R ls escapelist) (\<lambda>(escapelist, ls).
       r_ifstat_loop R ls escapelist)
     else Done (escapelist, ls))"

definition ifstat :: "parser \<Rightarrow> LexState \<Rightarrow> int \<Rightarrow> LexState result" where
  "ifstat R ls line =
    bindR (test_then_block R ls NO_JUMP) (\<lambda>(escapelist, ls).
    bindR (ifstat_loop R ls escapelist) (\<lambda>(escapelist, ls).
    bindR (case testnext ls TK_ELSE of
             (True, ls) \<Rightarrow> block R ls
           | (False, ls) \<Rightarrow> Done ls) (\<lambda>ls.
    bindR (check_match ls TK_END TK_IF line) (\<lambda>ls.
    Done (luaK_patchtohere ls escapelist)))))"

definition localfunc :: "parser \<Rightarrow> LexState \<Rightarrow> LexState result" where
  "localfunc R ls0 =
    (let fvar = fs_nactvar (ls_fs ls0) in
     bindR (str_checkname ls0 True) (\<lambda>(name, ls).
     bindR (new_localvar ls name) (\<lambda>(vidx, ls).
     bindR (body R (adjustlocalvars ls 1) False (ls_linenumber (adjustlocalvars ls 1)))
       (\<lambda>(b, ls).
     case localdebuginfo ls (ls_fs ls) fvar of
       Some idx \<Rightarrow>
         Done (ls\<lparr>ls_fs := (ls_fs ls)\<lparr>fs_locvars :=
                 (fs_locvars (ls_fs ls))[idx :=
                    (fs_locvars (ls_fs ls) ! idx)\<lparr>lv_startpc := fs_pc (ls_fs ls)\<rparr>]\<rparr>\<rparr>)
     | None \<Rightarrow> Done ls))))"

definition getlocalattribute :: "LexState \<Rightarrow> (varkind \<times> LexState) result" where
  "getlocalattribute ls =
    (case testnext ls (TK_CHAR CHR ''<'') of
       (True, ls) \<Rightarrow>
         bindR (str_checkname ls False) (\<lambda>(attr, ls).
         bindR (checknext ls (TK_CHAR CHR ''>'')) (\<lambda>ls.
         if attr = ''const'' then Done (RDKCONST, ls)
         else if attr = ''close'' then Done (RDKTOCLOSE, ls)
         else luaK_semerror ''unknown attribute %s'' [S attr]))
     | (False, ls) \<Rightarrow> Done (VDKREG, ls))"

definition checktoclose :: "LexState \<Rightarrow> int \<Rightarrow> LexState" where
  "checktoclose ls level =
    (if level \<noteq> - 1 then
       (let ls1 = ls\<lparr>ls_fs := marktobeclosed (ls_fs ls)\<rparr>
        in snd (luaK_codeABC ls1 OP_TBC (reglevel ls1 (ls_fs ls1) (nat level)) 0 0))
     else ls)"

definition set_vardesc :: "LexState \<Rightarrow> nat \<Rightarrow> (Vardesc \<Rightarrow> Vardesc) \<Rightarrow> LexState" where
  "set_vardesc ls vidx f =
    ls\<lparr>actvar_arr := (actvar_arr ls)[fs_firstlocal (ls_fs ls) + vidx :=
          f (getlocalvardesc ls (ls_fs ls) vidx)]\<rparr>"

definition localstat_loop ::
  "parser \<Rightarrow> LexState \<Rightarrow> int \<Rightarrow> int \<Rightarrow> (nat \<times> int \<times> int \<times> LexState) result" where
  "localstat_loop R ls nvars toclose =
    bindR (str_checkname ls True) (\<lambda>(name, ls).
    bindR (new_localvar ls name) (\<lambda>(vidx, ls).
    bindR (gettypehint ls) (\<lambda>(typehint, ls).
    bindR (getlocalattribute ls) (\<lambda>(kind, ls).
    let ls1 = set_vardesc ls vidx (\<lambda>var. var\<lparr>vd_kind := kind, vd_typehint := typehint\<rparr>) in
    bindR (if kind = RDKTOCLOSE then
             (if toclose \<noteq> - 1
              then luaK_semerror ''multiple to-be-closed variables in local list'' []
              else Done (int (fs_nactvar (ls_fs ls1)) + nvars))
           else Done toclose) (\<lambda>toclose.
    case testnext ls1 (TK_CHAR CHR '','') of
      (True, ls2) \<Rightarrow> r_localstat_loop R ls2 (nvars + 1) toclose
    | (False, ls2) \<Rightarrow> Done (vidx, nvars + 1, toclose, ls2))))))"

definition localstat :: "parser \<Rightarrow> LexState \<Rightarrow> LexState result" where
  "localstat R ls =
    bindR (localstat_loop R ls 0 (- 1)) (\<lambda>(vidx, nvars, toclose, ls).
    bindR (case testnext ls (TK_CHAR CHR ''='') of
             (True, ls) \<Rightarrow> explist R ls
           | (False, ls) \<Rightarrow> Done (0, void_exp\<lparr>e_k := VVOID\<rparr>, ls)) (\<lambda>(nexps, e, ls).
    let var = getlocalvardesc ls (ls_fs ls) vidx in
    bindR (if nvars = nexps \<and> vd_kind var = RDKCONST \<and> luaK_exp2const ls e \<noteq> None then
             (let ls1 = set_vardesc ls vidx
                          (\<lambda>var. var\<lparr>vd_k := the (luaK_exp2const ls e), vd_kind := RDKCTC\<rparr>);
                  ls2 = adjustlocalvars ls1 (nvars - 1)
              in Done (ls2\<lparr>ls_fs := (ls_fs ls2)\<lparr>fs_nactvar := fs_nactvar (ls_fs ls2) + 1\<rparr>\<rparr>))
           else
             bindR (adjust_assign ls nvars nexps e) (\<lambda>ls.
             Done (adjustlocalvars ls nvars))) (\<lambda>ls.
    Done (checktoclose ls toclose))))"

definition funcname_loop :: "parser \<Rightarrow> LexState \<Rightarrow> expdesc \<Rightarrow> (expdesc \<times> LexState) result" where
  "funcname_loop R ls v =
    (if gett ls = TK_CHAR CHR ''.''
     then bindR (fieldsel ls v) (\<lambda>(v, ls). r_funcname_loop R ls v)
     else Done (v, ls))"

definition funcname :: "parser \<Rightarrow> LexState \<Rightarrow> (bool \<times> expdesc \<times> LexState) result" where
  "funcname R ls =
    bindR (singlevar ls) (\<lambda>(v, ls).
    bindR (funcname_loop R ls v) (\<lambda>(v, ls).
    if gett ls = TK_CHAR CHR '':''
    then bindR (fieldsel ls v) (\<lambda>(v, ls). Done (True, v, ls))
    else Done (False, v, ls)))"

definition funcstat :: "parser \<Rightarrow> LexState \<Rightarrow> int \<Rightarrow> LexState result" where
  "funcstat R ls line =
    bindR (funcname R (luaX_next ls)) (\<lambda>(ismethod, v, ls).
    bindR (body R ls ismethod line) (\<lambda>(b, ls).
    bindR (check_readonly ls v) (\<lambda>_.
    bindR (luaK_storevar ls v b) (\<lambda>ls.
    Done (luaK_fixline ls line)))))"

definition exprstat :: "parser \<Rightarrow> LexState \<Rightarrow> LexState result" where
  "exprstat R ls =
    bindR (suffixedexp R ls) (\<lambda>(v, ls).
    if gett ls = TK_CHAR CHR ''='' \<or> gett ls = TK_CHAR CHR '','' then
      bindR (restassign R ls [v] 1) (\<lambda>(lh, ls). Done ls)
    else
      bindR (check_condition (e_k v = VCALL) ''syntax error'') (\<lambda>_.
      Done (setinstruction ls v ((getinstruction ls v)\<lparr>i_C := 1\<rparr>))))"

definition retstat :: "parser \<Rightarrow> LexState \<Rightarrow> LexState result" where
  "retstat R ls =
    (let first = luaY_nvarstack ls in
     bindR (if block_follow ls True \<or> gett ls = TK_CHAR CHR '';'' then Done (first, 0, ls)
            else
              bindR (explist R ls) (\<lambda>(nret, e, ls).
              if hasmultret (e_k e) then
                bindR (luaK_setmultret ls e) (\<lambda>ls.
                Done (first, LUA_MULTRET,
                      if e_k e = VCALL \<and> nret = 1 \<and> \<not> bl_insidetbc (hd (fs_bl (ls_fs ls)))
                      then setinstruction ls e ((getinstruction ls e)\<lparr>i_op := OP_TAILCALL\<rparr>)
                      else ls))
              else if nret = 1 then
                bindR (luaK_exp2anyreg ls e) (\<lambda>(e, ls). Done (e_info e, nret, ls))
              else
                bindR (luaK_exp2nextreg ls e) (\<lambda>(e, ls). Done (first, nret, ls))))
       (\<lambda>(first, nret, ls).
     Done (snd (testnext (luaK_ret ls first nret) (TK_CHAR CHR '';'')))))"

definition statement :: "parser \<Rightarrow> LexState \<Rightarrow> LexState result" where
  "statement R ls =
    (let line = ls_linenumber ls in
     bindR (if gett ls = TK_CHAR CHR '';'' then Done (luaX_next ls)
            else if gett ls = TK_IF then ifstat R ls line
            else if gett ls = TK_WHILE then whilestat R ls line
            else if gett ls = TK_DO then
              bindR (block R (luaX_next ls)) (\<lambda>ls. check_match ls TK_END TK_DO line)
            else if gett ls = TK_FOR then forstat R ls line
            else if gett ls = TK_REPEAT then repeatstat R ls
            else if gett ls = TK_FUNCTION then funcstat R ls line
            else if gett ls = TK_LOCAL then
              (case testnext (luaX_next ls) TK_FUNCTION of
                 (True, ls) \<Rightarrow> localfunc R ls
               | (False, ls) \<Rightarrow> localstat R ls)
            else if gett ls = TK_DBCOLON then
              bindR (str_checkname (luaX_next ls) False) (\<lambda>(name, ls). labelstat R ls name line)
            else if gett ls = TK_RETURN then retstat R (luaX_next ls)
            else if gett ls = TK_BREAK then Done (breakstat ls)
            else if (\<not> compat_continue (ls_cfg ls) \<and> gett ls = TK_CONTINUE)
                    \<or> gett ls = TK_PCONTINUE
            then continuestat ls
            else if gett ls = TK_GOTO then gotostat (luaX_next ls)
            else if (\<not> compat_case (ls_cfg ls) \<and> gett ls = TK_CASE) \<or> gett ls = TK_PCASE then
              throwerr ''inappropriate case statement.'' [] ''outside of switch block.''
            else if (\<not> compat_default (ls_cfg ls) \<and> gett ls = TK_DEFAULT)
                    \<or> gett ls = TK_PDEFAULT
            then throwerr ''inappropriate default statement.'' [] ''outside of switch block.''
            else if (\<not> compat_switch (ls_cfg ls) \<and> gett ls = TK_SWITCH) \<or> gett ls = TK_PSWITCH
            then switchstat R ls line
            else exprstat R ls) (\<lambda>ls.
     Done (set_freereg ls (luaY_nvarstack ls))))"

subsection \<open>The recursion and the main function\<close>

primrec parser_at :: "nat \<Rightarrow> parser" where
  "parser_at 0 =
    \<lparr>r_statement = (\<lambda>ls. OutOfFuel),
     r_subexpr = (\<lambda>ls limit. OutOfFuel),
     r_subexpr_loop = (\<lambda>ls v limit op. OutOfFuel),
     r_statlist = (\<lambda>ls. OutOfFuel),
     r_caselist = (\<lambda>ls isdefault. OutOfFuel),
     r_constructor_loop = (\<lambda>ls cc. OutOfFuel),
     r_parlist_loop = (\<lambda>ls nparams. OutOfFuel),
     r_explist_loop = (\<lambda>ls v n. OutOfFuel),
     r_suffixedexp_loop = (\<lambda>ls v line. OutOfFuel),
     r_restassign = (\<lambda>ls lh nvars. OutOfFuel),
     r_switch_loop = (\<lambda>ls save line. OutOfFuel),
     r_labelstat_loop = (\<lambda>ls. OutOfFuel),
     r_forlist_loop = (\<lambda>ls nvars. OutOfFuel),
     r_semicolons = (\<lambda>ls. OutOfFuel),
     r_ifstat_loop = (\<lambda>ls escapelist. OutOfFuel),
     r_localstat_loop = (\<lambda>ls nvars toclose. OutOfFuel),
     r_funcname_loop = (\<lambda>ls v. OutOfFuel)\<rparr>"
| "parser_at (Suc n) =
    \<lparr>r_statement = statement (parser_at n),
     r_subexpr = subexpr (parser_at n),
     r_subexpr_loop = subexpr_loop (parser_at n),
     r_statlist = statlist (parser_at n),
     r_caselist = caselist (parser_at n),
     r_constructor_loop = constructor_loop (parser_at n),
     r_parlist_loop = parlist_loop (parser_at n),
     r_explist_loop = explist_loop (parser_at n),
     r_suffixedexp_loop = suffixedexp_loop (parser_at n),
     r_restassign = restassign (parser_at n),
     r_switch_loop = switch_loop (parser_at n),
     r_labelstat_loop = labelstat_loop (parser_at n),
     r_forlist_loop = forlist_loop (parser_at n),
     r_semicolons = semicolons (parser_at n),
     r_ifstat_loop = ifstat_loop (parser_at n),
     r_localstat_loop = localstat_loop (parser_at n),
     r_funcname_loop = funcname_loop (parser_at n)\<rparr>"

section \<open>The driver\<close>

text \<open>
  The state in which \<^verbatim>\<open>luaY_parser\<close> calls \<^verbatim>\<open>mainfunc\<close>: nothing is declared,
  no token has been read, and no function is being compiled (\<^verbatim>\<open>ls->fs\<close> is
  \<^verbatim>\<open>NULL\<close>; \<open>no_func\<close> stands in its place until \<^verbatim>\<open>open_func\<close> runs).
\<close>

definition no_func :: FuncState where
  "no_func = \<lparr>fs_code = [], fs_k = [], fs_p = [], fs_upvalues = [], fs_locvars = [],
     fs_numparams = 0, fs_is_vararg = False, fs_maxstacksize = 0, fs_linedefined = 0,
     fs_lastlinedefined = 0, fs_lasttarget = 0, fs_freereg = 0, fs_nactvar = 0,
     fs_needclose = False, fs_firstlocal = 0, fs_firstlabel = 0, fs_bl = []\<rparr>"

definition luaX_setinput :: "config \<Rightarrow> lexeme list \<Rightarrow> LexState" where
  "luaX_setinput cfg input =
    \<lparr>ls_t = mk_token TK_EOS, ls_lookahead = mk_token TK_EOS, ls_input = input,
     ls_linenumber = 1, ls_lasttoken = None, ls_fs = no_func, ls_prev = [],
     actvar_arr = [], actvar_n = 0, dyd_gt = [], dyd_label = [], ls_envn = ''_ENV'',
     ls_cfg = cfg\<rparr>"

text \<open>The build with no compatibility switch defined.\<close>

definition default_config :: config where
  "default_config = \<lparr>compat_when = False, compat_default = False, compat_case = False,
     compat_continue = False, compat_switch = False\<rparr>"

text \<open>
  Before \<^verbatim>\<open>mainfunc\<close> no function is being compiled, so the main function has no
  previous one: \<open>ls_prev\<close> is emptied after \<^verbatim>\<open>open_func\<close> has pushed \<open>no_func\<close>.
\<close>

definition mainfunc :: "parser \<Rightarrow> LexState \<Rightarrow> LexState result" where
  "mainfunc R ls0 =
    (let ls1 = (open_func ls0 0)\<lparr>ls_prev := []\<rparr>;
         ls2 = setvararg ls1 0 in
     bindR (allocupvalue (ls_fs ls2)
              \<lparr>up_name = ls_envn ls2, up_instack = True, up_idx = 0, up_kind = VDKREG\<rparr>) (\<lambda>fs.
     bindR (statlist R (luaX_next (ls2\<lparr>ls_fs := fs\<rparr>))) (\<lambda>ls.
     bindR (check ls TK_EOS) (\<lambda>_.
     close_func ls))))"

text \<open>
  \<^verbatim>\<open>luaY_parser\<close> with \<open>fuel\<close> unfoldings of the recursion: the prototype of the main
  function, from the lexemes of the chunk.
\<close>

definition luaY_parser :: "nat \<Rightarrow> config \<Rightarrow> lexeme list \<Rightarrow> Proto result" where
  "luaY_parser fuel cfg input =
    bindR (mainfunc (parser_at fuel) (luaX_setinput cfg input)) (\<lambda>ls.
    Done (proto_of (ls_fs ls)))"

subsection \<open>Lexemes\<close>

text \<open>
  The lexemes the lexer hands over, with the line they stand on: a token without a
  value, a name, an integer literal, and the \<^verbatim>\<open>=\<close> that the lexer reports for a compound
  assignment operator after storing the operator in \<^verbatim>\<open>ls->lasttoken\<close>.
\<close>

definition lx :: "tk \<Rightarrow> int \<Rightarrow> lexeme" where
  "lx c line = \<lparr>lx_tok = mk_token c, lx_line = line, lx_last = None\<rparr>"

definition lx_sym :: "char \<Rightarrow> int \<Rightarrow> lexeme" where
  "lx_sym c line = lx (TK_CHAR c) line"

definition lx_name :: "string \<Rightarrow> int \<Rightarrow> lexeme" where
  "lx_name s line = \<lparr>lx_tok = (mk_token TK_NAME)\<lparr>seminfo_ts := s\<rparr>, lx_line = line, lx_last = None\<rparr>"

definition lx_int :: "int \<Rightarrow> int \<Rightarrow> lexeme" where
  "lx_int i line = \<lparr>lx_tok = (mk_token TK_INT)\<lparr>seminfo_i := i\<rparr>, lx_line = line, lx_last = None\<rparr>"

definition lx_compound :: "tk \<Rightarrow> int \<Rightarrow> lexeme" where
  "lx_compound c line =
    \<lparr>lx_tok = mk_token (TK_CHAR CHR ''=''), lx_line = line, lx_last = Some c\<rparr>"

section \<open>Notions of the specification\<close>

text \<open>
  The number of variables the function being compiled has declared: its compiler
  indices run from \<open>0\<close> to this count.
\<close>

definition declared :: "LexState \<Rightarrow> int" where
  "declared ls = int (actvar_n ls) - int (fs_firstlocal (ls_fs ls))"

text \<open>The error kind \<open>TooManyLocals\<close>, as \<^verbatim>\<open>errorlimit\<close> raises it for function \<open>fs\<close>.\<close>

definition TooManyLocals :: "FuncState \<Rightarrow> error" where
  "TooManyLocals fs =
    SyntaxError ''too many %s (limit is %d) in %s''
      ([S ''local variables'', N 249] @
       (if fs_linedefined fs = 0 then [S ''main function'']
        else [S ''function at line %d'', N (fs_linedefined fs)]))"

text \<open>Declaring the variables of a list one after the other, as a statement does.\<close>

primrec new_localvars :: "LexState \<Rightarrow> string list \<Rightarrow> LexState result" where
  "new_localvars ls [] = Done ls"
| "new_localvars ls (name # names) =
    (case new_localvar ls name of
       Done (vidx, ls') \<Rightarrow> new_localvars ls' names
     | Fail e \<Rightarrow> Fail e
     | OutOfFuel \<Rightarrow> OutOfFuel)"

section \<open>States and chunks for the instances\<close>

text \<open>
  A state whose current token is \<open>c\<close>, with the lexemes \<open>input\<close> still to come, inside
  the blocks \<open>bls\<close> of a function that has emitted nothing yet.
\<close>

definition state_at :: "tk \<Rightarrow> lexeme list \<Rightarrow> BlockCnt list \<Rightarrow> LexState" where
  "state_at c input bls =
    (luaX_setinput default_config input)\<lparr>ls_t := mk_token c, ls_fs := no_func\<lparr>fs_bl := bls\<rparr>\<rparr>"

text \<open>A block as \<^verbatim>\<open>enterblock\<close> makes it where nothing is declared or pending.\<close>

definition fresh_block :: "bool \<Rightarrow> BlockCnt" where
  "fresh_block isloop = \<lparr>bl_scopeend = NO_JUMP, bl_firstlabel = 0, bl_firstgoto = 0,
     bl_nactvar = 0, bl_upval = False, bl_isloop = isloop, bl_insidetbc = False\<rparr>"

text \<open>
  The chunk
  \<^verbatim>\<open>while true do switch x do case 1: continue end end\<close>,
  one line for each \<^verbatim>\<open>do\<close> and each \<^verbatim>\<open>end\<close>.
\<close>

definition continue_in_case_chunk :: "lexeme list" where
  "continue_in_case_chunk =
    [lx TK_WHILE 1, lx TK_TRUE 1, lx TK_DO 1,
     lx TK_SWITCH 2, lx_name ''x'' 2, lx TK_DO 2,
     lx TK_CASE 3, lx_int 1 3, lx_sym CHR '':'' 3, lx TK_CONTINUE 3,
     lx TK_END 4,
     lx TK_END 5]"

section \<open>Read-only assignment targets\<close>

text \<open>The error kind \<open>AssignToConst\<close>, as \<^verbatim>\<open>check_readonly\<close> raises it for a name.\<close>

definition AssignToConst :: "string \<Rightarrow> error" where
  "AssignToConst n =
    ThrowErr ''attempt to reassign constant %s'' [S n]
      ''this variable is constant, and cannot be reassigned.''"

text \<open>
  The targets the specification protects: a compile-time-constant binding, a local whose
  kind is const, to-be-closed or compile-time constant, and an upvalue of such a kind;
  and the name of the variable behind such a target.
\<close>

definition refers_to_constant :: "LexState \<Rightarrow> expdesc \<Rightarrow> bool" where
  "refers_to_constant ls e \<longleftrightarrow>
     e_k e = VCONST
     \<or> (e_k e = VLOCAL
         \<and> vd_kind (getlocalvardesc ls (ls_fs ls) (e_var_vidx e)) \<in> {RDKCONST, RDKTOCLOSE, RDKCTC})
     \<or> (e_k e = VUPVAL
         \<and> up_kind (fs_upvalues (ls_fs ls) ! nat (e_info e)) \<in> {RDKCONST, RDKTOCLOSE, RDKCTC})"

definition constant_name :: "LexState \<Rightarrow> expdesc \<Rightarrow> string" where
  "constant_name ls e =
    (if e_k e = VCONST then vd_name (actvar_arr ls ! nat (e_info e))
     else if e_k e = VLOCAL then vd_name (getlocalvardesc ls (ls_fs ls) (e_var_vidx e))
     else up_name (fs_upvalues (ls_fs ls) ! nat (e_info e)))"

text \<open>
  A state in which the function has one active local \<open>x\<close> of the given kind in register
  0, with current token \<open>c\<close> and the lexemes \<open>input\<close> to come; and the descriptor of
  that local.
\<close>

definition one_local_state :: "varkind \<Rightarrow> tk \<Rightarrow> lexeme list \<Rightarrow> LexState" where
  "one_local_state kind c input =
    (luaX_setinput default_config input)
      \<lparr>ls_t := mk_token c,
       ls_fs := no_func\<lparr>fs_bl := [fresh_block False], fs_nactvar := 1, fs_freereg := 1,
                  fs_maxstacksize := 2,
                  fs_locvars := [\<lparr>lv_varname = ''x'', lv_startpc = 0, lv_endpc = 0\<rparr>]\<rparr>,
       actvar_arr := [fresh_vardesc\<lparr>vd_kind := kind, vd_name := ''x'', vd_linenumber := 1\<rparr>],
       actvar_n := 1\<rparr>"

definition local_x :: expdesc where
  "local_x = init_exp void_exp VLOCAL 0"

text \<open>The state at the \<^verbatim>\<open>+=\<close> of \<^verbatim>\<open>x += 2\<close>, for a regular local \<open>x\<close>.\<close>

definition compound_state :: LexState where
  "compound_state =
    (one_local_state VDKREG (TK_CHAR CHR ''='') [lx_int 2 1])\<lparr>ls_lasttoken := Some TK_CADD\<rparr>"

text \<open>
  The fourteen compound assignment operators of the specification
  (\<^verbatim>\<open>+= -= *= /= //= %= ^= ..= &= |= ~= <<= >>= ??=\<close>, in this order): the token the
  lexer stores in \<^verbatim>\<open>ls->lasttoken\<close> for each, and the binary operator it stands for.
\<close>

definition compound_operators :: "(tk \<times> BinOpr) list" where
  "compound_operators =
    [(TK_CADD, OPR_ADD), (TK_CSUB, OPR_SUB), (TK_CMUL, OPR_MUL), (TK_CDIV, OPR_DIV),
     (TK_CIDIV, OPR_IDIV), (TK_CMOD, OPR_MOD), (TK_CPOW, OPR_POW), (TK_CCAT, OPR_CONCAT),
     (TK_CBAND, OPR_BAND), (TK_CBOR, OPR_BOR), (TK_CBXOR, OPR_BXOR), (TK_CSHL, OPR_SHL),
     (TK_CSHR, OPR_SHR), (TK_COAL, OPR_COAL)]"

section \<open>The walk of continue, in the words of the specification\<close>

text \<open>
  The position, counted from the innermost block, of the \<open>n\<close>-th loop block of a chain
  of blocks, if the chain has that many loop blocks.
\<close>

primrec nth_loop :: "BlockCnt list \<Rightarrow> nat \<Rightarrow> nat option" where
  "nth_loop [] n = None"
| "nth_loop (bl # previous) n =
    (if bl_isloop bl \<and> n = 1 then Some 0
     else map_option Suc (nth_loop previous (if bl_isloop bl then n - 1 else n)))"

text \<open>
  Whether a block in front of position \<open>j\<close> has its upvalue bit set; and the same for
  the blocks in front of \<open>j\<close> that are not loops, which is the aggregate the claim
  describes.
\<close>

definition passed_upval :: "BlockCnt list \<Rightarrow> nat \<Rightarrow> bool" where
  "passed_upval bls j = list_ex bl_upval (take j bls)"

definition passed_nonloop_upval :: "BlockCnt list \<Rightarrow> nat \<Rightarrow> bool" where
  "passed_nonloop_upval bls j = list_ex (\<lambda>bl. \<not> bl_isloop bl \<and> bl_upval bl) (take j bls)"

text \<open>The error kind \<open>ContinueOutsideLoop\<close>, as \<^verbatim>\<open>continuestat\<close> raises it in state \<open>ls\<close>.\<close>

definition ContinueOutsideLoop :: "LexState \<Rightarrow> error" where
  "ContinueOutsideLoop ls =
    (if compat_continue (ls_cfg ls)
     then ThrowErr ''expected continue inside a loop.'' [] ''this is not within a loop.''
     else ThrowErr ''%s expected (got %s)'' [T TK_CONTINUE, T (gett ls)]
            ''this is invalid syntax.'')"

text \<open>
  The chain of blocks inside the body of a generic \<^verbatim>\<open>for\<close> loop nested in the body of
  another: each loop has a block for its body and a loop block, and \<^verbatim>\<open>forlist\<close> marks
  the loop block (\<^verbatim>\<open>marktobeclosed\<close>) for the to-be-closed control variable.
\<close>

definition for_in_for_blocks :: "BlockCnt list" where
  "for_in_for_blocks =
    [fresh_block False, (fresh_block True)\<lparr>bl_upval := True, bl_insidetbc := True\<rparr>,
     fresh_block False, (fresh_block True)\<lparr>bl_upval := True, bl_insidetbc := True\<rparr>]"

text \<open>The opcodes a run has emitted into the current function, and those of a chunk.\<close>

definition emitted_opcodes :: "LexState result \<Rightarrow> OpCode list" where
  "emitted_opcodes r = (case r of Done ls \<Rightarrow> map i_op (fs_code (ls_fs ls)) | _ \<Rightarrow> [])"

definition opcodes :: "Proto result \<Rightarrow> OpCode list" where
  "opcodes r =
    (case r of
       Done (Proto code k p upvalues locvars numparams is_vararg maxstacksize ld lld) \<Rightarrow>
         map i_op code
     | _ \<Rightarrow> [])"

text \<open>
  The chunk \<^verbatim>\<open>for k in f do for j in g do continue 2 end end\<close>.
\<close>

definition continue_two_chunk :: "lexeme list" where
  "continue_two_chunk =
    [lx TK_FOR 1, lx_name ''k'' 1, lx TK_IN 1, lx_name ''f'' 1, lx TK_DO 1,
     lx TK_FOR 2, lx_name ''j'' 2, lx TK_IN 2, lx_name ''g'' 2, lx TK_DO 2,
     lx TK_CONTINUE 3, lx_int 2 3,
     lx TK_END 4, lx TK_END 5]"

section \<open>Jumps into the scope of a local\<close>

text \<open>The error kind \<open>JumpIntoScope\<close>, as \<^verbatim>\<open>jumpscopeerror\<close> raises it.\<close>

definition JumpIntoScope :: "string \<Rightarrow> int \<Rightarrow> string \<Rightarrow> error" where
  "JumpIntoScope name line varname =
    SemError ''<goto %s> at line %d jumps into the scope of local %s''
      [S name, N line, S varname]"

text \<open>
  The count of active variables \<^verbatim>\<open>createlabel\<close> gives a label: the count at the entry of
  the block when the label is the last statement of the block but for void ones, the
  current count otherwise.
\<close>

definition label_level :: "LexState \<Rightarrow> bool \<Rightarrow> nat" where
  "label_level ls islast =
    (if islast then bl_nactvar (hd (fs_bl (ls_fs ls))) else fs_nactvar (ls_fs ls))"

text \<open>
  The pending goto at index \<open>g\<close> has the name \<open>name\<close> and fewer active variables at its
  site than \<open>level\<close>; and the error raised for it, which names the first local it
  would jump over.
\<close>

definition enters_scope :: "LexState \<Rightarrow> string \<Rightarrow> nat \<Rightarrow> nat \<Rightarrow> bool" where
  "enters_scope ls name level g \<longleftrightarrow>
     g < length (dyd_gt ls) \<and> lb_name (dyd_gt ls ! g) = name
     \<and> lb_nactvar (dyd_gt ls ! g) < level"

definition scope_error :: "LexState \<Rightarrow> nat \<Rightarrow> error" where
  "scope_error ls g =
    JumpIntoScope (lb_name (dyd_gt ls ! g)) (lb_line (dyd_gt ls ! g))
      (vd_name (getlocalvardesc ls (ls_fs ls) (lb_nactvar (dyd_gt ls ! g))))"

text \<open>
  The current token ends a block: it is \<^verbatim>\<open>else\<close>, \<^verbatim>\<open>elseif\<close>, \<^verbatim>\<open>end\<close> or the end of the
  chunk. A label in front of such a token is the last statement of its block;
  \<^verbatim>\<open>until\<close>, \<^verbatim>\<open>when\<close>, \<^verbatim>\<open>case\<close> and \<^verbatim>\<open>default\<close> are not among these tokens.
\<close>

definition ends_block :: "LexState \<Rightarrow> bool" where
  "ends_block ls \<longleftrightarrow> gett ls \<in> {TK_ELSE, TK_ELSEIF, TK_END, TK_EOS}"

text \<open>
  The state at the second \<^verbatim>\<open>::\<close> of the label in \<^verbatim>\<open>goto fwd  local x  ::fwd::\<close>, with
  the lexemes \<open>input\<close> after the label: one active local \<open>x\<close>, declared after the
  \<^verbatim>\<open>goto fwd\<close> of line 1 that is still pending.
\<close>

definition pending_goto_state :: "lexeme list \<Rightarrow> LexState" where
  "pending_goto_state input =
    (one_local_state VDKREG TK_DBCOLON input)
      \<lparr>dyd_gt := [\<lparr>lb_name = ''fwd'', lb_pc = [], lb_line = 1, lb_nactvar = 0,
                   lb_close = False\<rparr>]\<rparr>"

text \<open>
  The chunk \<^verbatim>\<open>goto fwd  local v  ::fwd::\<close>, and the same followed by \<^verbatim>\<open>v = 1\<close>.
\<close>

definition goto_local_label_chunk :: "lexeme list" where
  "goto_local_label_chunk =
    [lx TK_GOTO 1, lx_name ''fwd'' 1,
     lx TK_LOCAL 2, lx_name ''v'' 2,
     lx TK_DBCOLON 3, lx_name ''fwd'' 3, lx TK_DBCOLON 3]"

definition goto_local_label_use_chunk :: "lexeme list" where
  "goto_local_label_use_chunk =
    goto_local_label_chunk @ [lx_name ''v'' 4, lx_sym CHR ''='' 4, lx_int 1 4]"

text \<open>
  The chunks \<^verbatim>\<open>repeat goto fwd  local v  ::fwd:: until true\<close>,
  \<^verbatim>\<open>switch x do case 1: goto fwd  local v  ::fwd:: case 2: end\<close> and
  \<^verbatim>\<open>goto fwd  local a  local v  ::fwd::  v = 1\<close>.
\<close>

definition goto_in_repeat_chunk :: "lexeme list" where
  "goto_in_repeat_chunk =
    [lx TK_REPEAT 1, lx TK_GOTO 1, lx_name ''fwd'' 1,
     lx TK_LOCAL 2, lx_name ''v'' 2,
     lx TK_DBCOLON 3, lx_name ''fwd'' 3, lx TK_DBCOLON 3,
     lx TK_UNTIL 4, lx TK_TRUE 4]"

definition goto_in_case_chunk :: "lexeme list" where
  "goto_in_case_chunk =
    [lx TK_SWITCH 1, lx_name ''x'' 1, lx TK_DO 1,
     lx TK_CASE 1, lx_int 1 1, lx_sym CHR '':'' 1,
     lx TK_GOTO 1, lx_name ''fwd'' 1,
     lx TK_LOCAL 2, lx_name ''v'' 2,
     lx TK_DBCOLON 3, lx_name ''fwd'' 3, lx TK_DBCOLON 3,
     lx TK_CASE 4, lx_int 2 4, lx_sym CHR '':'' 4,
     lx TK_END 5]"

definition goto_two_locals_chunk :: "lexeme list" where
  "goto_two_locals_chunk =
    [lx TK_GOTO 1, lx_name ''fwd'' 1,
     lx TK_LOCAL 2, lx_name ''a'' 2,
     lx TK_LOCAL 2, lx_name ''v'' 2,
     lx TK_DBCOLON 3, lx_name ''fwd'' 3, lx TK_DBCOLON 3,
     lx_name ''v'' 4, lx_sym CHR ''='' 4, lx_int 1 4]"

section \<open>The instructions of a chunk\<close>

text \<open>
  The instructions of the main function of a chunk, and its jumps: the position of each
  \<^verbatim>\<open>OP_JMP\<close> with the position it jumps to, which is the position after the jump plus
  its offset. A jump that was never patched keeps the offset \<open>-1\<close> (\<^verbatim>\<open>NO_JUMP\<close>) that
  \<^verbatim>\<open>luaK_jump\<close> gave it, and so has its own position as its target.
\<close>

definition instructions :: "Proto result \<Rightarrow> Instruction list" where
  "instructions r =
    (case r of
       Done (Proto code k p upvalues locvars numparams is_vararg maxstacksize ld lld) \<Rightarrow> code
     | _ \<Rightarrow> [])"

primrec jumps_from :: "int \<Rightarrow> Instruction list \<Rightarrow> (int \<times> int) list" where
  "jumps_from pc [] = []"
| "jumps_from pc (i # code) =
    (if i_op i = OP_JMP then [(pc, pc + 1 + i_sJ i)] else []) @ jumps_from (pc + 1) code"

definition jump_targets :: "Proto result \<Rightarrow> (int \<times> int) list" where
  "jump_targets r = jumps_from 0 (instructions r)"

text \<open>
  The chunks
  \<^verbatim>\<open>while true do switch x do case 1: do continue end end end\<close> and
  \<^verbatim>\<open>while true do if x then do continue end end end\<close>.
\<close>

definition continue_below_case_chunk :: "lexeme list" where
  "continue_below_case_chunk =
    [lx TK_WHILE 1, lx TK_TRUE 1, lx TK_DO 1,
     lx TK_SWITCH 2, lx_name ''x'' 2, lx TK_DO 2,
     lx TK_CASE 3, lx_int 1 3, lx_sym CHR '':'' 3,
     lx TK_DO 3, lx TK_CONTINUE 3, lx TK_END 3,
     lx TK_END 4,
     lx TK_END 5]"

definition continue_below_if_chunk :: "lexeme list" where
  "continue_below_if_chunk =
    [lx TK_WHILE 1, lx TK_TRUE 1, lx TK_DO 1,
     lx TK_IF 2, lx_name ''x'' 2, lx TK_THEN 2,
     lx TK_DO 3, lx TK_CONTINUE 3, lx TK_END 3,
     lx TK_END 4,
     lx TK_END 5]"

text \<open>
  The chunks
  \<^verbatim>\<open>local x <const> = g  local y = if g then x else 5\<close> and
  \<^verbatim>\<open>local x <const> = g  x = 5\<close>.
\<close>

definition const_ifexpr_chunk :: "lexeme list" where
  "const_ifexpr_chunk =
    [lx TK_LOCAL 1, lx_name ''x'' 1, lx_sym CHR ''<'' 1, lx_name ''const'' 1, lx_sym CHR ''>'' 1,
     lx_sym CHR ''='' 1, lx_name ''g'' 1,
     lx TK_LOCAL 2, lx_name ''y'' 2, lx_sym CHR ''='' 2,
     lx TK_IF 2, lx_name ''g'' 2, lx TK_THEN 2, lx_name ''x'' 2, lx TK_ELSE 2, lx_int 5 2]"

definition const_assign_chunk :: "lexeme list" where
  "const_assign_chunk =
    [lx TK_LOCAL 1, lx_name ''x'' 1, lx_sym CHR ''<'' 1, lx_name ''const'' 1, lx_sym CHR ''>'' 1,
     lx_sym CHR ''='' 1, lx_name ''g'' 1,
     lx_name ''x'' 2, lx_sym CHR ''='' 2, lx_int 5 2]"

text \<open>
  The state at the first token of an expression whose lexemes are \<open>input\<close>, in a function
  that has emitted nothing yet.
\<close>

definition expression_state :: "lexeme list \<Rightarrow> LexState" where
  "expression_state input = luaX_next (state_at TK_EOS input [fresh_block False])"

section \<open>Results that leave the current token alone\<close>

text \<open>
  A result that, when it is a state or a tuple ending in a state, has the
  current token \<open>t\<close> in that state. The emitter never moves the lexer: its functions
  keep the token of the state they are given.
\<close>

definition keeps0 :: "Token \<Rightarrow> LexState result \<Rightarrow> bool" where
  "keeps0 t m = (case m of Done ls \<Rightarrow> ls_t ls = t | _ \<Rightarrow> True)"

definition keeps1 :: "Token \<Rightarrow> ('a \<times> LexState) result \<Rightarrow> bool" where
  "keeps1 t m = (case m of Done r \<Rightarrow> ls_t (snd r) = t | _ \<Rightarrow> True)"

definition keeps2 :: "Token \<Rightarrow> ('a \<times> 'b \<times> LexState) result \<Rightarrow> bool" where
  "keeps2 t m = (case m of Done r \<Rightarrow> ls_t (snd (snd r)) = t | _ \<Rightarrow> True)"

definition keeps3 :: "Token \<Rightarrow> ('a \<times> 'b \<times> 'c \<times> LexState) result \<Rightarrow> bool" where
  "keeps3 t m = (case m of Done r \<Rightarrow> ls_t (snd (snd (snd r))) = t | _ \<Rightarrow> True)"

section \<open>Basic facts about results\<close>

lemma bindR_Done [simp]: "bindR (Done v) f = f v"
  by (simp add: bindR_def)

lemma bindR_Fail [simp]: "bindR (Fail e) f = Fail e"
  by (simp add: bindR_def)

lemma bindR_OutOfFuel [simp]: "bindR OutOfFuel f = OutOfFuel"
  by (simp add: bindR_def)

lemma bindR_weak_cong [cong]: "x = y \<Longrightarrow> bindR x f = bindR y f"
  by simp

lemma is_Done_simps [simp]:
  "is_Done (Done v) = True" "is_Done (Fail e) = False" "is_Done OutOfFuel = False"
  by (simp_all add: is_Done_def)

section \<open>Running the parser on a chunk\<close>

text \<open>
  With fuel left, a call through the record of recursive functions is a call of the
  function itself with one unit less.
\<close>

lemma r_unfold:
  "0 < n \<Longrightarrow> r_statement (parser_at n) = statement (parser_at (n - 1))"
  "0 < n \<Longrightarrow> r_subexpr (parser_at n) = subexpr (parser_at (n - 1))"
  "0 < n \<Longrightarrow> r_subexpr_loop (parser_at n) = subexpr_loop (parser_at (n - 1))"
  "0 < n \<Longrightarrow> r_statlist (parser_at n) = statlist (parser_at (n - 1))"
  "0 < n \<Longrightarrow> r_caselist (parser_at n) = caselist (parser_at (n - 1))"
  "0 < n \<Longrightarrow> r_constructor_loop (parser_at n) = constructor_loop (parser_at (n - 1))"
  "0 < n \<Longrightarrow> r_parlist_loop (parser_at n) = parlist_loop (parser_at (n - 1))"
  "0 < n \<Longrightarrow> r_explist_loop (parser_at n) = explist_loop (parser_at (n - 1))"
  "0 < n \<Longrightarrow> r_suffixedexp_loop (parser_at n) = suffixedexp_loop (parser_at (n - 1))"
  "0 < n \<Longrightarrow> r_restassign (parser_at n) = restassign (parser_at (n - 1))"
  "0 < n \<Longrightarrow> r_switch_loop (parser_at n) = switch_loop (parser_at (n - 1))"
  "0 < n \<Longrightarrow> r_labelstat_loop (parser_at n) = labelstat_loop (parser_at (n - 1))"
  "0 < n \<Longrightarrow> r_forlist_loop (parser_at n) = forlist_loop (parser_at (n - 1))"
  "0 < n \<Longrightarrow> r_semicolons (parser_at n) = semicolons (parser_at (n - 1))"
  "0 < n \<Longrightarrow> r_ifstat_loop (parser_at n) = ifstat_loop (parser_at (n - 1))"
  "0 < n \<Longrightarrow> r_localstat_loop (parser_at n) = localstat_loop (parser_at (n - 1))"
  "0 < n \<Longrightarrow> r_funcname_loop (parser_at n) = funcname_loop (parser_at (n - 1))"
  by (cases n; simp)+

text \<open>The loop of \<^verbatim>\<open>adjustlocalvars\<close> for a count given as a numeral.\<close>

lemma adjustlocalvars_loop_numeral:
  "adjustlocalvars_loop (numeral k) reglevel' ls =
    (let fs = ls_fs ls;
         vidx = fs_nactvar fs;
         ls1 = ls\<lparr>ls_fs := fs\<lparr>fs_nactvar := vidx + 1\<rparr>\<rparr>;
         slot = fs_firstlocal fs + vidx;
         var = actvar_arr ls1 ! slot;
         ls2 = snd (registerlocalvar ls1 (vd_name var));
         pidx = fst (registerlocalvar ls1 (vd_name var));
         ls3 = ls2\<lparr>actvar_arr := (actvar_arr ls2)[slot := var\<lparr>vd_ridx := reglevel', vd_pidx := pidx\<rparr>]\<rparr>
     in adjustlocalvars_loop (pred_numeral k) (reglevel' + 1) ls3)"
  by (simp add: numeral_eq_Suc)

text \<open>
  The equations that evaluate a run of the parser on given lexemes, and the congruence
  rules that make the simplifier evaluate the scrutinee of a case distinction and the
  bound term of a \<open>let\<close> before it looks at what follows.
\<close>

lemmas ev = r_unfold Let_def adjustlocalvars_loop_numeral solvegotos_from.simps
  NO_JUMP_def mk_token_def llex_def luaX_next_def luaX_lookahead_def gett_def
  IsReservedNonValue_def luaX_reserved2str_def throwerr_def luaX_syntaxerror_def
  luaK_semerror_def error_expected_def errorlimit_def checklimit_def testnext_def check_def
  checknext_def check_condition_def check_match_def str_checkname_def init_exp_def
  codestring_def codename_def void_exp_def MAXVARS_def MAXUPVAL_def fs_pc_def
  registerlocalvar_def getlocalvardesc_def luaY_nvarstack_def localdebuginfo_def
  fresh_vardesc_def set_slot_def new_localvar_def init_var_def check_readonly_def
  adjustlocalvars_def removevars_def searchupvalue_def allocupvalue_def newupvalue_def
  searchvar_def markupval_def marktobeclosed_def binopr_opcode_def NO_REG_def MAXREGS_def
  LUA_MULTRET_def lu_byte_def mkABCk_def set_code_def getinstruction_def setinstruction_def
  luaK_code_def luaK_codeABCk_def luaK_codeABC_def luaK_codeABx_def luaK_codeAsBx_def
  CREATE_sJ_def luaK_jump_def luaK_getlabel_def testTMode_def getjumpcontrol_def fixjump_def
  patchtestreg_def luaK_patchlist_def luaK_patchtohere_def luaK_concat_def luaK_jumpto_def
  luaK_fixline_def luaK_checkstack_def luaK_reserveregs_def freereg_def freeregs_def
  freeexp_def freeexps_def addk_def hasjumps_def tonumeral_def const2exp_def
  luaK_exp2const_def luaK_nil_def luaK_int_def luaK_setreturns_def luaK_setmultret_def
  luaK_setoneret_def luaK_dischargevars_def discharge2reg_def discharge2anyreg_def
  need_value_def exp2reg_def luaK_exp2nextreg_def luaK_exp2anyreg_def luaK_exp2anyregup_def
  luaK_exp2val_def luaK_exp2reg_def luaK_exp2K_def exp2RK_def codeABRK_def luaK_storevar_def
  luaK_self_def negatecondition_def condjump_def jumponcond_def luaK_goiftrue_def
  luaK_goiffalse_def luaK_goifnil_def codenot_def wrap64_def codeunexpval_def luaK_prefix_def
  foldable_def arith_opr_def luaK_infix_def codebinexpval_def isSCnumber_def codeeq_def
  codeorder_def luaK_posfix_def isKstr_def isCint_def luaK_indexed_def luaK_ret_def
  luaK_setlist_def luaK_settablesize_def luaK_finish_def hasmultret_def vkisvar_def
  vkisindexed_def vkisconst_def adjust_assign_def jumpscopeerror_def solvegoto_def
  findlabel_def newlabelentry_def newgotoentry_def solvegotos_def createlabel_def
  movegotosout_def enterblock_def undefgoto_def leaveblock_def empty_proto_def
  addprototype_def codeclosure_def open_func_def proto_of_def close_func_def expr_def
  block_follow_def statlist_def caselist_def fieldsel_def yindex_def MAX_INT_def
  LFIELDS_PER_FLUSH_def set_freereg_def recfield_def prenamedfield_def closelistfield_def
  lastlistfield_def listfield_def setvararg_def parlist_loop_def parlist_def gettypehint_def
  body_def funcfield_def field_def zero_instruction_def constructor_loop_def constructor_def
  lambdabody_def explist_loop_def explist_def funcargs_def singlevar_def safe_navigation_def
  primaryexp_def suffixedexp_loop_def suffixedexp_def cond_def ifexpr_def simpleexp_def
  inexpr_def getunopr_def getbinopr_def priority_def opr_index_def left_priority_def
  right_priority_def UNARY_PRIORITY_def subexpr_loop_def subexpr_def block_def
  check_conflict_def getcompoundop_def compoundassign_def default_assignment_def
  restassign_def gotostat_def breakstat_def continuestat_def testnext2_def is_case_token_def
  is_default_token_def switch_loop_def switchstat_def checkrepeated_def labelstat_loop_def
  labelstat_def whilestat_def repeatstat_def exp1_def MAXARG_Bx_def fixforjump_def forbody_def
  fornum_def forlist_loop_def forlist_def forstat_def semicolons_def test_then_block_def
  ifstat_loop_def ifstat_def localfunc_def getlocalattribute_def checktoclose_def
  set_vardesc_def localstat_loop_def localstat_def funcname_loop_def funcname_def funcstat_def
  exprstat_def retstat_def statement_def no_func_def luaX_setinput_def default_config_def
  mainfunc_def luaY_parser_def

lemmas lexemes = lx_def lx_sym_def lx_name_def lx_int_def lx_compound_def

lemmas evcong = let_weak_cong prod.case_cong_weak bool.case_cong_weak option.case_cong_weak
  list.case_cong_weak result.case_cong_weak

section \<open>The emitter keeps the current token\<close>

named_theorems keeps_intros

lemma keeps_Done [simp]:
  "keeps0 t (Done ls) = (ls_t ls = t)"
  "keeps1 t (Done r) = (ls_t (snd r) = t)"
  "keeps2 t (Done q) = (ls_t (snd (snd q)) = t)"
  "keeps3 t (Done u) = (ls_t (snd (snd (snd u))) = t)"
  by (simp_all add: keeps0_def keeps1_def keeps2_def keeps3_def)

lemma keeps_Fail [simp]:
  "keeps0 t (Fail e)" "keeps1 t (Fail e)" "keeps2 t (Fail e)"
  "keeps0 t OutOfFuel" "keeps1 t OutOfFuel" "keeps2 t OutOfFuel"
  "keeps3 t (Fail e)" "keeps3 t OutOfFuel"
  by (simp_all add: keeps0_def keeps1_def keeps2_def keeps3_def)

lemma keeps_bind [keeps_intros]:
  "\<And>m f. keeps0 t m \<Longrightarrow> (\<And>ls. ls_t ls = t \<Longrightarrow> keeps0 t (f ls)) \<Longrightarrow> keeps0 t (bindR m f)"
  "\<And>m f. keeps0 t m \<Longrightarrow> (\<And>ls. ls_t ls = t \<Longrightarrow> keeps1 t (f ls)) \<Longrightarrow> keeps1 t (bindR m f)"
  "\<And>m f. keeps0 t m \<Longrightarrow> (\<And>ls. ls_t ls = t \<Longrightarrow> keeps2 t (f ls)) \<Longrightarrow> keeps2 t (bindR m f)"
  "\<And>m f. keeps1 t m \<Longrightarrow> (\<And>r. ls_t (snd r) = t \<Longrightarrow> keeps0 t (f r)) \<Longrightarrow> keeps0 t (bindR m f)"
  "\<And>m f. keeps1 t m \<Longrightarrow> (\<And>r. ls_t (snd r) = t \<Longrightarrow> keeps1 t (f r)) \<Longrightarrow> keeps1 t (bindR m f)"
  "\<And>m f. keeps1 t m \<Longrightarrow> (\<And>r. ls_t (snd r) = t \<Longrightarrow> keeps2 t (f r)) \<Longrightarrow> keeps2 t (bindR m f)"
  "\<And>m f. keeps2 t m \<Longrightarrow> (\<And>q. ls_t (snd (snd q)) = t \<Longrightarrow> keeps0 t (f q)) \<Longrightarrow> keeps0 t (bindR m f)"
  "\<And>m f. keeps2 t m \<Longrightarrow> (\<And>q. ls_t (snd (snd q)) = t \<Longrightarrow> keeps1 t (f q)) \<Longrightarrow> keeps1 t (bindR m f)"
  "\<And>m f. keeps2 t m \<Longrightarrow> (\<And>q. ls_t (snd (snd q)) = t \<Longrightarrow> keeps2 t (f q)) \<Longrightarrow> keeps2 t (bindR m f)"
  "\<And>m f. keeps2 t m \<Longrightarrow> (\<And>q. ls_t (snd (snd q)) = t \<Longrightarrow> keeps3 t (f q)) \<Longrightarrow> keeps3 t (bindR m f)"
  "\<And>m f. keeps3 t m \<Longrightarrow> (\<And>u. ls_t (snd (snd (snd u))) = t \<Longrightarrow> keeps1 t (f u)) \<Longrightarrow> keeps1 t (bindR m f)"
  by (case_tac [!] m) (simp_all add: keeps0_def keeps1_def keeps2_def keeps3_def)

lemma keeps_D:
  "keeps0 t m \<Longrightarrow> m = Done ls \<Longrightarrow> ls_t ls = t"
  "keeps1 t m1 \<Longrightarrow> m1 = Done (a, ls) \<Longrightarrow> ls_t ls = t"
  "keeps2 t m2 \<Longrightarrow> m2 = Done (a, b, ls) \<Longrightarrow> ls_t ls = t"
  by (simp_all add: keeps0_def keeps1_def keeps2_def)

lemma tok_set_code [simp]: "ls_t (set_code ls x1) = ls_t ls"
  by (simp add: set_code_def Let_def case_prod_unfold split: expkind.split option.split BinOpr.split UnOpr.split TValue.split bool.split)

lemma tok_setinstruction [simp]: "ls_t (setinstruction ls x1 x2) = ls_t ls"
  by (simp add: setinstruction_def Let_def case_prod_unfold split: expkind.split option.split BinOpr.split UnOpr.split TValue.split bool.split)

lemma tok_luaK_code [simp]: "ls_t (snd (luaK_code ls x1)) = ls_t ls"
  by (simp add: luaK_code_def Let_def case_prod_unfold split: expkind.split option.split BinOpr.split UnOpr.split TValue.split bool.split)

lemma tok_luaK_codeABCk [simp]: "ls_t (snd (luaK_codeABCk ls x1 x2 x3 x4 x5)) = ls_t ls"
  by (simp add: luaK_codeABCk_def Let_def case_prod_unfold split: expkind.split option.split BinOpr.split UnOpr.split TValue.split bool.split)

lemma tok_luaK_codeABC [simp]: "ls_t (snd (luaK_codeABC ls x1 x2 x3 x4)) = ls_t ls"
  by (simp add: luaK_codeABC_def Let_def case_prod_unfold split: expkind.split option.split BinOpr.split UnOpr.split TValue.split bool.split)

lemma tok_luaK_codeABx [simp]: "ls_t (snd (luaK_codeABx ls x1 x2 x3)) = ls_t ls"
  by (simp add: luaK_codeABx_def Let_def case_prod_unfold split: expkind.split option.split BinOpr.split UnOpr.split TValue.split bool.split)

lemma tok_luaK_codeAsBx [simp]: "ls_t (snd (luaK_codeAsBx ls x1 x2 x3)) = ls_t ls"
  by (simp add: luaK_codeAsBx_def Let_def case_prod_unfold split: expkind.split option.split BinOpr.split UnOpr.split TValue.split bool.split)

lemma tok_luaK_jump [simp]: "ls_t (snd (luaK_jump ls)) = ls_t ls"
  by (simp add: luaK_jump_def Let_def case_prod_unfold split: expkind.split option.split BinOpr.split UnOpr.split TValue.split bool.split)

lemma tok_luaK_getlabel [simp]: "ls_t (snd (luaK_getlabel ls)) = ls_t ls"
  by (simp add: luaK_getlabel_def Let_def case_prod_unfold split: expkind.split option.split BinOpr.split UnOpr.split TValue.split bool.split)

lemma tok_luaK_patchlist [simp]: "ls_t (luaK_patchlist ls x1 x2) = ls_t ls"
  by (simp add: luaK_patchlist_def Let_def case_prod_unfold split: expkind.split option.split BinOpr.split UnOpr.split TValue.split bool.split)

lemma tok_luaK_patchtohere [simp]: "ls_t (luaK_patchtohere ls x1) = ls_t ls"
  by (simp add: luaK_patchtohere_def Let_def case_prod_unfold split: expkind.split option.split BinOpr.split UnOpr.split TValue.split bool.split)

lemma tok_luaK_jumpto [simp]: "ls_t (luaK_jumpto ls x1) = ls_t ls"
  by (simp add: luaK_jumpto_def Let_def case_prod_unfold split: expkind.split option.split BinOpr.split UnOpr.split TValue.split bool.split)

lemma tok_luaK_fixline [simp]: "ls_t (luaK_fixline ls x1) = ls_t ls"
  by (simp add: luaK_fixline_def Let_def case_prod_unfold split: expkind.split option.split BinOpr.split UnOpr.split TValue.split bool.split)

lemma tok_luaK_checkstack [keeps_intros]: "ls_t ls = t \<Longrightarrow> keeps0 t (luaK_checkstack ls x1)"
  unfolding luaK_checkstack_def
  by (auto simp: Let_def case_prod_unfold luaX_syntaxerror_def intro!: keeps_intros
      split: expkind.split option.split BinOpr.split UnOpr.split TValue.split bool.split)

lemma tok_luaK_reserveregs [keeps_intros]: "ls_t ls = t \<Longrightarrow> keeps0 t (luaK_reserveregs ls x1)"
  unfolding luaK_reserveregs_def
  by (auto simp: Let_def case_prod_unfold luaX_syntaxerror_def intro!: keeps_intros
      split: expkind.split option.split BinOpr.split UnOpr.split TValue.split bool.split)

lemma tok_freereg [simp]: "ls_t (freereg ls x1) = ls_t ls"
  by (simp add: freereg_def Let_def case_prod_unfold split: expkind.split option.split BinOpr.split UnOpr.split TValue.split bool.split)

lemma tok_freeregs [simp]: "ls_t (freeregs ls x1 x2) = ls_t ls"
  by (simp add: freeregs_def Let_def case_prod_unfold split: expkind.split option.split BinOpr.split UnOpr.split TValue.split bool.split)

lemma tok_freeexp [simp]: "ls_t (freeexp ls x1) = ls_t ls"
  by (simp add: freeexp_def Let_def case_prod_unfold split: expkind.split option.split BinOpr.split UnOpr.split TValue.split bool.split)

lemma tok_freeexps [simp]: "ls_t (freeexps ls x1 x2) = ls_t ls"
  by (simp add: freeexps_def Let_def case_prod_unfold split: expkind.split option.split BinOpr.split UnOpr.split TValue.split bool.split)

lemma tok_addk [simp]: "ls_t (snd (addk ls x1)) = ls_t ls"
  by (simp add: addk_def Let_def case_prod_unfold split: expkind.split option.split BinOpr.split UnOpr.split TValue.split bool.split)

lemma tok_luaK_nil [simp]: "ls_t (luaK_nil ls x1 x2) = ls_t ls"
  by (simp add: luaK_nil_def Let_def case_prod_unfold split: expkind.split option.split BinOpr.split UnOpr.split TValue.split bool.split)

lemma tok_luaK_int [simp]: "ls_t (luaK_int ls x1 x2) = ls_t ls"
  by (simp add: luaK_int_def Let_def case_prod_unfold split: expkind.split option.split BinOpr.split UnOpr.split TValue.split bool.split)

lemma tok_luaK_setreturns [keeps_intros]: "ls_t ls = t \<Longrightarrow> keeps0 t (luaK_setreturns ls x1 x2)"
  unfolding luaK_setreturns_def
  by (auto simp: Let_def case_prod_unfold luaX_syntaxerror_def intro!: keeps_intros
      split: expkind.split option.split BinOpr.split UnOpr.split TValue.split bool.split)

lemma tok_luaK_setmultret [keeps_intros]: "ls_t ls = t \<Longrightarrow> keeps0 t (luaK_setmultret ls x1)"
  unfolding luaK_setmultret_def
  by (auto simp: Let_def case_prod_unfold luaX_syntaxerror_def intro!: keeps_intros
      split: expkind.split option.split BinOpr.split UnOpr.split TValue.split bool.split)

lemma tok_luaK_setoneret [simp]: "ls_t (snd (luaK_setoneret ls x1)) = ls_t ls"
  by (simp add: luaK_setoneret_def Let_def case_prod_unfold split: expkind.split option.split BinOpr.split UnOpr.split TValue.split bool.split)

lemma tok_luaK_dischargevars [simp]: "ls_t (snd (luaK_dischargevars ls x1)) = ls_t ls"
  by (simp add: luaK_dischargevars_def Let_def case_prod_unfold split: expkind.split option.split BinOpr.split UnOpr.split TValue.split bool.split)

lemma tok_discharge2reg [simp]: "ls_t (snd (discharge2reg ls x1 x2)) = ls_t ls"
  by (simp add: discharge2reg_def Let_def case_prod_unfold split: expkind.split option.split BinOpr.split UnOpr.split TValue.split bool.split)

lemma tok_discharge2anyreg [keeps_intros]: "ls_t ls = t \<Longrightarrow> keeps1 t (discharge2anyreg ls x1)"
  unfolding discharge2anyreg_def
  by (auto simp: Let_def case_prod_unfold luaX_syntaxerror_def intro!: keeps_intros
      split: expkind.split option.split BinOpr.split UnOpr.split TValue.split bool.split)

lemma tok_exp2reg [simp]: "ls_t (snd (exp2reg ls x1 x2)) = ls_t ls"
  by (simp add: exp2reg_def Let_def case_prod_unfold split: expkind.split option.split BinOpr.split UnOpr.split TValue.split bool.split)

lemma tok_luaK_exp2nextreg [keeps_intros]: "ls_t ls = t \<Longrightarrow> keeps1 t (luaK_exp2nextreg ls x1)"
  unfolding luaK_exp2nextreg_def
  by (auto simp: Let_def case_prod_unfold luaX_syntaxerror_def intro!: keeps_intros
      split: expkind.split option.split BinOpr.split UnOpr.split TValue.split bool.split)

lemma tok_luaK_exp2anyreg [keeps_intros]: "ls_t ls = t \<Longrightarrow> keeps1 t (luaK_exp2anyreg ls x1)"
  unfolding luaK_exp2anyreg_def
  by (auto simp: Let_def case_prod_unfold luaX_syntaxerror_def intro!: keeps_intros
      split: expkind.split option.split BinOpr.split UnOpr.split TValue.split bool.split)

lemma tok_luaK_exp2anyregup [keeps_intros]: "ls_t ls = t \<Longrightarrow> keeps1 t (luaK_exp2anyregup ls x1)"
  unfolding luaK_exp2anyregup_def
  by (auto simp: Let_def case_prod_unfold luaX_syntaxerror_def intro!: keeps_intros
      split: expkind.split option.split BinOpr.split UnOpr.split TValue.split bool.split)

lemma tok_luaK_exp2val [keeps_intros]: "ls_t ls = t \<Longrightarrow> keeps1 t (luaK_exp2val ls x1)"
  unfolding luaK_exp2val_def
  by (auto simp: Let_def case_prod_unfold luaX_syntaxerror_def intro!: keeps_intros
      split: expkind.split option.split BinOpr.split UnOpr.split TValue.split bool.split)

lemma tok_luaK_exp2reg [simp]: "ls_t (snd (luaK_exp2reg ls x1 x2)) = ls_t ls"
  by (simp add: luaK_exp2reg_def Let_def case_prod_unfold split: expkind.split option.split BinOpr.split UnOpr.split TValue.split bool.split)

lemma tok_luaK_exp2K [simp]: "ls_t (snd (snd (luaK_exp2K ls x1))) = ls_t ls"
  by (simp add: luaK_exp2K_def Let_def case_prod_unfold split: expkind.split option.split BinOpr.split UnOpr.split TValue.split bool.split)

lemma tok_exp2RK [keeps_intros]: "ls_t ls = t \<Longrightarrow> keeps2 t (exp2RK ls x1)"
  unfolding exp2RK_def
  by (auto simp: Let_def case_prod_unfold luaX_syntaxerror_def intro!: keeps_intros
      split: expkind.split option.split BinOpr.split UnOpr.split TValue.split bool.split)

lemma tok_codeABRK [keeps_intros]: "ls_t ls = t \<Longrightarrow> keeps1 t (codeABRK ls x1 x2 x3 x4)"
  unfolding codeABRK_def
  by (auto simp: Let_def case_prod_unfold luaX_syntaxerror_def intro!: keeps_intros
      split: expkind.split option.split BinOpr.split UnOpr.split TValue.split bool.split)

lemma tok_luaK_storevar [keeps_intros]: "ls_t ls = t \<Longrightarrow> keeps0 t (luaK_storevar ls x1 x2)"
  unfolding luaK_storevar_def
  by (auto simp: Let_def case_prod_unfold luaX_syntaxerror_def intro!: keeps_intros
      split: expkind.split option.split BinOpr.split UnOpr.split TValue.split bool.split)

lemma tok_luaK_self [keeps_intros]: "ls_t ls = t \<Longrightarrow> keeps1 t (luaK_self ls x1 x2)"
  unfolding luaK_self_def
  by (auto simp: Let_def case_prod_unfold luaX_syntaxerror_def intro!: keeps_intros
      split: expkind.split option.split BinOpr.split UnOpr.split TValue.split bool.split)

lemma tok_negatecondition [simp]: "ls_t (negatecondition ls x1) = ls_t ls"
  by (simp add: negatecondition_def Let_def case_prod_unfold split: expkind.split option.split BinOpr.split UnOpr.split TValue.split bool.split)

lemma tok_condjump [simp]: "ls_t (snd (condjump ls x1 x2 x3 x4 x5)) = ls_t ls"
  by (simp add: condjump_def Let_def case_prod_unfold split: expkind.split option.split BinOpr.split UnOpr.split TValue.split bool.split)

lemma tok_jumponcond [keeps_intros]: "ls_t ls = t \<Longrightarrow> keeps1 t (jumponcond ls x1 x2)"
  unfolding jumponcond_def
  by (auto simp: Let_def case_prod_unfold luaX_syntaxerror_def intro!: keeps_intros
      split: expkind.split option.split BinOpr.split UnOpr.split TValue.split bool.split)

lemma tok_luaK_goiftrue [keeps_intros]: "ls_t ls = t \<Longrightarrow> keeps1 t (luaK_goiftrue ls x1)"
  unfolding luaK_goiftrue_def
  by (auto simp: Let_def case_prod_unfold luaX_syntaxerror_def intro!: keeps_intros
      split: expkind.split option.split BinOpr.split UnOpr.split TValue.split bool.split)

lemma tok_luaK_goiffalse [keeps_intros]: "ls_t ls = t \<Longrightarrow> keeps1 t (luaK_goiffalse ls x1)"
  unfolding luaK_goiffalse_def
  by (auto simp: Let_def case_prod_unfold luaX_syntaxerror_def intro!: keeps_intros
      split: expkind.split option.split BinOpr.split UnOpr.split TValue.split bool.split)

lemma tok_luaK_goifnil [keeps_intros]: "ls_t ls = t \<Longrightarrow> keeps1 t (luaK_goifnil ls x1)"
  unfolding luaK_goifnil_def
  by (auto simp: Let_def case_prod_unfold luaX_syntaxerror_def intro!: keeps_intros
      split: expkind.split option.split BinOpr.split UnOpr.split TValue.split bool.split)

lemma tok_codenot [keeps_intros]: "ls_t ls = t \<Longrightarrow> keeps1 t (codenot ls x1)"
  unfolding codenot_def
  by (auto simp: Let_def case_prod_unfold luaX_syntaxerror_def intro!: keeps_intros
      split: expkind.split option.split BinOpr.split UnOpr.split TValue.split bool.split)

lemma tok_codeunexpval [keeps_intros]: "ls_t ls = t \<Longrightarrow> keeps1 t (codeunexpval ls x1 x2)"
  unfolding codeunexpval_def
  by (auto simp: Let_def case_prod_unfold luaX_syntaxerror_def intro!: keeps_intros
      split: expkind.split option.split BinOpr.split UnOpr.split TValue.split bool.split)

lemma tok_luaK_prefix [keeps_intros]: "ls_t ls = t \<Longrightarrow> keeps1 t (luaK_prefix ls x1 x2 x3)"
  unfolding luaK_prefix_def
  by (auto simp: Let_def case_prod_unfold luaX_syntaxerror_def intro!: keeps_intros
      split: expkind.split option.split BinOpr.split UnOpr.split TValue.split bool.split)

lemma tok_luaK_infix [keeps_intros]: "ls_t ls = t \<Longrightarrow> keeps1 t (luaK_infix ls x1 x2)"
  unfolding luaK_infix_def
  by (auto simp: Let_def case_prod_unfold luaX_syntaxerror_def intro!: keeps_intros
      split: expkind.split option.split BinOpr.split UnOpr.split TValue.split bool.split)

lemma tok_codebinexpval [keeps_intros]: "ls_t ls = t \<Longrightarrow> keeps1 t (codebinexpval ls x1 x2 x3)"
  unfolding codebinexpval_def
  by (auto simp: Let_def case_prod_unfold luaX_syntaxerror_def intro!: keeps_intros
      split: expkind.split option.split BinOpr.split UnOpr.split TValue.split bool.split)

lemma tok_codeeq [keeps_intros]: "ls_t ls = t \<Longrightarrow> keeps1 t (codeeq ls x1 x2 x3)"
  unfolding codeeq_def
  by (auto simp: Let_def case_prod_unfold luaX_syntaxerror_def intro!: keeps_intros
      split: expkind.split option.split BinOpr.split UnOpr.split TValue.split bool.split)

lemma tok_codeorder [keeps_intros]: "ls_t ls = t \<Longrightarrow> keeps1 t (codeorder ls x1 x2 x3)"
  unfolding codeorder_def
  by (auto simp: Let_def case_prod_unfold luaX_syntaxerror_def intro!: keeps_intros
      split: expkind.split option.split BinOpr.split UnOpr.split TValue.split bool.split)

lemma tok_luaK_posfix [keeps_intros]: "ls_t ls = t \<Longrightarrow> keeps1 t (luaK_posfix ls x1 x2 x3 x4)"
  unfolding luaK_posfix_def
  by (auto simp: Let_def case_prod_unfold luaX_syntaxerror_def intro!: keeps_intros
      split: expkind.split option.split BinOpr.split UnOpr.split TValue.split bool.split)

lemma tok_luaK_indexed [keeps_intros]: "ls_t ls = t \<Longrightarrow> keeps1 t (luaK_indexed ls x1 x2)"
  unfolding luaK_indexed_def
  by (auto simp: Let_def case_prod_unfold luaX_syntaxerror_def intro!: keeps_intros
      split: expkind.split option.split BinOpr.split UnOpr.split TValue.split bool.split)

lemma tok_luaK_ret [simp]: "ls_t (luaK_ret ls x1 x2) = ls_t ls"
  by (simp add: luaK_ret_def Let_def case_prod_unfold split: expkind.split option.split BinOpr.split UnOpr.split TValue.split bool.split)

lemma tok_luaK_setlist [simp]: "ls_t (luaK_setlist ls x1 x2 x3) = ls_t ls"
  by (simp add: luaK_setlist_def Let_def case_prod_unfold split: expkind.split option.split BinOpr.split UnOpr.split TValue.split bool.split)

lemma tok_luaK_settablesize [simp]: "ls_t (luaK_settablesize ls x1 x2 x3 x4) = ls_t ls"
  by (simp add: luaK_settablesize_def Let_def case_prod_unfold split: expkind.split option.split BinOpr.split UnOpr.split TValue.split bool.split)

lemma tok_luaK_finish [simp]: "ls_t (luaK_finish ls) = ls_t ls"
  by (simp add: luaK_finish_def Let_def case_prod_unfold split: expkind.split option.split BinOpr.split UnOpr.split TValue.split bool.split)


section \<open>The limit on local variables\<close>

lemma new_localvar_ok:
  assumes "declared ls < 249"
  shows "\<exists>ls'. new_localvar ls name = Done (actvar_n ls - fs_firstlocal (ls_fs ls), ls')
           \<and> declared ls' = declared ls + 1 \<and> ls_fs ls' = ls_fs ls
           \<and> actvar_n ls' = actvar_n ls + 1
           \<and> vd_name (actvar_arr ls' ! actvar_n ls) = name"
  using assms
  by (simp add: new_localvar_def checklimit_def MAXVARS_def declared_def Let_def set_slot_def
      nth_append)

lemma new_localvar_fails:
  assumes "249 \<le> declared ls"
  shows "new_localvar ls name = Fail (TooManyLocals (ls_fs ls))"
  using assms
  by (simp add: new_localvar_def checklimit_def MAXVARS_def declared_def errorlimit_def
      luaX_syntaxerror_def TooManyLocals_def)

lemma new_localvars_Done_iff:
  "is_Done (new_localvars ls names) \<longleftrightarrow> names = [] \<or> declared ls + int (length names) \<le> 249"
proof (induction names arbitrary: ls)
  case Nil
  show ?case by simp
next
  case (Cons name names)
  show ?case
  proof (cases "declared ls < 249")
    case True
    from new_localvar_ok [OF True, of name] obtain ls' where
      run: "new_localvar ls name = Done (actvar_n ls - fs_firstlocal (ls_fs ls), ls')"
      and d: "declared ls' = declared ls + 1"
      by blast
    have "is_Done (new_localvars ls (name # names)) = is_Done (new_localvars ls' names)"
      by (simp add: run)
    also have "\<dots> \<longleftrightarrow> names = [] \<or> declared ls' + int (length names) \<le> 249"
      by (rule Cons.IH)
    also have "\<dots> \<longleftrightarrow> declared ls + int (length (name # names)) \<le> 249"
      using True d by auto
    finally show ?thesis by simp
  next
    case False
    then have "249 \<le> declared ls" by simp
    from new_localvar_fails [OF this, of name] have "\<not> is_Done (new_localvars ls (name # names))"
      by simp
    with False show ?thesis by simp
  qed
qed

lemma declared_open_func: "declared (open_func ls line) = 0"
  by (simp add: declared_def open_func_def enterblock_def Let_def)

text \<open>
  C6. In the function being compiled a declaration succeeds, and makes the count of
  declared variables one larger, as long as that count is below 249, so that the function
  may hold 249 variables; at 249 the next declaration fails with \<open>TooManyLocals\<close>.
  \<^verbatim>\<open>new_localvar\<close> is the one place that declares a variable, the control variables
  of loops included. A function that has just been opened has declared nothing, whatever
  its enclosing functions have declared: after \<^verbatim>\<open>open_func\<close> a list of declarations
  succeeds exactly when it has at most 249 names.
\<close>

theorem C6_local_variable_limit:
  "(declared ls < 249 \<longrightarrow>
      (\<exists>ls'. new_localvar ls name = Done (actvar_n ls - fs_firstlocal (ls_fs ls), ls')
         \<and> declared ls' = declared ls + 1))
   \<and> (249 \<le> declared ls \<longrightarrow> new_localvar ls name = Fail (TooManyLocals (ls_fs ls)))
   \<and> declared (open_func ls line) = 0
   \<and> (is_Done (new_localvars (open_func ls line) names) \<longleftrightarrow> length names \<le> 249)"
proof (intro conjI impI)
  assume "declared ls < 249"
  from new_localvar_ok [OF this, of name]
  show "\<exists>ls'. new_localvar ls name = Done (actvar_n ls - fs_firstlocal (ls_fs ls), ls')
         \<and> declared ls' = declared ls + 1"
    by blast
next
  assume "249 \<le> declared ls"
  then show "new_localvar ls name = Fail (TooManyLocals (ls_fs ls))"
    by (rule new_localvar_fails)
next
  show "declared (open_func ls line) = 0"
    by (rule declared_open_func)
next
  show "is_Done (new_localvars (open_func ls line) names) \<longleftrightarrow> length names \<le> 249"
    using new_localvars_Done_iff [of "open_func ls line" names]
    by (auto simp: declared_open_func)
qed

theorem C6_local_variable_limit_witness:
  "declared (luaX_setinput default_config []) < 249
   \<and> (\<exists>ls'. new_localvar (luaX_setinput default_config []) ''x'' = Done (0, ls')
         \<and> declared ls' = 1)
   \<and> 249 \<le> declared ((luaX_setinput default_config [])\<lparr>actvar_n := 249\<rparr>)
   \<and> new_localvar ((luaX_setinput default_config [])\<lparr>actvar_n := 249\<rparr>) ''x''
       = Fail (TooManyLocals no_func)
   \<and> declared (open_func ((luaX_setinput default_config [])\<lparr>actvar_n := 249\<rparr>) 3) = 0
   \<and> is_Done (new_localvars
        (open_func ((luaX_setinput default_config [])\<lparr>actvar_n := 249\<rparr>) 3) [''a'', ''b''])"
proof -
  let ?a = "luaX_setinput default_config []"
  let ?b = "(luaX_setinput default_config [])\<lparr>actvar_n := 249\<rparr>"
  have a: "declared ?a < 249"
    by (simp add: declared_def luaX_setinput_def no_func_def)
  have b: "249 \<le> declared ?b"
    by (simp add: declared_def luaX_setinput_def no_func_def)
  have e: "actvar_n ?a - fs_firstlocal (ls_fs ?a) = 0" "declared ?a + 1 = 1"
    "ls_fs ?b = no_func"
    by (simp_all add: declared_def luaX_setinput_def no_func_def)
  from C6_local_variable_limit [of ?a "''x''" 3 "[]"] a
  have "\<exists>ls'. new_localvar ?a ''x'' = Done (actvar_n ?a - fs_firstlocal (ls_fs ?a), ls')
         \<and> declared ls' = declared ?a + 1"
    by blast
  then have 1: "\<exists>ls'. new_localvar ?a ''x'' = Done (0, ls') \<and> declared ls' = 1"
    unfolding e .
  from C6_local_variable_limit [of ?b "''x''" 3 "[''a'', ''b'']"] b
  have "new_localvar ?b ''x'' = Fail (TooManyLocals (ls_fs ?b))"
    and 3: "declared (open_func ?b 3) = 0"
    and "is_Done (new_localvars (open_func ?b 3) [''a'', ''b''])
           \<longleftrightarrow> length [''a'', ''b''] \<le> 249"
    by blast+
  then have 2: "new_localvar ?b ''x'' = Fail (TooManyLocals no_func)"
    and 4: "is_Done (new_localvars (open_func ?b 3) [''a'', ''b''])"
    unfolding e by simp_all
  show ?thesis
    using a b 1 2 3 4 by blast
qed

section \<open>A continue directly in a case list\<close>

text \<open>
  C3. When the token that \<^verbatim>\<open>caselist\<close> meets in the body of a \<^verbatim>\<open>case\<close> or of the
  \<^verbatim>\<open>default\<close> is \<^verbatim>\<open>continue\<close> (or its compatibility spelling), parsing fails with
  the error \<^verbatim>\<open>'continue' outside of loop\<close>, whatever the chain \<open>bls\<close> of enclosing blocks
  is: a loop around the switch does not prevent the error.
\<close>

theorem C3_continue_in_case:
  assumes "gett ls = TK_PCONTINUE \<or> (\<not> compat_continue (ls_cfg ls) \<and> gett ls = TK_CONTINUE)"
  shows "caselist R (ls\<lparr>ls_fs := (ls_fs ls)\<lparr>fs_bl := bls\<rparr>\<rparr>) isdefault
           = Fail (ThrowErr ''continue outside of loop.'' [] ''case statements are not loops.'')"
  using assms by (auto simp: caselist_def gett_def throwerr_def)

theorem C3_continue_in_case_witness:
  "gett (state_at TK_CONTINUE [] []) = TK_CONTINUE
   \<and> \<not> compat_continue (ls_cfg (state_at TK_CONTINUE [] []))
   \<and> caselist (parser_at 1) (state_at TK_CONTINUE [] [fresh_block False, fresh_block True]) False
       = Fail (ThrowErr ''continue outside of loop.'' [] ''case statements are not loops.'')"
  using C3_continue_in_case [of "state_at TK_CONTINUE [] []" "parser_at 1"
      "[fresh_block False, fresh_block True]" False]
  by (simp add: state_at_def gett_def luaX_setinput_def mk_token_def default_config_def)

text \<open>
  The chunk \<^verbatim>\<open>while true do switch x do case 1: continue end end\<close> has a loop around
  the switch, and is rejected with the same error.
\<close>

theorem C3_continue_in_case_inside_loop:
  "luaY_parser 12 default_config continue_in_case_chunk
     = Fail (ThrowErr ''continue outside of loop.'' [] ''case statements are not loops.'')"
  by (simp add: ev lexemes continue_in_case_chunk_def cong: evcong)

section \<open>A break at the end of the default case\<close>



section \<open>Assignment to a constant\<close>

lemma varkind_not_reg: "k \<noteq> VDKREG \<longleftrightarrow> k \<in> {RDKCONST, RDKTOCLOSE, RDKCTC}"
  by (cases k) auto

lemma check_readonly_iff:
  "check_readonly ls e =
     (if refers_to_constant ls e then Fail (AssignToConst (constant_name ls e)) else Done ())"
  by (auto simp: check_readonly_def refers_to_constant_def constant_name_def AssignToConst_def
      throwerr_def Let_def varkind_not_reg split: expkind.splits)

lemma refers_vkisvar: "refers_to_constant ls e \<Longrightarrow> vkisvar (e_k e)"
  by (auto simp: refers_to_constant_def vkisvar_def)

lemma restassign_constant:
  "refers_to_constant ls (hd lh) \<Longrightarrow>
     restassign R ls lh nvars = Fail (AssignToConst (constant_name ls (hd lh)))"
  by (simp add: restassign_def check_readonly_iff refers_vkisvar check_condition_def)

lemma funcstat_checks_target:
  "funcstat R ls line =
     bindR (funcname R (luaX_next ls)) (\<lambda>(ismethod, v, ls1).
     bindR (body R ls1 ismethod line) (\<lambda>(b, ls2).
     if refers_to_constant ls2 v then Fail (AssignToConst (constant_name ls2 v))
     else bindR (luaK_storevar ls2 v b) (\<lambda>ls3. Done (luaK_fixline ls3 line))))"
  unfolding funcstat_def check_readonly_iff
  by (auto simp: bindR_def split: result.splits)

text \<open>
  \<^verbatim>\<open>check_readonly\<close> fails with \<open>AssignToConst\<close>, naming the variable, exactly on
  the targets the specification protects, and passes every other descriptor. The parser
  stores into a variable in an assignment (\<^verbatim>\<open>restassign\<close>, which also runs the compound
  assignment) and in a function statement (\<^verbatim>\<open>funcstat\<close>). \<^verbatim>\<open>restassign\<close> on a chain
  whose head \<open>hd lh\<close> is protected fails at once, whatever the parser \<open>R\<close> of the
  right-hand sides would do, so before anything is parsed or emitted for the store; hence
  an assignment that succeeds had a head that is not protected. \<^verbatim>\<open>funcstat\<close> parses the
  name and the body and then reaches \<^verbatim>\<open>luaK_storevar\<close> only when the target is not
  protected.
\<close>

theorem assign_to_const:
  "check_readonly ls e =
     (if refers_to_constant ls e then Fail (AssignToConst (constant_name ls e)) else Done ())
   \<and> (refers_to_constant ls (hd lh) \<longrightarrow>
        restassign R ls lh nvars = Fail (AssignToConst (constant_name ls (hd lh))))
   \<and> (is_Done (restassign R ls lh nvars) \<longrightarrow> \<not> refers_to_constant ls (hd lh))
   \<and> funcstat R ls line =
       bindR (funcname R (luaX_next ls)) (\<lambda>(ismethod, v, ls1).
       bindR (body R ls1 ismethod line) (\<lambda>(b, ls2).
       if refers_to_constant ls2 v then Fail (AssignToConst (constant_name ls2 v))
       else bindR (luaK_storevar ls2 v b) (\<lambda>ls3. Done (luaK_fixline ls3 line))))"
  using check_readonly_iff [of ls e] restassign_constant [of ls lh R nvars]
    funcstat_checks_target [of R ls line]
  by auto

theorem assign_to_const_instance:
  "refers_to_constant (one_local_state RDKCONST (TK_CHAR CHR ''='') [lx_int 2 1]) local_x
   \<and> check_readonly (one_local_state RDKCONST (TK_CHAR CHR ''='') [lx_int 2 1]) local_x
       = Fail (AssignToConst ''x'')
   \<and> restassign (parser_at 6) (one_local_state RDKCONST (TK_CHAR CHR ''='') [lx_int 2 1])
        [local_x] 1 = Fail (AssignToConst ''x'')
   \<and> is_Done (restassign (parser_at 6)
        (one_local_state VDKREG (TK_CHAR CHR ''='') [lx_int 2 1]) [local_x] 1)
   \<and> \<not> refers_to_constant (one_local_state VDKREG (TK_CHAR CHR ''='') [lx_int 2 1]) local_x"
proof -
  let ?c = "one_local_state RDKCONST (TK_CHAR CHR ''='') [lx_int 2 1]"
  let ?r = "one_local_state VDKREG (TK_CHAR CHR ''='') [lx_int 2 1]"
  have c: "refers_to_constant ?c local_x"
    by (simp add: refers_to_constant_def one_local_state_def local_x_def init_exp_def
        void_exp_def getlocalvardesc_def no_func_def luaX_setinput_def)
  have n: "constant_name ?c local_x = ''x''"
    by (simp add: constant_name_def one_local_state_def local_x_def init_exp_def void_exp_def
        getlocalvardesc_def no_func_def luaX_setinput_def fresh_vardesc_def)
  have d: "is_Done (restassign (parser_at 6) ?r [local_x] 1)"
    by (simp add: ev lexemes one_local_state_def local_x_def fresh_block_def cong: evcong)
  from assign_to_const [of ?c local_x "[local_x]" "parser_at 6" 1 1] c n
  have 1: "check_readonly ?c local_x = Fail (AssignToConst ''x'')"
    and 2: "restassign (parser_at 6) ?c [local_x] 1 = Fail (AssignToConst ''x'')"
    by simp_all
  from assign_to_const [of ?r local_x "[local_x]" "parser_at 6" 1 1] d
  have 3: "\<not> refers_to_constant ?r local_x"
    by simp
  from c 1 2 d 3 show ?thesis
    by blast
qed

section \<open>An if expression over a constant local\<close>

text \<open>
  C5. The chunk \<^verbatim>\<open>local x <const> = g  local y = if g then x else 5\<close> is accepted.
  The constant local \<open>x\<close> is in register 0, where \<^verbatim>\<open>GETTABUP\<close> puts the value of
  \<open>g\<close>. \<^verbatim>\<open>ifexpr\<close> takes the register of the value of its first branch, which is the
  register of \<open>x\<close>, for the value of the second: the instruction \<^verbatim>\<open>LOADI\<close> stores 5 into
  register 0, and no read-only check is made. The assignment \<^verbatim>\<open>x = 5\<close> after the same
  declaration is rejected.
\<close>

theorem C5_const_local_overwritten:
  "map (\<lambda>i. (i_op i, i_A i)) (instructions (luaY_parser 14 default_config const_ifexpr_chunk))
     = [(OP_VARARGPREP, 0), (OP_GETTABUP, 0), (OP_GETTABUP, 1), (OP_TEST, 1), (OP_JMP, 0),
        (OP_JMP, 0), (OP_LOADI, 0), (OP_MOVE, 1), (OP_RETURN, 2)]
   \<and> luaY_parser 14 default_config const_assign_chunk = Fail (AssignToConst ''x'')"
  by (simp add: ev lexemes instructions_def const_ifexpr_chunk_def const_assign_chunk_def
      AssignToConst_def cong: evcong)

section \<open>Compound assignment\<close>

lemma bindR_assoc: "bindR (bindR m f) g = bindR m (\<lambda>x. bindR (f x) g)"
  by (cases m) simp_all

lemma getcompoundop_table:
  assumes "(c, op) \<in> set compound_operators" and "ls_lasttoken ls = Some c"
  shows "getcompoundop ls = Some op"
proof -
  from assms(1) have "(c, op) \<in> {(TK_CADD, OPR_ADD), (TK_CSUB, OPR_SUB), (TK_CMUL, OPR_MUL), (TK_CDIV, OPR_DIV),
     (TK_CIDIV, OPR_IDIV), (TK_CMOD, OPR_MOD), (TK_CPOW, OPR_POW), (TK_CCAT, OPR_CONCAT),
     (TK_CBAND, OPR_BAND), (TK_CBOR, OPR_BOR), (TK_CBXOR, OPR_BXOR), (TK_CSHL, OPR_SHL),
     (TK_CSHR, OPR_SHR), (TK_COAL, OPR_COAL)}"
    by (simp only: compound_operators_def list.set)
  then show ?thesis
    unfolding getcompoundop_def assms(2) option.case
    by (elim insertE emptyE; simp)
qed

lemma getcompoundop_only:
  "getcompoundop ls = Some op \<Longrightarrow> \<exists>c. ls_lasttoken ls = Some c \<and> (c, op) \<in> set compound_operators"
  by (auto simp: compound_operators_def getcompoundop_def split: option.splits if_splits)

lemma restassign_compound:
  assumes "vkisvar (e_k (hd lh))" and "check_readonly ls (hd lh) = Done ()"
    and "gett ls \<noteq> TK_CHAR CHR '',''" and "ls_lasttoken ls = Some c"
    and "getcompoundop ls = Some op"
  shows "restassign R ls lh nvars =
           (if nvars \<noteq> 1 then Fail (SyntaxError ''unsupported tuple assignment'' [])
            else bindR (compoundassign R ls (hd lh) op)
                   (\<lambda>ls'. Done (lh, ls'\<lparr>ls_lasttoken := None\<rparr>)))"
  using assms
  by (simp add: restassign_def check_condition_def testnext_def luaX_syntaxerror_def)

lemma compoundassign_steps:
  "compoundassign R ls v op =
     bindR (if e_k v = VLOCAL then Done (luaX_next ls)
            else luaK_reserveregs (luaX_next ls)
                   (fs_freereg (ls_fs (luaX_next ls)) - int (fs_nactvar (ls_fs (luaX_next ls)))))
       (\<lambda>ls0.
     bindR (luaK_infix ls0 op v) (\<lambda>(e1, ls1).
     bindR (expr R ls1) (\<lambda>(v2, ls2).
     bindR (luaK_posfix ls2 op e1 v2 (ls_linenumber (luaX_next ls))) (\<lambda>(e2, ls3).
     bindR (if e_k v = VLOCAL then Done (e2, ls3) else luaK_exp2nextreg ls3 e2) (\<lambda>(e3, ls4).
     luaK_storevar (snd (luaK_setoneret ls4 e3)) v (fst (luaK_setoneret ls4 e3)))))))"
  by (cases "e_k v = VLOCAL")
    (simp_all add: compoundassign_def Let_def case_prod_unfold cong del: bindR_weak_cong)



section \<open>The continue statement\<close>

lemma continue_search_spec:
  "continue_search bls cnt u i =
     (if cnt \<le> 0 then None
      else map_option (\<lambda>j. (i + j, u \<or> list_ex bl_upval (take j bls))) (nth_loop bls (nat cnt)))"
proof (induction bls arbitrary: cnt u i)
  case Nil
  show ?case
    by simp
next
  case (Cons bl previous)
  show ?case
  proof (cases "bl_isloop bl")
    case False
    then show ?thesis
      by (simp add: Cons.IH option.map_comp comp_def disj_ac)
  next
    case True
    show ?thesis
    proof (cases "cnt = 1")
      case one: True
      with True show ?thesis
        by simp
    next
      case notone: False
      have n: "nat (cnt - 1) = nat cnt - 1"
        by simp
      from notone have m: "nat cnt \<noteq> 1"
        by auto
      from True notone m show ?thesis
        by (auto simp: Cons.IH n option.map_comp comp_def disj_ac)
    qed
  qed
qed

text \<open>
  For \<^verbatim>\<open>continue\<close> with the count \<open>cnt\<close> (the integer after the keyword, else 1), read
  in a function whose chain of blocks is \<open>bls\<close>: when the \<open>cnt\<close>-th loop block from the
  inside is at position \<open>j\<close>, the statement succeeds; it emits a \<open>CLOSE\<close> at that block's
  count of active variables exactly when a block in front of it, loop or not, has its
  upvalue bit set, then one jump, which it appends to \<open>bl_scopeend\<close> of that block, and
  leaves the other blocks as they were. When \<open>cnt\<close> is not positive or the chain has fewer
  than \<open>cnt\<close> loop blocks, parsing fails with \<open>ContinueOutsideLoop\<close>.
\<close>

theorem continuestat_walk:
  assumes "cnt = (if gett (luaX_next ls) = TK_INT then seminfo_i (ls_t (luaX_next ls)) else 1)"
    and "ls2 = (if gett (luaX_next ls) = TK_INT then luaX_next (luaX_next ls) else luaX_next ls)"
    and "bls = fs_bl (ls_fs ls2)"
  shows "(0 < cnt \<and> nth_loop bls (nat cnt) = Some j \<longrightarrow>
           (\<exists>ls'. continuestat ls = Done ls'
              \<and> fs_code (ls_fs ls') =
                  fs_code (ls_fs ls2)
                  @ (if passed_upval bls j
                     then [mkABCk OP_CLOSE (int (bl_nactvar (bls ! j))) 0 0 False] else [])
                  @ [CREATE_sJ OP_JMP (- 1) False]
              \<and> fs_bl (ls_fs ls') =
                  bls[j := (bls ! j)\<lparr>bl_scopeend :=
                         bl_scopeend (bls ! j) @ [length (fs_code (ls_fs ls')) - 1]\<rparr>]))
       \<and> (cnt \<le> 0 \<or> nth_loop bls (nat cnt) = None \<longrightarrow>
           continuestat ls = Fail (ContinueOutsideLoop ls2))"
proof (intro conjI impI)
  assume a: "0 < cnt \<and> nth_loop bls (nat cnt) = Some j"
  then have s: "continue_search bls cnt False 0 = Some (j, passed_upval bls j)"
    by (simp add: continue_search_spec passed_upval_def)
  show "\<exists>ls'. continuestat ls = Done ls'
              \<and> fs_code (ls_fs ls') =
                  fs_code (ls_fs ls2)
                  @ (if passed_upval bls j
                     then [mkABCk OP_CLOSE (int (bl_nactvar (bls ! j))) 0 0 False] else [])
                  @ [CREATE_sJ OP_JMP (- 1) False]
              \<and> fs_bl (ls_fs ls') =
                  bls[j := (bls ! j)\<lparr>bl_scopeend :=
                         bl_scopeend (bls ! j) @ [length (fs_code (ls_fs ls')) - 1]\<rparr>]"
    using s assms
    by (simp add: continuestat_def Let_def luaK_codeABC_def luaK_codeABCk_def luaK_code_def
        luaK_jump_def set_code_def fs_pc_def luaK_concat_def)
next
  assume "cnt \<le> 0 \<or> nth_loop bls (nat cnt) = None"
  then have s: "continue_search bls cnt False 0 = None"
    by (auto simp: continue_search_spec)
  show "continuestat ls = Fail (ContinueOutsideLoop ls2)"
    using s assms
    by (simp add: continuestat_def Let_def ContinueOutsideLoop_def error_expected_def
        throwerr_def)
qed

theorem continuestat_walk_instance:
  "nth_loop for_in_for_blocks (nat 2) = Some 3
   \<and> passed_upval for_in_for_blocks 3
   \<and> (\<exists>ls'. continuestat (state_at TK_CONTINUE [lx_int 2 3, lx TK_END 4] for_in_for_blocks)
               = Done ls'
          \<and> fs_code (ls_fs ls')
              = [mkABCk OP_CLOSE 0 0 0 False, CREATE_sJ OP_JMP (- 1) False]
          \<and> bl_scopeend (fs_bl (ls_fs ls') ! 3) = [1])
   \<and> nth_loop [fresh_block False] (nat 1) = None
   \<and> continuestat (state_at TK_CONTINUE [lx TK_END 4] [fresh_block False])
       = Fail (ThrowErr ''%s expected (got %s)'' [T TK_CONTINUE, T TK_END]
                 ''this is invalid syntax.'')"
proof -
  let ?a = "state_at TK_CONTINUE [lx_int 2 3, lx TK_END 4] for_in_for_blocks"
  let ?b = "state_at TK_CONTINUE [lx TK_END 4] [fresh_block False]"
  have a: "2 = (if gett (luaX_next ?a) = TK_INT then seminfo_i (ls_t (luaX_next ?a)) else 1)"
    "for_in_for_blocks = fs_bl (ls_fs (if gett (luaX_next ?a) = TK_INT
        then luaX_next (luaX_next ?a) else luaX_next ?a))"
    "fs_code (ls_fs (if gett (luaX_next ?a) = TK_INT
        then luaX_next (luaX_next ?a) else luaX_next ?a)) = []"
    by (simp_all add: state_at_def luaX_setinput_def luaX_next_def llex_def gett_def mk_token_def
        lx_int_def lx_def no_func_def)
  have b: "1 = (if gett (luaX_next ?b) = TK_INT then seminfo_i (ls_t (luaX_next ?b)) else 1)"
    "[fresh_block False] = fs_bl (ls_fs (if gett (luaX_next ?b) = TK_INT
        then luaX_next (luaX_next ?b) else luaX_next ?b))"
    "ContinueOutsideLoop (if gett (luaX_next ?b) = TK_INT
        then luaX_next (luaX_next ?b) else luaX_next ?b)
      = ThrowErr ''%s expected (got %s)'' [T TK_CONTINUE, T TK_END] ''this is invalid syntax.''"
    by (simp_all add: state_at_def luaX_setinput_def luaX_next_def llex_def gett_def mk_token_def
        lx_def no_func_def ContinueOutsideLoop_def default_config_def)
  have n: "nth_loop for_in_for_blocks (nat 2) = Some 3" "passed_upval for_in_for_blocks 3"
    "bl_nactvar (for_in_for_blocks ! 3) = 0" "bl_scopeend (for_in_for_blocks ! 3) = []"
    by (simp_all add: for_in_for_blocks_def fresh_block_def passed_upval_def NO_JUMP_def
        numeral_3_eq_3 numeral_2_eq_2)
  have m: "nth_loop [fresh_block False] (nat 1) = None"
    by (simp add: fresh_block_def)
  from continuestat_walk [OF a(1) refl a(2), of 3] n(1)
  have "\<exists>ls'. continuestat ?a = Done ls'
          \<and> fs_code (ls_fs ls') =
              fs_code (ls_fs (if gett (luaX_next ?a) = TK_INT
                 then luaX_next (luaX_next ?a) else luaX_next ?a))
              @ (if passed_upval for_in_for_blocks 3
                 then [mkABCk OP_CLOSE (int (bl_nactvar (for_in_for_blocks ! 3))) 0 0 False]
                 else [])
              @ [CREATE_sJ OP_JMP (- 1) False]
          \<and> fs_bl (ls_fs ls') =
              for_in_for_blocks[3 := (for_in_for_blocks ! 3)\<lparr>bl_scopeend :=
                  bl_scopeend (for_in_for_blocks ! 3) @ [length (fs_code (ls_fs ls')) - 1]\<rparr>]"
    by simp
  then obtain ls' where d: "continuestat ?a = Done ls'"
    and c: "fs_code (ls_fs ls') = [mkABCk OP_CLOSE 0 0 0 False, CREATE_sJ OP_JMP (- 1) False]"
    and f: "fs_bl (ls_fs ls') =
              for_in_for_blocks[3 := (for_in_for_blocks ! 3)\<lparr>bl_scopeend :=
                  bl_scopeend (for_in_for_blocks ! 3) @ [length (fs_code (ls_fs ls')) - 1]\<rparr>]"
    unfolding a(3) n(3) n(4) using n(2) by auto
  have g: "bl_scopeend (fs_bl (ls_fs ls') ! 3) = [1]"
    unfolding f c n(4) by (simp add: for_in_for_blocks_def)
  from d c g have 1: "\<exists>ls'. continuestat ?a = Done ls'
          \<and> fs_code (ls_fs ls')
              = [mkABCk OP_CLOSE 0 0 0 False, CREATE_sJ OP_JMP (- 1) False]
          \<and> bl_scopeend (fs_bl (ls_fs ls') ! 3) = [1]"
    by (intro exI conjI)
  from continuestat_walk [OF b(1) refl b(2), of 0] m
  have 2: "continuestat ?b
       = Fail (ThrowErr ''%s expected (got %s)'' [T TK_CONTINUE, T TK_END]
                 ''this is invalid syntax.'')"
    unfolding b(3) by simp
  from n(1) n(2) 1 m 2 show ?thesis
    by (intro conjI)
qed

text \<open>
  Inside two nested generic \<^verbatim>\<open>for\<close> loops, \<^verbatim>\<open>continue 2\<close> passes the body block of the
  inner loop, whose upvalue bit is clear, and the loop block of the inner loop, whose bit
  is set: no block that is not a loop contributes a bit, and a \<open>CLOSE\<close> is emitted.
\<close>

theorem close_for_passed_loop:
  "emitted_opcodes (continuestat (state_at TK_CONTINUE [lx_int 2 3, lx TK_END 4] for_in_for_blocks))
     = [OP_CLOSE, OP_JMP]
   \<and> passed_nonloop_upval for_in_for_blocks 3 = False"
  by (simp add: ev lexemes emitted_opcodes_def state_at_def for_in_for_blocks_def fresh_block_def
      passed_nonloop_upval_def numeral_3_eq_3 cong: evcong)

text \<open>
  The chunk \<^verbatim>\<open>for k in f do for j in g do continue 2 end end\<close> reaches that chain of
  blocks: the \<open>CLOSE\<close> and the jump of its \<^verbatim>\<open>continue 2\<close> are the instructions 7 and 8.
\<close>

lemma continue_two_chunk_opcodes:
  "opcodes (luaY_parser 14 default_config continue_two_chunk)
     = [OP_VARARGPREP, OP_GETTABUP, OP_LOADNIL, OP_TFORPREP, OP_GETTABUP, OP_LOADNIL,
        OP_TFORPREP, OP_CLOSE, OP_JMP, OP_TFORCALL, OP_TFORLOOP, OP_CLOSE, OP_TFORCALL,
        OP_TFORLOOP, OP_CLOSE, OP_RETURN]"
  by (simp add: ev lexemes opcodes_def continue_two_chunk_def cong: evcong)

section \<open>A continue below a case\<close>

text \<open>
  C2. In \<^verbatim>\<open>while true do switch x do case 1: do continue end end end\<close> the
  \<^verbatim>\<open>continue\<close> stands in a block of its own inside the case, so \<^verbatim>\<open>caselist\<close> does not
  see it. The first loop block \<^verbatim>\<open>continuestat\<close> meets is the block of the
  \<^verbatim>\<open>switch\<close>, which \<^verbatim>\<open>switchstat\<close> enters as a loop block and whose list
  \<^verbatim>\<open>scopeend\<close> it never patches. The chunk is accepted, and the three jumps of its code
  are the jump over the case at position 3, the jump of the \<^verbatim>\<open>continue\<close> at position
  4 and the jump back to the loop's start, position 1, at position 5: the jump of the
  \<^verbatim>\<open>continue\<close> was never patched and has its own position as its target. With
  \<^verbatim>\<open>if x then\<close> in the place of the \<^verbatim>\<open>switch\<close> the same jump goes to the loop's
  start.
\<close>

theorem C2_continue_below_case_unpatched:
  "jump_targets (luaY_parser 14 default_config continue_below_case_chunk)
     = [(3, 5), (4, 4), (5, 1)]
   \<and> jump_targets (luaY_parser 14 default_config continue_below_if_chunk)
     = [(3, 5), (4, 1), (5, 1)]"
  by (simp add: ev lexemes instructions_def jump_targets_def continue_below_case_chunk_def
      continue_below_if_chunk_def cong: evcong)

section \<open>A goto and the label that resolves it\<close>

lemma solvegoto_fails:
  "lb_nactvar (dyd_gt ls ! g) < lb_nactvar label \<Longrightarrow> solvegoto ls g label = Fail (scope_error ls g)"
  by (simp add: solvegoto_def Let_def jumpscopeerror_def luaK_semerror_def scope_error_def
      JumpIntoScope_def)

lemma solvegoto_ok:
  "\<not> lb_nactvar (dyd_gt ls ! g) < lb_nactvar label \<Longrightarrow>
     solvegoto ls g label
       = Done ((luaK_patchlist ls (lb_pc (dyd_gt ls ! g)) (lb_pc label))
                 \<lparr>dyd_gt := take g (dyd_gt ls) @ drop (Suc g) (dyd_gt ls)\<rparr>)"
  by (simp add: solvegoto_def Let_def luaK_patchlist_def set_code_def)

lemma solvegotos_from_ok:
  "(\<forall>g\<ge>i. \<not> enters_scope ls (lb_name lb) (lb_nactvar lb) g) \<Longrightarrow>
     is_Done (solvegotos_from ls lb i nc)"
proof (induction ls lb i nc rule: solvegotos_from.induct)
  case (1 ls lb i needsclose)
  show ?case
  proof (cases "i < length (dyd_gt ls)")
    case False
    then show ?thesis
      by (simp add: solvegotos_from.simps [of ls lb i needsclose])
  next
    case True
    show ?thesis
    proof (cases "lb_name (dyd_gt ls ! i) = lb_name lb")
      case False
      with True 1 show ?thesis
        by (simp add: solvegotos_from.simps [of ls lb i needsclose])
    next
      case same: True
      from 1(3) True same have ok: "\<not> lb_nactvar (dyd_gt ls ! i) < lb_nactvar lb"
        by (auto simp: enters_scope_def)
      let ?ls' = "(luaK_patchlist ls (lb_pc (dyd_gt ls ! i)) (lb_pc lb))
                 \<lparr>dyd_gt := take i (dyd_gt ls) @ drop (Suc i) (dyd_gt ls)\<rparr>"
      have s: "solvegoto ls i lb = Done ?ls'"
        using ok by (rule solvegoto_ok)
      have "\<forall>g\<ge>i. \<not> enters_scope ?ls' (lb_name lb) (lb_nactvar lb) g"
      proof (intro allI impI)
        fix g assume "i \<le> g"
        with 1(3) have "\<not> enters_scope ls (lb_name lb) (lb_nactvar lb) (Suc g)"
          by simp
        with \<open>i \<le> g\<close> True show "\<not> enters_scope ?ls' (lb_name lb) (lb_nactvar lb) g"
          by (auto simp: enters_scope_def nth_append min_def)
      qed
      from 1(1) [OF True same s this] True same s show ?thesis
        by (simp add: solvegotos_from.simps [of ls lb i needsclose])
    qed
  qed
qed

lemma solvegotos_from_fails:
  "\<exists>g\<ge>i. enters_scope ls (lb_name lb) (lb_nactvar lb) g \<Longrightarrow>
     \<exists>g\<ge>i. enters_scope ls (lb_name lb) (lb_nactvar lb) g
        \<and> solvegotos_from ls lb i nc = Fail (scope_error ls g)"
proof (induction ls lb i nc rule: solvegotos_from.induct)
  case (1 ls lb i needsclose)
  from 1(3) obtain g where g: "i \<le> g" "enters_scope ls (lb_name lb) (lb_nactvar lb) g"
    by blast
  then have True: "i < length (dyd_gt ls)"
    by (simp add: enters_scope_def)
  show ?case
  proof (cases "lb_name (dyd_gt ls ! i) = lb_name lb")
    case False
    with g have "Suc i \<le> g"
      by (cases "g = i") (auto simp: enters_scope_def)
    with g have "\<exists>g\<ge>i + 1. enters_scope ls (lb_name lb) (lb_nactvar lb) g"
      by auto
    from 1(2) [OF True False this] obtain g' where
      "i + 1 \<le> g'" "enters_scope ls (lb_name lb) (lb_nactvar lb) g'"
      "solvegotos_from ls lb (i + 1) needsclose = Fail (scope_error ls g')"
      by blast
    with True False show ?thesis
      by (intro exI [of _ g']) (simp add: solvegotos_from.simps [of ls lb i needsclose])
  next
    case same: True
    show ?thesis
    proof (cases "lb_nactvar (dyd_gt ls ! i) < lb_nactvar lb")
      case bad: True
      with True same have "enters_scope ls (lb_name lb) (lb_nactvar lb) i"
        by (simp add: enters_scope_def)
      moreover from bad True same have "solvegotos_from ls lb i needsclose = Fail (scope_error ls i)"
        by (simp add: solvegotos_from.simps [of ls lb i needsclose] solvegoto_fails)
      ultimately show ?thesis
        by blast
    next
      case ok: False
      let ?ls' = "(luaK_patchlist ls (lb_pc (dyd_gt ls ! i)) (lb_pc lb))
                 \<lparr>dyd_gt := take i (dyd_gt ls) @ drop (Suc i) (dyd_gt ls)\<rparr>"
      have s: "solvegoto ls i lb = Done ?ls'"
        using ok by (rule solvegoto_ok)
      from g ok same have "i \<noteq> g"
        by (auto simp: enters_scope_def)
      with g have gi: "i \<le> g - 1" "Suc (g - 1) = g"
        by auto
      have shift: "\<And>h. i \<le> h \<Longrightarrow> enters_scope ?ls' (lb_name lb) (lb_nactvar lb) h
                      = enters_scope ls (lb_name lb) (lb_nactvar lb) (Suc h)"
        using True by (auto simp: enters_scope_def nth_append min_def)
      have err: "\<And>h. i \<le> h \<Longrightarrow> Suc h < length (dyd_gt ls) \<Longrightarrow>
                      scope_error ?ls' h = scope_error ls (Suc h)"
        using True
        by (auto simp: scope_error_def nth_append min_def getlocalvardesc_def luaK_patchlist_def
            set_code_def)
      from gi g shift [of "g - 1"] have "\<exists>h\<ge>i. enters_scope ?ls' (lb_name lb) (lb_nactvar lb) h"
        by auto
      from 1(1) [OF True same s this] obtain h where h: "i \<le> h"
        "enters_scope ?ls' (lb_name lb) (lb_nactvar lb) h"
        "solvegotos_from ?ls' lb i (needsclose \<or> lb_close (dyd_gt ls ! i)) = Fail (scope_error ?ls' h)"
        by blast
      from h shift [of h] have e: "enters_scope ls (lb_name lb) (lb_nactvar lb) (Suc h)"
        by simp
      then have "Suc h < length (dyd_gt ls)"
        by (simp add: enters_scope_def)
      with h err [of h] have "solvegotos_from ?ls' lb i (needsclose \<or> lb_close (dyd_gt ls ! i))
           = Fail (scope_error ls (Suc h))"
        by simp
      with True same s have "solvegotos_from ls lb i needsclose = Fail (scope_error ls (Suc h))"
        by (simp add: solvegotos_from.simps [of ls lb i needsclose])
      with e h(1) show ?thesis
        by (intro exI [of _ "Suc h"]) simp
    qed
  qed
qed

lemma createlabel_solvegotos:
  "createlabel ls name line islast =
     bindR (solvegotos_from
              ((snd (luaK_getlabel ls))\<lparr>dyd_label := dyd_label ls @
                 [\<lparr>lb_name = name, lb_pc = fs_pc (ls_fs ls), lb_line = line,
                   lb_nactvar = label_level ls islast, lb_close = False\<rparr>]\<rparr>)
              \<lparr>lb_name = name, lb_pc = fs_pc (ls_fs ls), lb_line = line,
               lb_nactvar = label_level ls islast, lb_close = False\<rparr>
              (bl_firstgoto (hd (fs_bl (ls_fs ls)))) False)
       (\<lambda>(needsclose, ls2).
          if needsclose
          then Done (True, snd (luaK_codeABC ls2 OP_CLOSE (luaY_nvarstack ls2) 0 0))
          else Done (False, ls2))"
  by (simp add: createlabel_def luaK_getlabel_def newlabelentry_def Let_def solvegotos_def
      label_level_def)

lemma createlabel_Done_iff:
  "is_Done (createlabel ls name line islast) \<longleftrightarrow>
     (\<forall>g\<ge>bl_firstgoto (hd (fs_bl (ls_fs ls))).
        \<not> enters_scope ls name (label_level ls islast) g)"
proof -
  let ?lb = "\<lparr>lb_name = name, lb_pc = fs_pc (ls_fs ls), lb_line = line,
               lb_nactvar = label_level ls islast, lb_close = False\<rparr>"
  let ?ls = "(snd (luaK_getlabel ls))\<lparr>dyd_label := dyd_label ls @ [?lb]\<rparr>"
  let ?i = "bl_firstgoto (hd (fs_bl (ls_fs ls)))"
  have e: "\<And>g. enters_scope ?ls (lb_name ?lb) (lb_nactvar ?lb) g
             = enters_scope ls name (label_level ls islast) g"
    by (simp add: enters_scope_def luaK_getlabel_def)
  show ?thesis
  proof
    assume d: "is_Done (createlabel ls name line islast)"
    show "\<forall>g\<ge>?i. \<not> enters_scope ls name (label_level ls islast) g"
    proof (rule ccontr)
      assume "\<not> (\<forall>g\<ge>?i. \<not> enters_scope ls name (label_level ls islast) g)"
      then have "\<exists>g\<ge>?i. enters_scope ?ls (lb_name ?lb) (lb_nactvar ?lb) g"
        unfolding e by blast
      from solvegotos_from_fails [OF this, of False] d show False
        by (auto simp: createlabel_solvegotos)
    qed
  next
    assume "\<forall>g\<ge>?i. \<not> enters_scope ls name (label_level ls islast) g"
    then have "\<forall>g\<ge>?i. \<not> enters_scope ?ls (lb_name ?lb) (lb_nactvar ?lb) g"
      unfolding e .
    from solvegotos_from_ok [OF this, of False]
    show "is_Done (createlabel ls name line islast)"
      by (cases "solvegotos_from ?ls ?lb ?i False")
        (auto simp: createlabel_solvegotos)
  qed
qed

lemma createlabel_fails:
  assumes "\<not> is_Done (createlabel ls name line islast)"
  shows "\<exists>g\<ge>bl_firstgoto (hd (fs_bl (ls_fs ls))).
           enters_scope ls name (label_level ls islast) g
           \<and> createlabel ls name line islast = Fail (scope_error ls g)"
proof -
  let ?lb = "\<lparr>lb_name = name, lb_pc = fs_pc (ls_fs ls), lb_line = line,
               lb_nactvar = label_level ls islast, lb_close = False\<rparr>"
  let ?ls = "(snd (luaK_getlabel ls))\<lparr>dyd_label := dyd_label ls @ [?lb]\<rparr>"
  let ?i = "bl_firstgoto (hd (fs_bl (ls_fs ls)))"
  have e: "\<And>g. enters_scope ?ls (lb_name ?lb) (lb_nactvar ?lb) g
             = enters_scope ls name (label_level ls islast) g"
    by (simp add: enters_scope_def luaK_getlabel_def)
  have s: "\<And>g. scope_error ?ls g = scope_error ls g"
    by (simp add: scope_error_def luaK_getlabel_def getlocalvardesc_def)
  from assms have "\<exists>g\<ge>?i. enters_scope ?ls (lb_name ?lb) (lb_nactvar ?lb) g"
    unfolding createlabel_Done_iff e by blast
  from solvegotos_from_fails [OF this, of False] show ?thesis
    unfolding e s by (auto simp: createlabel_solvegotos)
qed

lemma block_follow_ends_block: "block_follow ls False = ends_block ls"
  by (simp add: block_follow_def ends_block_def)

lemma labelstat_createlabel:
  assumes "checknext ls TK_DBCOLON = Done ls0" and "labelstat_loop R ls0 = Done ls1"
    and "findlabel ls1 name = None"
  shows "labelstat R ls name line
           = bindR (createlabel ls1 name line (ends_block ls1)) (\<lambda>(c, ls). Done ls)"
  using assms by (simp add: labelstat_def checkrepeated_def block_follow_ends_block)

lemma is_Done_bindR_Done:
  "is_Done (bindR m (\<lambda>(c, ls). Done ls)) = is_Done m"
  by (cases m) (simp_all add: case_prod_unfold)

lemma Fail_bindR_Done:
  "m = Fail e \<Longrightarrow> bindR m (\<lambda>(c, ls). Done ls) = Fail e"
  by simp

text \<open>
  C1. A pending goto whose count of active variables is smaller than the label's is not
  resolved: \<^verbatim>\<open>solvegoto\<close> fails with \<open>JumpIntoScope\<close>, naming the local at the goto's
  count, the first local the jump would enter. For a label statement whose name is not yet
  a label of the function, let \<open>ls1\<close> be the state behind the label and the void
  statements that follow it. The statement succeeds exactly when no pending goto of the
  current block with the label's name has a smaller count than the label, and otherwise
  fails with that error for such a goto. The count of the label is the count at the
  entry of the block when the token in \<open>ls1\<close> is \<^verbatim>\<open>else\<close>, \<^verbatim>\<open>elseif\<close>, \<^verbatim>\<open>end\<close> or the
  end of the chunk, so that a goto of the same block in front of a local declaration is
  resolved there; in front of any other token, \<^verbatim>\<open>until\<close>, \<^verbatim>\<open>when\<close>, \<^verbatim>\<open>case\<close> and
  \<^verbatim>\<open>default\<close> among them, it is the current count.
\<close>

theorem C1_goto_into_scope:
  assumes "checknext ls TK_DBCOLON = Done ls0" and "labelstat_loop R ls0 = Done ls1"
    and "findlabel ls1 name = None"
  shows
   "(lb_nactvar (dyd_gt ls1 ! g) < lb_nactvar label \<longrightarrow>
      solvegoto ls1 g label = Fail (scope_error ls1 g))
    \<and> label_level ls1 (ends_block ls1)
        = (if gett ls1 \<in> {TK_ELSE, TK_ELSEIF, TK_END, TK_EOS}
           then bl_nactvar (hd (fs_bl (ls_fs ls1))) else fs_nactvar (ls_fs ls1))
    \<and> (is_Done (labelstat R ls name line) \<longleftrightarrow>
         (\<forall>h\<ge>bl_firstgoto (hd (fs_bl (ls_fs ls1))).
            \<not> enters_scope ls1 name (label_level ls1 (ends_block ls1)) h))
    \<and> (\<not> is_Done (labelstat R ls name line) \<longrightarrow>
         (\<exists>h\<ge>bl_firstgoto (hd (fs_bl (ls_fs ls1))).
            enters_scope ls1 name (label_level ls1 (ends_block ls1)) h
            \<and> labelstat R ls name line = Fail (scope_error ls1 h)))"
proof -
  note l = labelstat_createlabel [OF assms, of line]
  have 1: "lb_nactvar (dyd_gt ls1 ! g) < lb_nactvar label \<longrightarrow>
      solvegoto ls1 g label = Fail (scope_error ls1 g)"
    using solvegoto_fails [of ls1 g label] by simp
  have 2: "label_level ls1 (ends_block ls1)
        = (if gett ls1 \<in> {TK_ELSE, TK_ELSEIF, TK_END, TK_EOS}
           then bl_nactvar (hd (fs_bl (ls_fs ls1))) else fs_nactvar (ls_fs ls1))"
    by (simp add: label_level_def ends_block_def)
  have 3: "is_Done (labelstat R ls name line) \<longleftrightarrow>
         (\<forall>h\<ge>bl_firstgoto (hd (fs_bl (ls_fs ls1))).
            \<not> enters_scope ls1 name (label_level ls1 (ends_block ls1)) h)"
    unfolding l is_Done_bindR_Done by (rule createlabel_Done_iff)
  have 4: "\<not> is_Done (labelstat R ls name line) \<longrightarrow>
         (\<exists>h\<ge>bl_firstgoto (hd (fs_bl (ls_fs ls1))).
            enters_scope ls1 name (label_level ls1 (ends_block ls1)) h
            \<and> labelstat R ls name line = Fail (scope_error ls1 h))"
  proof
    assume "\<not> is_Done (labelstat R ls name line)"
    then have "\<not> is_Done (createlabel ls1 name line (ends_block ls1))"
      unfolding l is_Done_bindR_Done .
    from createlabel_fails [OF this] obtain h where
      h: "bl_firstgoto (hd (fs_bl (ls_fs ls1))) \<le> h"
         "enters_scope ls1 name (label_level ls1 (ends_block ls1)) h"
         "createlabel ls1 name line (ends_block ls1) = Fail (scope_error ls1 h)"
      by (elim exE conjE)
    from h(3) have "labelstat R ls name line = Fail (scope_error ls1 h)"
      unfolding l by (rule Fail_bindR_Done)
    with h(1,2) show "\<exists>h\<ge>bl_firstgoto (hd (fs_bl (ls_fs ls1))).
            enters_scope ls1 name (label_level ls1 (ends_block ls1)) h
            \<and> labelstat R ls name line = Fail (scope_error ls1 h)"
      by (intro exI [of _ h] conjI)
  qed
  from 1 2 3 4 show ?thesis
    by (intro conjI)
qed

theorem C1_goto_into_scope_witness:
  "checknext (pending_goto_state [lx TK_UNTIL 4]) TK_DBCOLON
     = Done (luaX_next (pending_goto_state [lx TK_UNTIL 4]))
   \<and> labelstat_loop (parser_at 1) (luaX_next (pending_goto_state [lx TK_UNTIL 4]))
     = Done (luaX_next (pending_goto_state [lx TK_UNTIL 4]))
   \<and> findlabel (luaX_next (pending_goto_state [lx TK_UNTIL 4])) ''fwd'' = None
   \<and> gett (luaX_next (pending_goto_state [lx TK_UNTIL 4])) = TK_UNTIL
   \<and> labelstat (parser_at 1) (pending_goto_state [lx TK_UNTIL 4]) ''fwd'' 3
       = Fail (JumpIntoScope ''fwd'' 1 ''x'')
   \<and> checknext (pending_goto_state [lx TK_END 4]) TK_DBCOLON
     = Done (luaX_next (pending_goto_state [lx TK_END 4]))
   \<and> labelstat_loop (parser_at 1) (luaX_next (pending_goto_state [lx TK_END 4]))
     = Done (luaX_next (pending_goto_state [lx TK_END 4]))
   \<and> findlabel (luaX_next (pending_goto_state [lx TK_END 4])) ''fwd'' = None
   \<and> gett (luaX_next (pending_goto_state [lx TK_END 4])) = TK_END
   \<and> is_Done (labelstat (parser_at 1) (pending_goto_state [lx TK_END 4]) ''fwd'' 3)"
proof -
  let ?u = "pending_goto_state [lx TK_UNTIL 4]"
  let ?e = "pending_goto_state [lx TK_END 4]"
  note d = pending_goto_state_def one_local_state_def fresh_block_def luaX_setinput_def
    no_func_def luaX_next_def llex_def mk_token_def gett_def lexemes default_config_def
  have u: "checknext ?u TK_DBCOLON = Done (luaX_next ?u)"
    "labelstat_loop (parser_at 1) (luaX_next ?u) = Done (luaX_next ?u)"
    "findlabel (luaX_next ?u) ''fwd'' = None"
    by (simp_all add: checknext_def check_def labelstat_loop_def findlabel_def d)
  have e: "checknext ?e TK_DBCOLON = Done (luaX_next ?e)"
    "labelstat_loop (parser_at 1) (luaX_next ?e) = Done (luaX_next ?e)"
    "findlabel (luaX_next ?e) ''fwd'' = None"
    by (simp_all add: checknext_def check_def labelstat_loop_def findlabel_def d)
  have vu: "gett (luaX_next ?u) = TK_UNTIL"
    "dyd_gt (luaX_next ?u) = [\<lparr>lb_name = ''fwd'', lb_pc = [], lb_line = 1, lb_nactvar = 0,
                   lb_close = False\<rparr>]"
    "label_level (luaX_next ?u) (ends_block (luaX_next ?u)) = 1"
    "bl_firstgoto (hd (fs_bl (ls_fs (luaX_next ?u)))) = 0"
    by (simp_all add: label_level_def ends_block_def d)
  have ve: "gett (luaX_next ?e) = TK_END"
    "dyd_gt (luaX_next ?e) = [\<lparr>lb_name = ''fwd'', lb_pc = [], lb_line = 1, lb_nactvar = 0,
                   lb_close = False\<rparr>]"
    "label_level (luaX_next ?e) (ends_block (luaX_next ?e)) = 0"
    by (simp_all add: label_level_def ends_block_def d)
  have se: "scope_error (luaX_next ?u) 0 = JumpIntoScope ''fwd'' 1 ''x''"
    by (simp add: scope_error_def vu(2) getlocalvardesc_def d)
  have b: "enters_scope (luaX_next ?u) ''fwd''
             (label_level (luaX_next ?u) (ends_block (luaX_next ?u))) 0"
    by (simp add: enters_scope_def vu)
  have o: "\<And>h. enters_scope (luaX_next ?u) ''fwd''
             (label_level (luaX_next ?u) (ends_block (luaX_next ?u))) h \<Longrightarrow> h = 0"
    by (simp add: enters_scope_def vu)
  have g: "\<And>h. \<not> enters_scope (luaX_next ?e) ''fwd''
             (label_level (luaX_next ?e) (ends_block (luaX_next ?e))) h"
    by (simp add: enters_scope_def ve)
  note tu = C1_goto_into_scope [OF u, of 0 _ 3]
  note te = C1_goto_into_scope [OF e, of 0 _ 3]
  from tu [THEN conjunct2, THEN conjunct2, THEN conjunct1] b vu(4)
  have 1: "\<not> is_Done (labelstat (parser_at 1) ?u ''fwd'' 3)"
    by auto
  from tu [THEN conjunct2, THEN conjunct2, THEN conjunct2] 1 o
  have 2: "labelstat (parser_at 1) ?u ''fwd'' 3 = Fail (scope_error (luaX_next ?u) 0)"
    by auto
  from te [THEN conjunct2, THEN conjunct2, THEN conjunct1] g
  have 3: "is_Done (labelstat (parser_at 1) ?e ''fwd'' 3)"
    by auto
  from u vu(1) 2 [unfolded se] e ve(1) 3 show ?thesis
    by (intro conjI)
qed

text \<open>
  The chunk \<^verbatim>\<open>goto fwd  local v  ::fwd::\<close> has the goto, the declaration and the label
  in one block, and is accepted: the label ends the block.
\<close>

theorem C1_label_at_block_end:
  "opcodes (luaY_parser 12 default_config goto_local_label_chunk)
     = [OP_VARARGPREP, OP_JMP, OP_LOADNIL, OP_RETURN]"
  by (simp add: ev lexemes opcodes_def goto_local_label_chunk_def cong: evcong)

text \<open>
  With a statement after the label the chunk is rejected, and the error names \<open>v\<close>. So
  are chunks in which the label is the last statement of the body of a \<^verbatim>\<open>repeat\<close> loop,
  in front of \<^verbatim>\<open>until\<close>, and of a case that is not the last one of its \<^verbatim>\<open>switch\<close>, in
  front of \<^verbatim>\<open>case\<close>. With two locals declared between the goto and the label, the
  error names the first.
\<close>

lemma goto_local_label_use_rejected:
  "luaY_parser 12 default_config goto_local_label_use_chunk
     = Fail (JumpIntoScope ''fwd'' 1 ''v'')"
  by (simp add: ev lexemes goto_local_label_use_chunk_def goto_local_label_chunk_def
      JumpIntoScope_def cong: evcong)

lemma goto_in_repeat_rejected:
  "luaY_parser 14 default_config goto_in_repeat_chunk = Fail (JumpIntoScope ''fwd'' 1 ''v'')"
  by (simp add: ev lexemes goto_in_repeat_chunk_def JumpIntoScope_def cong: evcong)

lemma goto_in_case_rejected:
  "luaY_parser 14 default_config goto_in_case_chunk = Fail (JumpIntoScope ''fwd'' 1 ''v'')"
  by (simp add: ev lexemes goto_in_case_chunk_def JumpIntoScope_def cong: evcong)

lemma goto_two_locals_rejected:
  "luaY_parser 14 default_config goto_two_locals_chunk = Fail (JumpIntoScope ''fwd'' 1 ''a'')"
  by (simp add: ev lexemes goto_two_locals_chunk_def JumpIntoScope_def cong: evcong)

section \<open>Expressions by precedence climbing\<close>

lemma bindR_Done_iff: "bindR m f = Done y \<longleftrightarrow> (\<exists>x. m = Done x \<and> f x = Done y)"
  by (cases m) simp_all

lemma priority_table:
  "map (\<lambda>op. (left_priority op, right_priority op))
     [OPR_ADD, OPR_SUB, OPR_MUL, OPR_MOD, OPR_DIV, OPR_IDIV, OPR_POW, OPR_BAND, OPR_BXOR,
      OPR_BOR, OPR_SHL, OPR_SHR, OPR_CONCAT, OPR_EQ, OPR_LT, OPR_LE, OPR_NE, OPR_GT, OPR_GE,
      OPR_AND, OPR_OR, OPR_COAL]
   = [(10, 10), (10, 10), (11, 11), (11, 11), (11, 11), (11, 11), (14, 13), (6, 6), (5, 5),
      (4, 4), (7, 7), (7, 7), (9, 8), (3, 3), (3, 3), (3, 3), (3, 3), (3, 3), (3, 3),
      (2, 2), (1, 1), (1, 1)]"
  by (simp add: left_priority_def right_priority_def priority_def opr_index_def)

lemma unary_tokens:
  "getunopr t \<noteq> OPR_NOUNOPR \<longleftrightarrow>
     t \<in> {TK_NOT, TK_CHAR CHR ''-'', TK_CHAR CHR ''~'', TK_CHAR CHR ''#''}"
  by (simp add: getunopr_def)

lemma subexpr_prefix:
  "subexpr R ls limit =
     bindR (if getunopr (gett ls) \<noteq> OPR_NOUNOPR then
              bindR (r_subexpr R (luaX_next ls) 12) (\<lambda>(op, v, ls').
              luaK_prefix ls' (getunopr (gett ls)) v (ls_linenumber ls))
            else if gett ls = TK_IF then ifexpr R ls
            else if gett ls = TK_CHAR CHR ''+'' then
              bindR (luaK_infix ls OPR_ADD ((init_exp void_exp VKINT 0)\<lparr>e_ival := 0\<rparr>))
                (\<lambda>(v, ls1).
              bindR (r_subexpr R (luaX_next ls1) 10) (\<lambda>(op, v2, ls2).
              luaK_posfix ls2 OPR_ADD v v2 (ls_linenumber ls1)))
            else
              bindR (simpleexp R ls False) (\<lambda>(v, ls1).
              if gett ls1 = TK_IN then inexpr R ls1 v else Done (v, ls1)))
       (\<lambda>(v, ls1). subexpr_loop R ls1 v limit (getbinopr (gett ls1)))"
  by (simp add: subexpr_def UNARY_PRIORITY_def Let_def right_priority_def priority_def
      opr_index_def cong del: bindR_weak_cong)

lemma subexpr_loop_fold:
  "subexpr_loop R ls v limit op =
     (if op \<noteq> OPR_NOBINOPR \<and> left_priority op > limit then
        bindR (luaK_infix (luaX_next ls) op v) (\<lambda>(v1, ls1).
        bindR (r_subexpr R ls1 (right_priority op)) (\<lambda>(nextop, v2, ls2).
        bindR (luaK_posfix ls2 op v1 v2 (ls_linenumber ls)) (\<lambda>(v3, ls3).
        r_subexpr_loop R ls3 v3 limit nextop)))
      else Done (op, v, ls))"
  by (simp add: subexpr_loop_def Let_def)

text \<open>
  The operator a run of the loop returns is the operator at the token where it stops, and
  one the loop does not take, when this is so for the recursive calls.
\<close>

lemma subexpr_loop_returns:
  assumes sub: "\<And>ls limit op v ls'. r_subexpr R ls limit = Done (op, v, ls')
                  \<Longrightarrow> op = getbinopr (gett ls')"
    and loop: "\<And>ls v0 limit op v ls'.
                  r_subexpr_loop R ls v0 limit (getbinopr (gett ls)) = Done (op, v, ls')
                  \<Longrightarrow> op = getbinopr (gett ls')
                      \<and> (op = OPR_NOBINOPR \<or> left_priority op \<le> limit)"
    and run: "subexpr_loop R ls v0 limit (getbinopr (gett ls)) = Done (op, v, ls')"
  shows "op = getbinopr (gett ls') \<and> (op = OPR_NOBINOPR \<or> left_priority op \<le> limit)"
proof (cases "getbinopr (gett ls) \<noteq> OPR_NOBINOPR \<and> left_priority (getbinopr (gett ls)) > limit")
  case False
  with run show ?thesis
    by (auto simp: subexpr_loop_fold)
next
  case True
  let ?op = "getbinopr (gett ls)"
  from run True have r: "bindR (luaK_infix (luaX_next ls) ?op v0) (\<lambda>(v1, ls1).
        bindR (r_subexpr R ls1 (right_priority ?op)) (\<lambda>(nextop, v2, ls2).
        bindR (luaK_posfix ls2 ?op v1 v2 (ls_linenumber ls)) (\<lambda>(v3, ls3).
        r_subexpr_loop R ls3 v3 limit nextop))) = Done (op, v, ls')"
    by (simp add: subexpr_loop_fold)
  then obtain x1 where 1: "luaK_infix (luaX_next ls) ?op v0 = Done x1"
    and r1: "bindR (r_subexpr R (snd x1) (right_priority ?op)) (\<lambda>(nextop, v2, ls2).
        bindR (luaK_posfix ls2 ?op (fst x1) v2 (ls_linenumber ls)) (\<lambda>(v3, ls3).
        r_subexpr_loop R ls3 v3 limit nextop)) = Done (op, v, ls')"
    unfolding bindR_Done_iff [of "luaK_infix (luaX_next ls) ?op v0"]
    by (auto simp: case_prod_unfold cong del: bindR_weak_cong)
  from r1 obtain x2 where 2: "r_subexpr R (snd x1) (right_priority ?op) = Done x2"
    and r2: "bindR (luaK_posfix (snd (snd x2)) ?op (fst x1) (fst (snd x2)) (ls_linenumber ls))
        (\<lambda>(v3, ls3). r_subexpr_loop R ls3 v3 limit (fst x2)) = Done (op, v, ls')"
    unfolding bindR_Done_iff [of "r_subexpr R (snd x1) (right_priority ?op)"]
    by (auto simp: case_prod_unfold cong del: bindR_weak_cong)
  from r2 obtain x3 where
    3: "luaK_posfix (snd (snd x2)) ?op (fst x1) (fst (snd x2)) (ls_linenumber ls) = Done x3"
    and r3: "r_subexpr_loop R (snd x3) (fst x3) limit (fst x2) = Done (op, v, ls')"
    unfolding bindR_Done_iff
      [of "luaK_posfix (snd (snd x2)) ?op (fst x1) (fst (snd x2)) (ls_linenumber ls)"]
    by (auto simp: case_prod_unfold cong del: bindR_weak_cong)
  from 2 have "r_subexpr R (snd x1) (right_priority ?op) = Done (fst x2, fst (snd x2), snd (snd x2))"
    by simp
  from sub [OF this] have n: "fst x2 = getbinopr (gett (snd (snd x2)))" .
  have "keeps1 (ls_t (snd (snd x2)))
          (luaK_posfix (snd (snd x2)) ?op (fst x1) (fst (snd x2)) (ls_linenumber ls))"
    by (rule tok_luaK_posfix) simp
  with 3 have "ls_t (snd x3) = ls_t (snd (snd x2))"
    by (simp add: keeps1_def)
  then have "gett (snd x3) = gett (snd (snd x2))"
    by (simp add: gett_def)
  with n r3 have "r_subexpr_loop R (snd x3) (fst x3) limit (getbinopr (gett (snd x3)))
      = Done (op, v, ls')"
    by simp
  from loop [OF this] show ?thesis .
qed

lemma subexpr_returns_step:
  assumes sub: "\<And>ls limit op v ls'. r_subexpr R ls limit = Done (op, v, ls')
                  \<Longrightarrow> op = getbinopr (gett ls')"
    and loop: "\<And>ls v0 limit op v ls'.
                  r_subexpr_loop R ls v0 limit (getbinopr (gett ls)) = Done (op, v, ls')
                  \<Longrightarrow> op = getbinopr (gett ls')
                      \<and> (op = OPR_NOBINOPR \<or> left_priority op \<le> limit)"
    and run: "subexpr R ls limit = Done (op, v, ls')"
  shows "op = getbinopr (gett ls') \<and> (op = OPR_NOBINOPR \<or> left_priority op \<le> limit)"
proof -
  from run obtain x where
    x: "subexpr_loop R (snd x) (fst x) limit (getbinopr (gett (snd x))) = Done (op, v, ls')"
    unfolding subexpr_prefix bindR_Done_iff by (auto simp: case_prod_unfold)
  show ?thesis
    apply (rule subexpr_loop_returns [of R])
      apply (erule sub)
     apply (erule loop)
    apply (rule x)
    done
qed

lemma subexpr_returns:
  "(\<forall>ls limit op v ls'. subexpr (parser_at n) ls limit = Done (op, v, ls')
      \<longrightarrow> op = getbinopr (gett ls') \<and> (op = OPR_NOBINOPR \<or> left_priority op \<le> limit))
   \<and> (\<forall>ls v0 limit op v ls'.
        subexpr_loop (parser_at n) ls v0 limit (getbinopr (gett ls)) = Done (op, v, ls')
      \<longrightarrow> op = getbinopr (gett ls') \<and> (op = OPR_NOBINOPR \<or> left_priority op \<le> limit))"
proof (induction n)
  case 0
  have sub: "\<And>ls limit op v ls'. r_subexpr (parser_at 0) ls limit = Done (op, v, ls')
                  \<Longrightarrow> op = getbinopr (gett ls')"
    by simp
  have loop: "\<And>ls v0 limit op v ls'.
                  r_subexpr_loop (parser_at 0) ls v0 limit (getbinopr (gett ls)) = Done (op, v, ls')
                  \<Longrightarrow> op = getbinopr (gett ls')
                      \<and> (op = OPR_NOBINOPR \<or> left_priority op \<le> limit)"
    by simp
  show ?case
  proof (rule conjI; intro allI impI)
    fix ls limit op v ls'
    assume run: "subexpr (parser_at 0) ls limit = Done (op, v, ls')"
    show "op = getbinopr (gett ls') \<and> (op = OPR_NOBINOPR \<or> left_priority op \<le> limit)"
      apply (rule subexpr_returns_step [of "parser_at 0"])
        apply (erule sub)
       apply (erule loop)
      apply (rule run)
      done
  next
    fix ls v0 limit op v ls'
    assume run: "subexpr_loop (parser_at 0) ls v0 limit (getbinopr (gett ls)) = Done (op, v, ls')"
    show "op = getbinopr (gett ls') \<and> (op = OPR_NOBINOPR \<or> left_priority op \<le> limit)"
      apply (rule subexpr_loop_returns [of "parser_at 0"])
        apply (erule sub)
       apply (erule loop)
      apply (rule run)
      done
  qed
next
  case (Suc n)
  have sub: "\<And>ls limit op v ls'. r_subexpr (parser_at (Suc n)) ls limit = Done (op, v, ls')
                  \<Longrightarrow> op = getbinopr (gett ls')"
    using Suc by simp
  have loop: "\<And>ls v0 limit op v ls'.
                  r_subexpr_loop (parser_at (Suc n)) ls v0 limit (getbinopr (gett ls))
                    = Done (op, v, ls')
                  \<Longrightarrow> op = getbinopr (gett ls')
                      \<and> (op = OPR_NOBINOPR \<or> left_priority op \<le> limit)"
    using Suc by simp
  show ?case
  proof (rule conjI; intro allI impI)
    fix ls limit op v ls'
    assume run: "subexpr (parser_at (Suc n)) ls limit = Done (op, v, ls')"
    show "op = getbinopr (gett ls') \<and> (op = OPR_NOBINOPR \<or> left_priority op \<le> limit)"
      apply (rule subexpr_returns_step [of "parser_at (Suc n)"])
        apply (erule sub)
       apply (erule loop)
      apply (rule run)
      done
  next
    fix ls v0 limit op v ls'
    assume run: "subexpr_loop (parser_at (Suc n)) ls v0 limit (getbinopr (gett ls)) = Done (op, v, ls')"
    show "op = getbinopr (gett ls') \<and> (op = OPR_NOBINOPR \<or> left_priority op \<le> limit)"
      apply (rule subexpr_loop_returns [of "parser_at (Suc n)"])
        apply (erule sub)
       apply (erule loop)
      apply (rule run)
      done
  qed
qed



end
